theory Spec2Isabelle
  imports Main
begin

section \<open>Go values used by pkg/schema\<close>

text \<open>
  The development embeds \<^verbatim>\<open>pkg/schema/schema.go\<close> of helm-schema. Go slices whose
  nil-ness the code observes are modelled as \<open>'a list option\<close> (\<open>None\<close> is the nil
  slice); \<open>elems\<close> reads the elements, \<open>append1\<close> is Go's \<^verbatim>\<open>append(s, x)\<close>.
\<close>

type_synonym 'a slice = "'a list option"

definition elems :: "'a slice \<Rightarrow> 'a list" where
  "elems s = (case s of None \<Rightarrow> [] | Some xs \<Rightarrow> xs)"

definition append1 :: "'a slice \<Rightarrow> 'a \<Rightarrow> 'a slice" where
  "append1 s x = Some (elems s @ [x])"

text \<open>\<^verbatim>\<open>Index\<close> and \<^verbatim>\<open>Contains\<close> (schema.go, the generic helpers at the end of the file).\<close>

fun Index_loop :: "'a list \<Rightarrow> 'a \<Rightarrow> int \<Rightarrow> int" where
  "Index_loop [] v i = - 1"
| "Index_loop (x # xs) v i = (if v = x then i else Index_loop xs v (i + 1))"

definition Index :: "'a list \<Rightarrow> 'a \<Rightarrow> int" where
  "Index s v = Index_loop s v 0"

definition Contains :: "'a list \<Rightarrow> 'a \<Rightarrow> bool" where
  "Contains s v = (Index s v \<ge> 0)"

text \<open>\<^verbatim>\<open>strings.HasPrefix\<close>, \<^verbatim>\<open>strings.TrimPrefix\<close> and \<^verbatim>\<open>strings.Join\<close>.\<close>

definition HasPrefix :: "string \<Rightarrow> string \<Rightarrow> bool" where
  "HasPrefix s p = (take (length p) s = p)"

definition TrimPrefix :: "string \<Rightarrow> string \<Rightarrow> string" where
  "TrimPrefix s p = (if HasPrefix s p then drop (length p) s else s)"

fun Join :: "string list \<Rightarrow> string \<Rightarrow> string" where
  "Join [] sep = []"
| "Join [x] sep = x"
| "Join (x # y # ys) sep = x @ sep @ Join (y # ys) sep"

text \<open>
  \<^verbatim>\<open>strings.Split(s, sep)\<close> for a one-character separator: the pieces between the
  occurrences of the separator, at least one piece.
\<close>

fun Split_loop :: "string \<Rightarrow> char \<Rightarrow> string \<Rightarrow> string list" where
  "Split_loop [] sep cur = [cur]"
| "Split_loop (c # cs) sep cur =
     (if c = sep then cur # Split_loop cs sep [] else Split_loop cs sep (cur @ [c]))"

definition Split :: "string \<Rightarrow> char \<Rightarrow> string list" where
  "Split s sep = Split_loop s sep []"

text \<open>The constants of schema.go.\<close>

definition SchemaPrefix :: string where "SchemaPrefix = ''# @schema''"
definition CommentPrefix :: string where "CommentPrefix = ''#''"
definition CustomAnnotationPrefix :: string where "CustomAnnotationPrefix = ''x-''"

definition nullTag :: string where "nullTag = ''!!null''"
definition boolTag :: string where "boolTag = ''!!bool''"
definition strTag :: string where "strTag = ''!!str''"
definition intTag :: string where "intTag = ''!!int''"
definition floatTag :: string where "floatTag = ''!!float''"
definition timestampTag :: string where "timestampTag = ''!!timestamp''"
definition arrayTag :: string where "arrayTag = ''!!seq''"
definition mapTag :: string where "mapTag = ''!!map''"

subsection \<open>JSON documents and interface values\<close>

text \<open>
  A JSON document as \<^verbatim>\<open>encoding/json\<close> reads and writes it; a number keeps its
  literal text. \<open>any\<close> is a Go value held in an \<^verbatim>\<open>interface{}\<close>: \<open>ANil\<close> is the
  nil interface, \<open>AFloat\<close> a float64 named by the literal it was parsed from, and
  \<open>AOther\<close> a value \<^verbatim>\<open>encoding/json\<close> cannot encode (such as the
  \<^verbatim>\<open>map[interface{}]interface{}\<close> that yaml.v3 builds for non-string keys).
\<close>

datatype json = JNull | JBool bool | JNum string | JStr string
  | JArr "json list" | JObj "(string \<times> json) list"

datatype any = ANil | ABool bool | AInt int | AFloat string | AStr string
  | AList "any list" | AMap "(string \<times> any) list" | AOther string

subsection \<open>Errors\<close>

text \<open>
  One constructor for each error the package builds with \<^verbatim>\<open>fmt.Errorf\<close> or
  \<^verbatim>\<open>errors.New\<close>, in the order of the source, one for errors handed up from a library
  (\<open>LibraryError\<close>, with the library's message), and the two ways the process stops:
  \<open>Fatal\<close> for \<^verbatim>\<open>log.Fatal\<close>/\<^verbatim>\<open>log.Fatalf\<close> and \<open>Panic\<close> for a Go run-time panic.
\<close>

datatype error =
    LibraryError string
  | CouldNotUnmarshalBoolOrStrings
  | UnsupportedType
  | PatternNeedsString
  | FormatNeedsString
  | MinLengthGreaterMaxLength
  | FormatAndPattern
  | ItemsNeedArray
  | MinMaxItemsNeedArray
  | MinItemsGreaterMaxItems
  | ConstWithType
  | EnumWithType
  | FormatNotSupported string
  | MinimumNeedsNumber
  | MaximumNeedsNumber
  | ExclusiveMinimumNeedsNumber
  | ExclusiveMaximumNeedsNumber
  | MultipleOfNeedsNumber
  | MultipleOfNotPositive
  | MinimumAndExclusiveMinimum
  | MaximumAndExclusiveMaximum
  | UnclosedSchemaBlock string
  | UnsupportedYamlTag string
  | UnknownHelmDocsType string
  | Fatal error
  | Panic string

subsection \<open>YAML nodes\<close>

text \<open>
  \<^verbatim>\<open>yaml.Node\<close> of gopkg.in/yaml.v3, with the fields schema.go reads. The nodes are
  the parser's: \<open>Tag\<close> holds the resolved short tag, so \<^verbatim>\<open>ShortTag()\<close> returns it.
\<close>

datatype Kind = DocumentNode | SequenceNode | MappingNode | ScalarNode | AliasNode

datatype Node = Node
  (Kind: Kind)
  (Tag: string)
  (Value: string)
  (HeadComment: string)
  (Content: "Node list")
  (Alias: "Node option")

definition ShortTag :: "Node \<Rightarrow> string" where
  "ShortTag n = Tag n"

text \<open>
  \<^verbatim>\<open>(*yaml.Node).Decode\<close> into a Go string, as yaml.v3 does it: a scalar gives its
  text (a null scalar leaves the empty string), an alias is followed, and a mapping, a
  sequence or a document is a type error.
\<close>

fun Node_Decode_string :: "Node \<Rightarrow> error + string" where
  "Node_Decode_string (Node k t v h c a) =
     (case k of
        ScalarNode \<Rightarrow> (if t = nullTag then Inr [] else Inr v)
      | AliasNode \<Rightarrow>
          (case a of
             None \<Rightarrow> Inl (LibraryError ''yaml: unknown anchor'')
           | Some n \<Rightarrow> Node_Decode_string n)
      | _ \<Rightarrow> Inl (LibraryError ''yaml: cannot unmarshal into string''))"

text \<open>
  \<^verbatim>\<open>(*yaml.Node).Decode\<close> into a Go bool, for a node tagged \<^verbatim>\<open>!!bool\<close>: the
  spellings the core schema resolves, a type error for any other text.
\<close>

definition Node_Decode_bool :: "Node \<Rightarrow> error + bool" where
  "Node_Decode_bool n =
     (if Value n \<in> {''true'', ''True'', ''TRUE''} then Inr True
      else if Value n \<in> {''false'', ''False'', ''FALSE''} then Inr False
      else Inl (LibraryError ''yaml: cannot unmarshal into bool''))"

text \<open>
  \<^verbatim>\<open>json.Unmarshal\<close> of one JSON value into a \<^verbatim>\<open>[]string\<close>, a \<^verbatim>\<open>bool\<close> and a
  \<^verbatim>\<open>string\<close> variable that holds its zero value, as encoding/json does it: null
  leaves the variable as it is, a value of another shape is an UnmarshalTypeError.
\<close>

fun json_string_elem :: "json \<Rightarrow> string option" where
  "json_string_elem (JStr s) = Some s"
| "json_string_elem JNull = Some []"
| "json_string_elem _ = None"

fun json_Unmarshal_strings :: "json \<Rightarrow> error + string slice" where
  "json_Unmarshal_strings JNull = Inr None"
| "json_Unmarshal_strings (JArr xs) =
     (if list_all (\<lambda>x. json_string_elem x \<noteq> None) xs
      then Inr (Some (map (\<lambda>x. the (json_string_elem x)) xs))
      else Inl (LibraryError ''json: cannot unmarshal into Go value of type string''))"
| "json_Unmarshal_strings _ =
     Inl (LibraryError ''json: cannot unmarshal into Go value of type []string'')"

fun json_Unmarshal_bool :: "json \<Rightarrow> error + bool" where
  "json_Unmarshal_bool JNull = Inr False"
| "json_Unmarshal_bool (JBool b) = Inr b"
| "json_Unmarshal_bool _ =
     Inl (LibraryError ''json: cannot unmarshal into Go value of type bool'')"

fun json_Unmarshal_string :: "json \<Rightarrow> error + string" where
  "json_Unmarshal_string JNull = Inr []"
| "json_Unmarshal_string (JStr s) = Inr s"
| "json_Unmarshal_string _ =
     Inl (LibraryError ''json: cannot unmarshal into Go value of type string'')"

text \<open>\<^verbatim>\<open>json.Marshal\<close> of a \<^verbatim>\<open>[]string\<close> (a nil slice is null) and of a string.\<close>

definition json_Marshal_strings :: "string slice \<Rightarrow> json" where
  "json_Marshal_strings s = (case s of None \<Rightarrow> JNull | Some xs \<Rightarrow> JArr (map JStr xs))"

definition json_Marshal_string :: "string \<Rightarrow> json" where
  "json_Marshal_string s = JStr s"

section \<open>The union-typed values\<close>

subsection \<open>BoolOrArrayOfString\<close>

datatype BoolOrArrayOfString = BoolOrArrayOfString
  (Strings: "string slice")
  (Bool: bool)

definition NewBoolOrArrayOfString :: "string slice \<Rightarrow> bool \<Rightarrow> BoolOrArrayOfString" where
  "NewBoolOrArrayOfString arr b = BoolOrArrayOfString arr b"

text \<open>
  The methods have pointer receivers; each model takes the receiver's value and returns
  the error or the receiver's new value.
\<close>

definition BoolOrArrayOfString_UnmarshalJSON ::
    "json \<Rightarrow> BoolOrArrayOfString \<Rightarrow> error + BoolOrArrayOfString" where
  "BoolOrArrayOfString_UnmarshalJSON v s =
     (case json_Unmarshal_strings v of
        Inr multi \<Rightarrow> Inr (BoolOrArrayOfString multi (Bool s))
      | Inl _ \<Rightarrow>
          (case json_Unmarshal_bool v of
             Inr single \<Rightarrow> Inr (BoolOrArrayOfString (Strings s) single)
           | Inl _ \<Rightarrow> Inr s))"

definition BoolOrArrayOfString_MarshalJSON :: "BoolOrArrayOfString \<Rightarrow> error + json" where
  "BoolOrArrayOfString_MarshalJSON s =
     (if Strings s = None then Inr (json_Marshal_strings (Some []))
      else Inr (json_Marshal_strings (Strings s)))"

text \<open>The loop over \<^verbatim>\<open>value.Content\<close> that decodes each element into a string.\<close>

fun decode_strings :: "Node list \<Rightarrow> string slice \<Rightarrow> error + string slice" where
  "decode_strings [] multi = Inr multi"
| "decode_strings (v # vs) multi =
     (case Node_Decode_string v of
        Inl err \<Rightarrow> Inl err
      | Inr typeStr \<Rightarrow> decode_strings vs (append1 multi typeStr))"

definition BoolOrArrayOfString_UnmarshalYAML ::
    "Node \<Rightarrow> BoolOrArrayOfString \<Rightarrow> error + BoolOrArrayOfString" where
  "BoolOrArrayOfString_UnmarshalYAML v s =
     (if ShortTag v = arrayTag then
        (case decode_strings (Content v) None of
           Inl err \<Rightarrow> Inl err
         | Inr multi \<Rightarrow> Inr (BoolOrArrayOfString multi (Bool s)))
      else if ShortTag v = boolTag then
        (case Node_Decode_bool v of
           Inl err \<Rightarrow> Inl err
         | Inr single \<Rightarrow> Inr (BoolOrArrayOfString (Strings s) single))
      else Inl CouldNotUnmarshalBoolOrStrings)"

subsection \<open>StringOrArrayOfString\<close>

type_synonym StringOrArrayOfString = "string slice"

text \<open>The loop of \<^verbatim>\<open>UnmarshalYAML\<close>: a null-tagged element is the string "null".\<close>

fun decode_types :: "Node list \<Rightarrow> string slice \<Rightarrow> error + string slice" where
  "decode_types [] multi = Inr multi"
| "decode_types (v # vs) multi =
     (if ShortTag v = nullTag then decode_types vs (append1 multi ''null'')
      else
        (case Node_Decode_string v of
           Inl err \<Rightarrow> Inl err
         | Inr typeStr \<Rightarrow> decode_types vs (append1 multi typeStr)))"

definition StringOrArrayOfString_UnmarshalYAML ::
    "Node \<Rightarrow> StringOrArrayOfString \<Rightarrow> error + StringOrArrayOfString" where
  "StringOrArrayOfString_UnmarshalYAML v s =
     (if ShortTag v = arrayTag then
        (case decode_types (Content v) None of
           Inl err \<Rightarrow> Inl err
         | Inr multi \<Rightarrow> Inr multi)
      else
        (case Node_Decode_string v of
           Inl err \<Rightarrow> Inl err
         | Inr single \<Rightarrow> Inr (Some [single])))"

definition StringOrArrayOfString_UnmarshalJSON ::
    "json \<Rightarrow> StringOrArrayOfString \<Rightarrow> error + StringOrArrayOfString" where
  "StringOrArrayOfString_UnmarshalJSON v s =
     (case json_Unmarshal_strings v of
        Inr multi \<Rightarrow> Inr multi
      | Inl _ \<Rightarrow>
          (case json_Unmarshal_string v of
             Inr single \<Rightarrow> Inr (Some [single])
           | Inl _ \<Rightarrow> Inr s))"

definition StringOrArrayOfString_MarshalJSON :: "StringOrArrayOfString \<Rightarrow> error + json" where
  "StringOrArrayOfString_MarshalJSON s =
     (if length (elems s) = 1 then Inr (json_Marshal_string (elems s ! 0))
      else Inr (json_Marshal_strings s))"

text \<open>The loop of \<^verbatim>\<open>Validate\<close> over the type names.\<close>

fun StringOrArrayOfString_Validate_loop :: "string list \<Rightarrow> error option" where
  "StringOrArrayOfString_Validate_loop [] = None"
| "StringOrArrayOfString_Validate_loop (t # ts) =
     (if t \<noteq> [] \<and> t \<noteq> ''object'' \<and> t \<noteq> ''string'' \<and> t \<noteq> ''integer'' \<and> t \<noteq> ''number''
         \<and> t \<noteq> ''array'' \<and> t \<noteq> ''null'' \<and> t \<noteq> ''boolean''
      then Some UnsupportedType
      else StringOrArrayOfString_Validate_loop ts)"

definition StringOrArrayOfString_Validate :: "StringOrArrayOfString \<Rightarrow> error option" where
  "StringOrArrayOfString_Validate s = StringOrArrayOfString_Validate_loop (elems s)"

fun IsEmpty_loop :: "string list \<Rightarrow> bool" where
  "IsEmpty_loop [] = False"
| "IsEmpty_loop (t # ts) = (if t = [] then True else IsEmpty_loop ts)"

definition IsEmpty :: "StringOrArrayOfString \<Rightarrow> bool" where
  "IsEmpty s = (if IsEmpty_loop (elems s) then True else length (elems s) = 0)"

fun Matches_loop :: "string list \<Rightarrow> string \<Rightarrow> bool" where
  "Matches_loop [] typeString = False"
| "Matches_loop (t # ts) typeString = (if t = typeString then True else Matches_loop ts typeString)"

definition Matches :: "StringOrArrayOfString \<Rightarrow> string \<Rightarrow> bool" where
  "Matches s typeString = Matches_loop (elems s) typeString"

section \<open>The Schema entity\<close>

text \<open>
  The struct \<^verbatim>\<open>Schema\<close>, field by field in the order of the source. A pointer to a
  child schema is an option (\<open>None\<close> is nil), a map is an association list in an
  option (\<open>None\<close> is the nil map; the list gives the entries in the order a
  \<^verbatim>\<open>range\<close> loop visits them), and the \<^verbatim>\<open>interface{}\<close> of additionalProperties is
  \<open>SchemaOrBool\<close>: nil, the \<^verbatim>\<open>*bool\<close> that \<^verbatim>\<open>new(bool)\<close> makes, a Schema held by
  value, or any other decoded value. The fields \<^verbatim>\<open>Schema\<close>, \<^verbatim>\<open>Id\<close>, \<^verbatim>\<open>If\<close> and
  \<^verbatim>\<open>Not\<close> carry a prime. The schemas reached from one schema form a tree: no two
  pointers of it lead to the same child, and no map or list of child schemas holds a nil
  pointer.
\<close>

datatype Schema = Schema
  (AdditionalProperties: SchemaOrBool)
  (Default: any)
  (Then: "Schema option")
  (PatternProperties: "(string \<times> Schema) list option")
  (Properties: "(string \<times> Schema) list option")
  (If': "Schema option")
  (Minimum: "int option")
  (MultipleOf: "int option")
  (ExclusiveMaximum: "int option")
  (Items: "Schema option")
  (ExclusiveMinimum: "int option")
  (Maximum: "int option")
  (Else: "Schema option")
  (Pattern: string)
  (Const: any)
  (Ref: string)
  (Schema': string)
  (Id': string)
  (Format: string)
  (Description: string)
  (Title: string)
  (Type: StringOrArrayOfString)
  (AnyOf: "Schema list")
  (AllOf: "Schema list")
  (OneOf: "Schema list")
  (Not': "Schema option")
  (Examples: "string list")
  (Enum: "string slice")
  (HasData: bool)
  (Deprecated: bool)
  (ReadOnly: bool)
  (WriteOnly: bool)
  (Required: BoolOrArrayOfString)
  (CustomAnnotations: "(string \<times> any) list option")
  (MinLength: "int option")
  (MaxLength: "int option")
  (MinItems: "int option")
  (MaxItems: "int option")
and SchemaOrBool = SBNil | SBBoolPtr bool | SBSchema Schema | SBAny any

text \<open>The zero value \<^verbatim>\<open>Schema{}\<close>.\<close>

definition emptySchema :: Schema where
  "emptySchema = Schema
    SBNil ANil None None None None None None None None None None None [] ANil [] [] [] [] []
    [] None [] [] [] None [] None False False False False (BoolOrArrayOfString None False)
    None None None None None"

text \<open>
  Assignments to one field of a Schema (\<^verbatim>\<open>s.Type = v\<close> and the like): the schema
  with that field replaced.
\<close>

definition set_AdditionalProperties :: "SchemaOrBool \<Rightarrow> Schema \<Rightarrow> Schema" where
  "set_AdditionalProperties v s = Schema
    v (Default s) (Then s) (PatternProperties s) (Properties s) (If' s) (Minimum s)
    (MultipleOf s) (ExclusiveMaximum s) (Items s) (ExclusiveMinimum s) (Maximum s) (Else s)
    (Pattern s) (Const s) (Ref s) (Schema' s) (Id' s) (Format s) (Description s) (Title s)
    (Type s) (AnyOf s) (AllOf s) (OneOf s) (Not' s) (Examples s) (Enum s) (HasData s)
    (Deprecated s) (ReadOnly s) (WriteOnly s) (Required s) (CustomAnnotations s) (MinLength s)
    (MaxLength s) (MinItems s) (MaxItems s)"

definition set_Default :: "any \<Rightarrow> Schema \<Rightarrow> Schema" where
  "set_Default v s = Schema
    (AdditionalProperties s) v (Then s) (PatternProperties s) (Properties s) (If' s)
    (Minimum s) (MultipleOf s) (ExclusiveMaximum s) (Items s) (ExclusiveMinimum s) (Maximum s)
    (Else s) (Pattern s) (Const s) (Ref s) (Schema' s) (Id' s) (Format s) (Description s)
    (Title s) (Type s) (AnyOf s) (AllOf s) (OneOf s) (Not' s) (Examples s) (Enum s)
    (HasData s) (Deprecated s) (ReadOnly s) (WriteOnly s) (Required s) (CustomAnnotations s)
    (MinLength s) (MaxLength s) (MinItems s) (MaxItems s)"

definition set_Then :: "Schema option \<Rightarrow> Schema \<Rightarrow> Schema" where
  "set_Then v s = Schema
    (AdditionalProperties s) (Default s) v (PatternProperties s) (Properties s) (If' s)
    (Minimum s) (MultipleOf s) (ExclusiveMaximum s) (Items s) (ExclusiveMinimum s) (Maximum s)
    (Else s) (Pattern s) (Const s) (Ref s) (Schema' s) (Id' s) (Format s) (Description s)
    (Title s) (Type s) (AnyOf s) (AllOf s) (OneOf s) (Not' s) (Examples s) (Enum s)
    (HasData s) (Deprecated s) (ReadOnly s) (WriteOnly s) (Required s) (CustomAnnotations s)
    (MinLength s) (MaxLength s) (MinItems s) (MaxItems s)"

definition set_Properties :: "(string \<times> Schema) list option \<Rightarrow> Schema \<Rightarrow> Schema" where
  "set_Properties v s = Schema
    (AdditionalProperties s) (Default s) (Then s) (PatternProperties s) v (If' s) (Minimum s)
    (MultipleOf s) (ExclusiveMaximum s) (Items s) (ExclusiveMinimum s) (Maximum s) (Else s)
    (Pattern s) (Const s) (Ref s) (Schema' s) (Id' s) (Format s) (Description s) (Title s)
    (Type s) (AnyOf s) (AllOf s) (OneOf s) (Not' s) (Examples s) (Enum s) (HasData s)
    (Deprecated s) (ReadOnly s) (WriteOnly s) (Required s) (CustomAnnotations s) (MinLength s)
    (MaxLength s) (MinItems s) (MaxItems s)"

definition set_If' :: "Schema option \<Rightarrow> Schema \<Rightarrow> Schema" where
  "set_If' v s = Schema
    (AdditionalProperties s) (Default s) (Then s) (PatternProperties s) (Properties s) v
    (Minimum s) (MultipleOf s) (ExclusiveMaximum s) (Items s) (ExclusiveMinimum s) (Maximum s)
    (Else s) (Pattern s) (Const s) (Ref s) (Schema' s) (Id' s) (Format s) (Description s)
    (Title s) (Type s) (AnyOf s) (AllOf s) (OneOf s) (Not' s) (Examples s) (Enum s)
    (HasData s) (Deprecated s) (ReadOnly s) (WriteOnly s) (Required s) (CustomAnnotations s)
    (MinLength s) (MaxLength s) (MinItems s) (MaxItems s)"

definition set_Items :: "Schema option \<Rightarrow> Schema \<Rightarrow> Schema" where
  "set_Items v s = Schema
    (AdditionalProperties s) (Default s) (Then s) (PatternProperties s) (Properties s) (If' s)
    (Minimum s) (MultipleOf s) (ExclusiveMaximum s) v (ExclusiveMinimum s) (Maximum s)
    (Else s) (Pattern s) (Const s) (Ref s) (Schema' s) (Id' s) (Format s) (Description s)
    (Title s) (Type s) (AnyOf s) (AllOf s) (OneOf s) (Not' s) (Examples s) (Enum s)
    (HasData s) (Deprecated s) (ReadOnly s) (WriteOnly s) (Required s) (CustomAnnotations s)
    (MinLength s) (MaxLength s) (MinItems s) (MaxItems s)"

definition set_Else :: "Schema option \<Rightarrow> Schema \<Rightarrow> Schema" where
  "set_Else v s = Schema
    (AdditionalProperties s) (Default s) (Then s) (PatternProperties s) (Properties s) (If' s)
    (Minimum s) (MultipleOf s) (ExclusiveMaximum s) (Items s) (ExclusiveMinimum s) (Maximum s)
    v (Pattern s) (Const s) (Ref s) (Schema' s) (Id' s) (Format s) (Description s) (Title s)
    (Type s) (AnyOf s) (AllOf s) (OneOf s) (Not' s) (Examples s) (Enum s) (HasData s)
    (Deprecated s) (ReadOnly s) (WriteOnly s) (Required s) (CustomAnnotations s) (MinLength s)
    (MaxLength s) (MinItems s) (MaxItems s)"

definition set_Ref :: "string \<Rightarrow> Schema \<Rightarrow> Schema" where
  "set_Ref v s = Schema
    (AdditionalProperties s) (Default s) (Then s) (PatternProperties s) (Properties s) (If' s)
    (Minimum s) (MultipleOf s) (ExclusiveMaximum s) (Items s) (ExclusiveMinimum s) (Maximum s)
    (Else s) (Pattern s) (Const s) v (Schema' s) (Id' s) (Format s) (Description s) (Title s)
    (Type s) (AnyOf s) (AllOf s) (OneOf s) (Not' s) (Examples s) (Enum s) (HasData s)
    (Deprecated s) (ReadOnly s) (WriteOnly s) (Required s) (CustomAnnotations s) (MinLength s)
    (MaxLength s) (MinItems s) (MaxItems s)"

definition set_Schema' :: "string \<Rightarrow> Schema \<Rightarrow> Schema" where
  "set_Schema' v s = Schema
    (AdditionalProperties s) (Default s) (Then s) (PatternProperties s) (Properties s) (If' s)
    (Minimum s) (MultipleOf s) (ExclusiveMaximum s) (Items s) (ExclusiveMinimum s) (Maximum s)
    (Else s) (Pattern s) (Const s) (Ref s) v (Id' s) (Format s) (Description s) (Title s)
    (Type s) (AnyOf s) (AllOf s) (OneOf s) (Not' s) (Examples s) (Enum s) (HasData s)
    (Deprecated s) (ReadOnly s) (WriteOnly s) (Required s) (CustomAnnotations s) (MinLength s)
    (MaxLength s) (MinItems s) (MaxItems s)"

definition set_Description :: "string \<Rightarrow> Schema \<Rightarrow> Schema" where
  "set_Description v s = Schema
    (AdditionalProperties s) (Default s) (Then s) (PatternProperties s) (Properties s) (If' s)
    (Minimum s) (MultipleOf s) (ExclusiveMaximum s) (Items s) (ExclusiveMinimum s) (Maximum s)
    (Else s) (Pattern s) (Const s) (Ref s) (Schema' s) (Id' s) (Format s) v (Title s) (Type s)
    (AnyOf s) (AllOf s) (OneOf s) (Not' s) (Examples s) (Enum s) (HasData s) (Deprecated s)
    (ReadOnly s) (WriteOnly s) (Required s) (CustomAnnotations s) (MinLength s) (MaxLength s)
    (MinItems s) (MaxItems s)"

definition set_Title :: "string \<Rightarrow> Schema \<Rightarrow> Schema" where
  "set_Title v s = Schema
    (AdditionalProperties s) (Default s) (Then s) (PatternProperties s) (Properties s) (If' s)
    (Minimum s) (MultipleOf s) (ExclusiveMaximum s) (Items s) (ExclusiveMinimum s) (Maximum s)
    (Else s) (Pattern s) (Const s) (Ref s) (Schema' s) (Id' s) (Format s) (Description s) v
    (Type s) (AnyOf s) (AllOf s) (OneOf s) (Not' s) (Examples s) (Enum s) (HasData s)
    (Deprecated s) (ReadOnly s) (WriteOnly s) (Required s) (CustomAnnotations s) (MinLength s)
    (MaxLength s) (MinItems s) (MaxItems s)"

definition set_Type :: "StringOrArrayOfString \<Rightarrow> Schema \<Rightarrow> Schema" where
  "set_Type v s = Schema
    (AdditionalProperties s) (Default s) (Then s) (PatternProperties s) (Properties s) (If' s)
    (Minimum s) (MultipleOf s) (ExclusiveMaximum s) (Items s) (ExclusiveMinimum s) (Maximum s)
    (Else s) (Pattern s) (Const s) (Ref s) (Schema' s) (Id' s) (Format s) (Description s)
    (Title s) v (AnyOf s) (AllOf s) (OneOf s) (Not' s) (Examples s) (Enum s) (HasData s)
    (Deprecated s) (ReadOnly s) (WriteOnly s) (Required s) (CustomAnnotations s) (MinLength s)
    (MaxLength s) (MinItems s) (MaxItems s)"

definition set_AnyOf :: "Schema list \<Rightarrow> Schema \<Rightarrow> Schema" where
  "set_AnyOf v s = Schema
    (AdditionalProperties s) (Default s) (Then s) (PatternProperties s) (Properties s) (If' s)
    (Minimum s) (MultipleOf s) (ExclusiveMaximum s) (Items s) (ExclusiveMinimum s) (Maximum s)
    (Else s) (Pattern s) (Const s) (Ref s) (Schema' s) (Id' s) (Format s) (Description s)
    (Title s) (Type s) v (AllOf s) (OneOf s) (Not' s) (Examples s) (Enum s) (HasData s)
    (Deprecated s) (ReadOnly s) (WriteOnly s) (Required s) (CustomAnnotations s) (MinLength s)
    (MaxLength s) (MinItems s) (MaxItems s)"

definition set_AllOf :: "Schema list \<Rightarrow> Schema \<Rightarrow> Schema" where
  "set_AllOf v s = Schema
    (AdditionalProperties s) (Default s) (Then s) (PatternProperties s) (Properties s) (If' s)
    (Minimum s) (MultipleOf s) (ExclusiveMaximum s) (Items s) (ExclusiveMinimum s) (Maximum s)
    (Else s) (Pattern s) (Const s) (Ref s) (Schema' s) (Id' s) (Format s) (Description s)
    (Title s) (Type s) (AnyOf s) v (OneOf s) (Not' s) (Examples s) (Enum s) (HasData s)
    (Deprecated s) (ReadOnly s) (WriteOnly s) (Required s) (CustomAnnotations s) (MinLength s)
    (MaxLength s) (MinItems s) (MaxItems s)"

definition set_OneOf :: "Schema list \<Rightarrow> Schema \<Rightarrow> Schema" where
  "set_OneOf v s = Schema
    (AdditionalProperties s) (Default s) (Then s) (PatternProperties s) (Properties s) (If' s)
    (Minimum s) (MultipleOf s) (ExclusiveMaximum s) (Items s) (ExclusiveMinimum s) (Maximum s)
    (Else s) (Pattern s) (Const s) (Ref s) (Schema' s) (Id' s) (Format s) (Description s)
    (Title s) (Type s) (AnyOf s) (AllOf s) v (Not' s) (Examples s) (Enum s) (HasData s)
    (Deprecated s) (ReadOnly s) (WriteOnly s) (Required s) (CustomAnnotations s) (MinLength s)
    (MaxLength s) (MinItems s) (MaxItems s)"

definition set_Not' :: "Schema option \<Rightarrow> Schema \<Rightarrow> Schema" where
  "set_Not' v s = Schema
    (AdditionalProperties s) (Default s) (Then s) (PatternProperties s) (Properties s) (If' s)
    (Minimum s) (MultipleOf s) (ExclusiveMaximum s) (Items s) (ExclusiveMinimum s) (Maximum s)
    (Else s) (Pattern s) (Const s) (Ref s) (Schema' s) (Id' s) (Format s) (Description s)
    (Title s) (Type s) (AnyOf s) (AllOf s) (OneOf s) v (Examples s) (Enum s) (HasData s)
    (Deprecated s) (ReadOnly s) (WriteOnly s) (Required s) (CustomAnnotations s) (MinLength s)
    (MaxLength s) (MinItems s) (MaxItems s)"

definition set_HasData :: "bool \<Rightarrow> Schema \<Rightarrow> Schema" where
  "set_HasData v s = Schema
    (AdditionalProperties s) (Default s) (Then s) (PatternProperties s) (Properties s) (If' s)
    (Minimum s) (MultipleOf s) (ExclusiveMaximum s) (Items s) (ExclusiveMinimum s) (Maximum s)
    (Else s) (Pattern s) (Const s) (Ref s) (Schema' s) (Id' s) (Format s) (Description s)
    (Title s) (Type s) (AnyOf s) (AllOf s) (OneOf s) (Not' s) (Examples s) (Enum s) v
    (Deprecated s) (ReadOnly s) (WriteOnly s) (Required s) (CustomAnnotations s) (MinLength s)
    (MaxLength s) (MinItems s) (MaxItems s)"

definition set_Required :: "BoolOrArrayOfString \<Rightarrow> Schema \<Rightarrow> Schema" where
  "set_Required v s = Schema
    (AdditionalProperties s) (Default s) (Then s) (PatternProperties s) (Properties s) (If' s)
    (Minimum s) (MultipleOf s) (ExclusiveMaximum s) (Items s) (ExclusiveMinimum s) (Maximum s)
    (Else s) (Pattern s) (Const s) (Ref s) (Schema' s) (Id' s) (Format s) (Description s)
    (Title s) (Type s) (AnyOf s) (AllOf s) (OneOf s) (Not' s) (Examples s) (Enum s)
    (HasData s) (Deprecated s) (ReadOnly s) (WriteOnly s) v (CustomAnnotations s)
    (MinLength s) (MaxLength s) (MinItems s) (MaxItems s)"

definition set_Pattern :: "string \<Rightarrow> Schema \<Rightarrow> Schema" where
  "set_Pattern v s = Schema
    (AdditionalProperties s) (Default s) (Then s) (PatternProperties s) (Properties s) (If' s)
    (Minimum s) (MultipleOf s) (ExclusiveMaximum s) (Items s) (ExclusiveMinimum s) (Maximum s)
    (Else s) v (Const s) (Ref s) (Schema' s) (Id' s) (Format s) (Description s) (Title s)
    (Type s) (AnyOf s) (AllOf s) (OneOf s) (Not' s) (Examples s) (Enum s) (HasData s)
    (Deprecated s) (ReadOnly s) (WriteOnly s) (Required s) (CustomAnnotations s) (MinLength s)
    (MaxLength s) (MinItems s) (MaxItems s)"

definition set_MinLength :: "int option \<Rightarrow> Schema \<Rightarrow> Schema" where
  "set_MinLength v s = Schema
    (AdditionalProperties s) (Default s) (Then s) (PatternProperties s) (Properties s) (If' s)
    (Minimum s) (MultipleOf s) (ExclusiveMaximum s) (Items s) (ExclusiveMinimum s) (Maximum s)
    (Else s) (Pattern s) (Const s) (Ref s) (Schema' s) (Id' s) (Format s) (Description s)
    (Title s) (Type s) (AnyOf s) (AllOf s) (OneOf s) (Not' s) (Examples s) (Enum s)
    (HasData s) (Deprecated s) (ReadOnly s) (WriteOnly s) (Required s) (CustomAnnotations s) v
    (MaxLength s) (MinItems s) (MaxItems s)"

definition NewSchema :: "string \<Rightarrow> Schema" where
  "NewSchema schemaType =
     (if schemaType = [] then emptySchema
      else set_Required (NewBoolOrArrayOfString (Some []) False)
             (set_Type (Some [schemaType]) emptySchema))"

text \<open>\<^verbatim>\<open>Set\<close> sets the HasData field to true.\<close>

definition Set :: "Schema \<Rightarrow> Schema" where
  "Set s = set_HasData True s"

text \<open>\<^verbatim>\<open>schema.Required.Strings = v\<close>.\<close>

definition set_Required_Strings :: "string slice \<Rightarrow> Schema \<Rightarrow> Schema" where
  "set_Required_Strings v s = set_Required (BoolOrArrayOfString v (Bool (Required s))) s"

subsection \<open>The libraries and the file system\<close>

text \<open>
  What schema.go calls outside the repository is a parameter of the model, one field
  of \<open>env\<close> for each call:
  \<^item> \<open>json_MarshalIndent\<close>: \<^verbatim>\<open>json.MarshalIndent(&s, "", "  ")\<close> on a Schema;
  \<^item> \<open>AddResource\<close>: \<^verbatim>\<open>jsonschema.NewCompiler().AddResource("schema.json", r)\<close> on the
    JSON text, the error it returns or none;
  \<^item> \<open>yaml_Unmarshal\<close>: \<^verbatim>\<open>yaml.Unmarshal(text, &result)\<close> into a Schema variable;
  \<^item> \<open>leadingCommentsRemover\<close>, \<open>helmDocsTagsRemover\<close>, \<open>prefixRemover\<close>: the
    \<^verbatim>\<open>ReplaceAllString(text, "")\<close> of the three regular expressions of YamlToSchema;
  \<^item> \<open>helm_ParseComment\<close>: helm-docs' \<^verbatim>\<open>helm.ParseComment\<close>, the Default, the
    Description and the ValueType of the description it returns;
  \<^item> \<open>files\<close>: the file system, the content of each file that exists, by path;
  \<^item> \<open>json_Unmarshal_any\<close>, \<open>json_Marshal_any\<close>, \<open>json_Unmarshal_Schema\<close>:
    \<^verbatim>\<open>json.Unmarshal\<close> into an \<^verbatim>\<open>interface{}\<close> (its error is dropped by the caller),
    \<^verbatim>\<open>json.Marshal\<close> of such a value, and \<^verbatim>\<open>json.Unmarshal\<close> into a Schema;
  \<^item> \<open>jsonpointer_Get\<close>: \<^verbatim>\<open>jsonpointer.Get\<close> of pkg/jsonpointer;
  \<^item> \<open>strconv_Atoi\<close>: the integer \<^verbatim>\<open>strconv.Atoi\<close> reads, if it reads one, and
    \<open>strconv_ParseFloat\<close>: whether \<^verbatim>\<open>strconv.ParseFloat(text, 64)\<close> succeeds;
  \<^item> \<open>relative_path\<close>: the path of a file named relative to the directory of another
    file (\<^verbatim>\<open>filepath.Join\<close> of \<^verbatim>\<open>filepath.Dir\<close>).
\<close>

record env =
  json_MarshalIndent :: "Schema \<Rightarrow> error + string"
  AddResource :: "string \<Rightarrow> error option"
  yaml_Unmarshal :: "string \<Rightarrow> Schema \<Rightarrow> error + Schema"
  leadingCommentsRemover :: "string \<Rightarrow> string"
  helmDocsTagsRemover :: "string \<Rightarrow> string"
  prefixRemover :: "string \<Rightarrow> string"
  helm_ParseComment :: "string list \<Rightarrow> string \<times> string \<times> string"
  files :: "string \<Rightarrow> string option"
  json_Unmarshal_any :: "string \<Rightarrow> any"
  json_Marshal_any :: "any \<Rightarrow> error + string"
  json_Unmarshal_Schema :: "string \<Rightarrow> error + Schema"
  jsonpointer_Get :: "any \<Rightarrow> string \<Rightarrow> error + any"
  strconv_Atoi :: "string \<Rightarrow> int option"
  strconv_ParseFloat :: "string \<Rightarrow> bool"
  relative_path :: "string \<Rightarrow> string \<Rightarrow> string"

subsection \<open>Validate\<close>

definition ToJson :: "env \<Rightarrow> Schema \<Rightarrow> error + string" where
  "ToJson env s = (case json_MarshalIndent env s of Inl err \<Rightarrow> Inl err | Inr res \<Rightarrow> Inr res)"

text \<open>
  The checks of \<^verbatim>\<open>Schema.Validate\<close> that stand between the call of
  \<^verbatim>\<open>AddResource\<close> and the validation of the nested Items schema, in the order of the
  source: the first one that fails is returned.
\<close>

definition Validate_before_Items :: "Schema \<Rightarrow> error option" where
  "Validate_before_Items s =
     (case StringOrArrayOfString_Validate (Type s) of
        Some err \<Rightarrow> Some err
      | None \<Rightarrow>
          if Pattern s \<noteq> [] \<and> \<not> IsEmpty (Type s) \<and> \<not> Matches (Type s) ''string''
            then Some PatternNeedsString
          else if Format s \<noteq> [] \<and> \<not> IsEmpty (Type s) \<and> \<not> Matches (Type s) ''string''
            then Some FormatNeedsString
          else if MaxLength s \<noteq> None \<and> MinLength s \<noteq> None
                  \<and> the (MinLength s) > the (MaxLength s)
            then Some MinLengthGreaterMaxLength
          else if Format s \<noteq> [] \<and> Pattern s \<noteq> []
            then Some FormatAndPattern
          else None)"

text \<open>The formats \<^verbatim>\<open>Validate\<close> accepts.\<close>

definition supported_formats :: "string list" where
  "supported_formats =
     [''date-time'', ''time'', ''date'', ''duration'', ''email'', ''idn-email'', ''hostname'',
      ''idn-hostname'', ''ipv4'', ''ipv6'', ''uuid'', ''uri'', ''uri-reference'', ''iri'',
      ''iri-reference'', ''uri-template'', ''json-pointer'', ''relative-json-pointer'',
      ''regex'']"

text \<open>The checks after the validation of the nested Items schema, in the order of the source.\<close>

definition Validate_after_Items :: "Schema \<Rightarrow> error option" where
  "Validate_after_Items s =
     (if Items s \<noteq> None \<and> \<not> IsEmpty (Type s) \<and> \<not> Matches (Type s) ''array''
        then Some ItemsNeedArray
      else if (MinItems s \<noteq> None \<or> MaxItems s \<noteq> None) \<and> \<not> IsEmpty (Type s)
              \<and> \<not> Matches (Type s) ''array''
        then Some MinMaxItemsNeedArray
      else if (MinItems s \<noteq> None \<and> MaxItems s \<noteq> None) \<and> the (MaxItems s) < the (MinItems s)
        then Some MinItemsGreaterMaxItems
      else if Const s \<noteq> ANil \<and> \<not> IsEmpty (Type s)
        then Some ConstWithType
      else if Enum s \<noteq> None \<and> \<not> IsEmpty (Type s)
        then Some EnumWithType
      else if Format s \<noteq> [] \<and> Format s \<notin> set supported_formats
        then Some (FormatNotSupported (Format s))
      else if Minimum s \<noteq> None \<and> \<not> IsEmpty (Type s) \<and> \<not> Matches (Type s) ''number''
              \<and> \<not> Matches (Type s) ''integer''
        then Some MinimumNeedsNumber
      else if Maximum s \<noteq> None \<and> \<not> IsEmpty (Type s) \<and> \<not> Matches (Type s) ''number''
              \<and> \<not> Matches (Type s) ''integer''
        then Some MaximumNeedsNumber
      else if ExclusiveMinimum s \<noteq> None \<and> \<not> IsEmpty (Type s)
              \<and> \<not> Matches (Type s) ''number'' \<and> \<not> Matches (Type s) ''integer''
        then Some ExclusiveMinimumNeedsNumber
      else if ExclusiveMaximum s \<noteq> None \<and> \<not> IsEmpty (Type s)
              \<and> \<not> Matches (Type s) ''number'' \<and> \<not> Matches (Type s) ''integer''
        then Some ExclusiveMaximumNeedsNumber
      else if MultipleOf s \<noteq> None \<and> \<not> IsEmpty (Type s) \<and> \<not> Matches (Type s) ''number''
              \<and> \<not> Matches (Type s) ''integer''
        then Some MultipleOfNeedsNumber
      else if MultipleOf s \<noteq> None \<and> the (MultipleOf s) \<le> 0
        then Some MultipleOfNotPositive
      else if Minimum s \<noteq> None \<and> ExclusiveMinimum s \<noteq> None
        then Some MinimumAndExclusiveMinimum
      else if Maximum s \<noteq> None \<and> ExclusiveMaximum s \<noteq> None
        then Some MaximumAndExclusiveMaximum
      else None)"

text \<open>
  \<^verbatim>\<open>Schema.Validate\<close>: the JSON text of the schema, the compiler's
  \<^verbatim>\<open>AddResource\<close> on it, then the package's own checks, with the nested Items
  schema validated in between. \<open>None\<close> is the nil error.
\<close>

function Validate :: "env \<Rightarrow> Schema \<Rightarrow> error option" where
  "Validate env s =
     (case ToJson env s of
        Inl err \<Rightarrow> Some err
      | Inr jsonStr \<Rightarrow>
          (case AddResource env jsonStr of
             Some err \<Rightarrow> Some err
           | None \<Rightarrow>
               (case Validate_before_Items s of
                  Some err \<Rightarrow> Some err
                | None \<Rightarrow>
                    (case (case Items s of None \<Rightarrow> None | Some items \<Rightarrow> Validate env items) of
                       Some err \<Rightarrow> Some err
                     | None \<Rightarrow> Validate_after_Items s))))"
  by pat_completeness auto
termination
proof (relation "measure (\<lambda>(env, s). size s)")
  show "wf (measure (\<lambda>(env, s). size s))"
    by simp
next
  fix env :: env and s items :: Schema
  assume "Items s = Some items"
  then show "((env, items), (env, s)) \<in> measure (\<lambda>(env, s). size s)"
    by (cases s) simp
qed

declare Validate.simps [simp del]

subsection \<open>typeFromTag\<close>

definition typeFromTag :: "string \<Rightarrow> error + string list" where
  "typeFromTag tag =
     (if tag = nullTag then Inr [''null'']
      else if tag = boolTag then Inr [''boolean'']
      else if tag = strTag then Inr [''string'']
      else if tag = intTag then Inr [''integer'']
      else if tag = floatTag then Inr [''number'']
      else if tag = timestampTag then Inr [''string'']
      else if tag = arrayTag then Inr [''array'']
      else if tag = mapTag then Inr [''object'']
      else Inl (UnsupportedYamlTag tag))"

subsection \<open>FixRequiredProperties\<close>

text \<open>
  The type assertion \<^verbatim>\<open>x.(Schema)\<close> with its ok flag: the Schema an interface holds
  by value, if it holds one.
\<close>

fun as_Schema :: "SchemaOrBool \<Rightarrow> Schema option" where
  "as_Schema (SBSchema s) = Some s"
| "as_Schema _ = None"

text \<open>
  \<^verbatim>\<open>FixRequiredProperties(&subSchema)\<close> on the copy that the type assertion
  \<^verbatim>\<open>schema.AdditionalProperties.(Schema)\<close> makes: the schema in the interface keeps the
  fields it holds by value, of which the function assigns \<^verbatim>\<open>Required.Strings\<close> and
  \<^verbatim>\<open>Type\<close>, and sees what the function wrote through the pointers, the maps and the
  slices it shares with the copy. \<open>seen_through_copy old fixed\<close> is the schema in the
  interface after the call, for its value \<open>old\<close> before and the copy \<open>fixed\<close> after.
\<close>

definition seen_through_copy :: "Schema \<Rightarrow> Schema \<Rightarrow> Schema" where
  "seen_through_copy old fixed = set_Type (Type old) (set_Required (Required old) fixed)"

text \<open>
  \<^verbatim>\<open>FixRequiredProperties\<close> writes through the pointer it is given; the model
  returns the schema after the call. \<open>FixRequiredProperties_Properties\<close> is the loop
  over \<^verbatim>\<open>schema.Properties\<close>, with the parent's \<^verbatim>\<open>Required.Strings\<close> as it grows, and
  \<open>FixRequiredProperties_each\<close> the loop over a list of sub-schemas. Each child is read
  from the schema as it was on entry: no step of the function assigns a field that a
  later step reads, but for \<^verbatim>\<open>Required.Strings\<close> and \<^verbatim>\<open>Type\<close> in the first block.
\<close>

function FixRequiredProperties :: "Schema \<Rightarrow> Schema"
  and FixRequiredProperties_Properties ::
    "(string \<times> Schema) list \<Rightarrow> string slice \<Rightarrow> (string \<times> Schema) list \<times> string slice"
  and FixRequiredProperties_each :: "Schema list \<Rightarrow> Schema list"
where
  "FixRequiredProperties schema =
     (let s1 =
        (case Properties schema of
           None \<Rightarrow> schema
         | Some props \<Rightarrow>
             (let r = FixRequiredProperties_Properties props (Strings (Required schema));
                  s' = set_Required_Strings (snd r) (set_Properties (Some (fst r)) schema)
              in if \<not> Contains (elems (Type s')) ''object''
                 then set_Type (Some [''object'']) s' else s'));
        s2 = (case Then schema of
                None \<Rightarrow> s1 | Some sub \<Rightarrow> set_Then (Some (FixRequiredProperties sub)) s1);
        s3 = (case If' schema of
                None \<Rightarrow> s2 | Some sub \<Rightarrow> set_If' (Some (FixRequiredProperties sub)) s2);
        s4 = (case Else schema of
                None \<Rightarrow> s3 | Some sub \<Rightarrow> set_Else (Some (FixRequiredProperties sub)) s3);
        s5 = (case Items schema of
                None \<Rightarrow> s4 | Some sub \<Rightarrow> set_Items (Some (FixRequiredProperties sub)) s4);
        s6 = (case as_Schema (AdditionalProperties schema) of
                None \<Rightarrow> s5
              | Some subSchema \<Rightarrow>
                  set_AdditionalProperties
                    (SBSchema (seen_through_copy subSchema (FixRequiredProperties subSchema))) s5);
        s7 = (if length (AnyOf schema) > 0
              then set_AnyOf (FixRequiredProperties_each (AnyOf schema)) s6 else s6);
        s8 = (if length (AllOf schema) > 0
              then set_AllOf (FixRequiredProperties_each (AllOf schema)) s7 else s7);
        s9 = (if length (OneOf schema) > 0
              then set_OneOf (FixRequiredProperties_each (OneOf schema)) s8 else s8)
      in (case Not' schema of
            None \<Rightarrow> s9 | Some sub \<Rightarrow> set_Not' (Some (FixRequiredProperties sub)) s9))"
| "FixRequiredProperties_Properties [] strs = ([], strs)"
| "FixRequiredProperties_Properties ((propName, propValue) # rest) strs =
     (let propValue' = FixRequiredProperties propValue;
          strs' = (if Bool (Required propValue') \<and> \<not> Contains (elems strs) propName
                   then append1 strs propName else strs);
          r = FixRequiredProperties_Properties rest strs'
      in ((propName, propValue') # fst r, snd r))"
| "FixRequiredProperties_each [] = []"
| "FixRequiredProperties_each (subSchema # rest) =
     FixRequiredProperties subSchema # FixRequiredProperties_each rest"
  by pat_completeness auto
termination
proof (relation "measure (\<lambda>x. case x of
          Inl s \<Rightarrow> size s
        | Inr (Inl (props, strs)) \<Rightarrow> size_list (size_prod (\<lambda>_. 0) size) props
        | Inr (Inr subs) \<Rightarrow> size_list size subs)", goal_cases)
  case 1
  show ?case by simp
next
  case (2 schema props)
  then show ?case by (cases schema) simp
next
  case (3 schema sub)
  then show ?case by (cases schema) simp
next
  case (4 schema sub)
  then show ?case by (cases schema) simp
next
  case (5 schema sub)
  then show ?case by (cases schema) simp
next
  case (6 schema sub)
  then show ?case by (cases schema) simp
next
  case (7 schema subSchema)
  then show ?case
    by (cases schema; cases "AdditionalProperties schema") simp_all
next
  case (8 schema)
  then show ?case by (cases schema) simp
next
  case (9 schema)
  then show ?case by (cases schema) simp
next
  case (10 schema)
  then show ?case by (cases schema) simp
next
  case (11 schema sub)
  then show ?case by (cases schema) simp
next
  case (12 propName propValue rest strs)
  then show ?case by simp
next
  case (13 propName propValue rest strs)
  then show ?case by simp
next
  case (14 subSchema rest)
  then show ?case by simp
next
  case (15 subSchema rest)
  then show ?case by simp
qed

declare FixRequiredProperties.simps(1) [simp del]

section \<open>The annotation parser\<close>

text \<open>
  \<^verbatim>\<open>bufio.Scanner\<close> with its default split function \<^verbatim>\<open>ScanLines\<close>: the text between
  line feeds, each line without one trailing carriage return, and no empty line after a
  final line feed. The lines of a comment are shorter than the scanner's buffer.
\<close>

definition dropCR :: "string \<Rightarrow> string" where
  "dropCR data = (if data \<noteq> [] \<and> last data = CHR 0x0D then butlast data else data)"

fun ScanLines :: "string \<Rightarrow> string \<Rightarrow> string list" where
  "ScanLines [] cur = (if cur = [] then [] else [dropCR cur])"
| "ScanLines (c # cs) cur =
     (if c = CHR 0x0A then dropCR cur # ScanLines cs [] else ScanLines cs (cur @ [c]))"

definition Scanner_lines :: "string \<Rightarrow> string list" where
  "Scanner_lines comment = ScanLines comment []"

text \<open>
  The loop of \<^verbatim>\<open>GetSchemaFromComment\<close> over the scanned lines. Its state is the four
  variables \<^verbatim>\<open>description\<close>, \<^verbatim>\<open>rawSchema\<close>, \<^verbatim>\<open>insideSchemaBlock\<close> and \<^verbatim>\<open>result\<close>.
\<close>

fun GetSchemaFromComment_loop ::
    "string list \<Rightarrow> string list \<times> string list \<times> bool \<times> Schema
       \<Rightarrow> string list \<times> string list \<times> bool \<times> Schema" where
  "GetSchemaFromComment_loop [] st = st"
| "GetSchemaFromComment_loop (line # lines) (description, rawSchema, insideSchemaBlock, result) =
     (if HasPrefix line SchemaPrefix then
        GetSchemaFromComment_loop lines (description, rawSchema, \<not> insideSchemaBlock, result)
      else if insideSchemaBlock then
        (let content = TrimPrefix line CommentPrefix in
         GetSchemaFromComment_loop lines
           (description,
            rawSchema @ [TrimPrefix (TrimPrefix content CommentPrefix) '' ''],
            insideSchemaBlock, Set result))
      else
        GetSchemaFromComment_loop lines
          (description @ [TrimPrefix (TrimPrefix line CommentPrefix) '' ''],
           rawSchema, insideSchemaBlock, result))"

text \<open>
  \<^verbatim>\<open>GetSchemaFromComment\<close> returns the schema, the description and the error
  (\<open>None\<close> is nil).
\<close>

definition GetSchemaFromComment :: "env \<Rightarrow> string \<Rightarrow> Schema \<times> string \<times> error option" where
  "GetSchemaFromComment env comment =
     (case GetSchemaFromComment_loop (Scanner_lines comment) ([], [], False, emptySchema) of
        (description, rawSchema, insideSchemaBlock, result) \<Rightarrow>
          if insideSchemaBlock then (result, [], Some (UnclosedSchemaBlock comment))
          else
            (case yaml_Unmarshal env (Join rawSchema [CHR 0x0A]) result of
               Inl err \<Rightarrow> (result, [], Some err)
             | Inr result' \<Rightarrow> (result', Join description [CHR 0x0A], None)))"

section \<open>The tree synthesizer\<close>

subsection \<open>Its helpers\<close>

definition helmDocsTypeToSchemaType :: "string \<Rightarrow> error + string" where
  "helmDocsTypeToSchemaType helmDocsType =
     (if helmDocsType = ''int'' then Inr ''integer''
      else if helmDocsType = ''bool'' then Inr ''boolean''
      else if helmDocsType = ''float'' then Inr ''number''
      else if helmDocsType = ''list'' then Inr ''array''
      else if helmDocsType = ''map'' then Inr ''object''
      else if helmDocsType = ''string'' \<or> helmDocsType = ''object'' then Inr helmDocsType
      else Inl (UnknownHelmDocsType helmDocsType))"

text \<open>The loop of \<^verbatim>\<open>castNodeValueByType\<close> over the types of the field.\<close>

fun castNodeValueByType_loop :: "env \<Rightarrow> string \<Rightarrow> string list \<Rightarrow> any" where
  "castNodeValueByType_loop env rawValue [] = AStr rawValue"
| "castNodeValueByType_loop env rawValue (t # ts) =
     (if t = ''boolean'' then
        (if rawValue = ''true'' then ABool True
         else if rawValue = ''false'' then ABool False
         else castNodeValueByType_loop env rawValue ts)
      else if t = ''integer'' then
        (case strconv_Atoi env rawValue of
           Some v \<Rightarrow> AInt v
         | None \<Rightarrow> castNodeValueByType_loop env rawValue ts)
      else if t = ''number'' then
        (if strconv_ParseFloat env rawValue then AFloat rawValue
         else castNodeValueByType_loop env rawValue ts)
      else castNodeValueByType_loop env rawValue ts)"

definition castNodeValueByType :: "env \<Rightarrow> string \<Rightarrow> StringOrArrayOfString \<Rightarrow> any" where
  "castNodeValueByType env rawValue fieldType =
     (if length (elems fieldType) = 0 then AStr rawValue
      else castNodeValueByType_loop env rawValue (elems fieldType))"

text \<open>
  Modelled from the spec: \<^verbatim>\<open>util.IsRelativeFile\<close> of pkg/util, which is not among the
  sources. The file-path part of a reference is resolved relative to the directory
  containing the value-tree file; if that path does not exist, the function returns an
  error, and the path otherwise.
\<close>

definition IsRelativeFile :: "env \<Rightarrow> string \<Rightarrow> string \<Rightarrow> error + string" where
  "IsRelativeFile env root relPath =
     (if files env (relative_path env root relPath) = None
      then Inl (LibraryError ''stat: no such file or directory'')
      else Inr (relative_path env root relPath))"

text \<open>The arguments of \<^verbatim>\<open>YamlToSchema\<close> that stay the same through the recursion.\<close>

record SkipAutoGenerationConfig =
  SkipTitle :: bool
  SkipDescription :: bool
  SkipRequired :: bool
  SkipDefault :: bool
  SkipAdditionalProperties :: bool

record config =
  valuesPath :: string
  keepFullComment :: bool
  helmDocsCompatibilityMode :: bool
  dontRemoveHelmDocsPrefix :: bool
  skipAutoGeneration :: SkipAutoGenerationConfig

text \<open>\<^verbatim>\<open>schema.Properties[key] = &keyNodeSchema\<close>, on a map that was made if it was nil.\<close>

fun map_assign :: "(string \<times> 'a) list \<Rightarrow> string \<Rightarrow> 'a \<Rightarrow> (string \<times> 'a) list" where
  "map_assign [] k v = [(k, v)]"
| "map_assign ((k', v') # m) k v =
     (if k' = k then (k, v) # m else (k', v') # map_assign m k v)"

definition assign_Property :: "Schema \<Rightarrow> string \<Rightarrow> Schema \<Rightarrow> Schema" where
  "assign_Property schema key keyNodeSchema =
     set_Properties
       (Some (map_assign (case Properties schema of None \<Rightarrow> [] | Some m \<Rightarrow> m) key keyNodeSchema))
       schema"

subsection \<open>One key of a mapping\<close>

text \<open>
  The body of the loop over the keys of a mapping, block by block. First the comment
  of the key: the annotation parser on the (trimmed) comment, the helm-docs convention
  where it is enabled, and the clean-up of the description (lines 712 to 751). A parser
  error is fatal.
\<close>

definition parse_key_comment :: "env \<Rightarrow> config \<Rightarrow> Node \<Rightarrow> error + (Schema \<times> string)" where
  "parse_key_comment env cfg keyNode =
     (let comment = (if \<not> keepFullComment cfg
                     then leadingCommentsRemover env (HeadComment keyNode)
                     else HeadComment keyNode)
      in case GetSchemaFromComment env comment of
           (keyNodeSchema, description, Some err) \<Rightarrow> Inl (Fatal err)
         | (keyNodeSchema, description, None) \<Rightarrow>
             (let s1 =
                (if helmDocsCompatibilityMode cfg then
                   (case helm_ParseComment env (Split (HeadComment keyNode) (CHR 0x0A)) of
                      (hdDefault, hdDescription, hdValueType) \<Rightarrow>
                        (let a = (if hdDefault \<noteq> []
                                  then set_Default (AStr hdDefault) (Set keyNodeSchema)
                                  else keyNodeSchema);
                             b = (if hdDescription \<noteq> []
                                  then set_Description hdDescription (Set a) else a)
                         in if hdValueType \<noteq> [] then
                              (case helmDocsTypeToSchemaType hdValueType of
                                 Inl err \<Rightarrow> b
                               | Inr helmDocsType \<Rightarrow> set_Type (Some [helmDocsType]) (Set b))
                            else b))
                 else keyNodeSchema);
                description' =
                  (if \<not> dontRemoveHelmDocsPrefix cfg
                   then prefixRemover env (helmDocsTagsRemover env description)
                   else description)
              in Inr (s1, description')))"

text \<open>
  The resolution of a reference (lines 753 to 798): a reference that begins with
  \<^verbatim>\<open>#\<close> stays; otherwise the file named before the first \<^verbatim>\<open>#\<close> is looked up
  relative to the values file. If it does not exist the schema stays as it is; if it
  does, the schema decoded from it (from the part the pointer addresses, if there is a
  pointer) replaces the annotation's schema, and every failure on the way is fatal.
\<close>

definition resolve_Ref :: "env \<Rightarrow> config \<Rightarrow> Schema \<Rightarrow> error + Schema" where
  "resolve_Ref env cfg keyNodeSchema =
     (if Ref keyNodeSchema \<noteq> [] then
        (if HasPrefix (Ref keyNodeSchema) ''#'' then Inr keyNodeSchema
         else
           (let refParts = Split (Ref keyNodeSchema) (CHR ''#'') in
            case IsRelativeFile env (valuesPath cfg) (refParts ! 0) of
              Inl err \<Rightarrow> Inr keyNodeSchema
            | Inr relFilePath \<Rightarrow>
                (case files env relFilePath of
                   None \<Rightarrow> Inl (Fatal (LibraryError ''open: no such file or directory''))
                 | Some byteValue \<Rightarrow>
                     (if length refParts > 1 then
                        (case jsonpointer_Get env (json_Unmarshal_any env byteValue) (refParts ! 1) of
                           Inl err \<Rightarrow> Inl (Fatal err)
                         | Inr jsonPointerResultRaw \<Rightarrow>
                             (case json_Marshal_any env jsonPointerResultRaw of
                                Inl err \<Rightarrow> Inl (Fatal err)
                              | Inr jsonPointerResultMarshaled \<Rightarrow>
                                  (case json_Unmarshal_Schema env jsonPointerResultMarshaled of
                                     Inl err \<Rightarrow> Inl (Fatal err)
                                   | Inr relSchema \<Rightarrow> Inr (set_HasData True relSchema))))
                      else
                        (case json_Unmarshal_Schema env byteValue of
                           Inl err \<Rightarrow> Inl (Fatal err)
                         | Inr relSchema \<Rightarrow> Inr (set_HasData True relSchema))))))
      else Inr keyNodeSchema)"

text \<open>
  Validation of a schema with annotation data, or else the type from the tag of the
  value node (lines 800 to 814). The value node is \<open>None\<close> where an alias node has no
  target: reading its tag stops the program.
\<close>

definition validate_or_infer :: "env \<Rightarrow> Schema \<Rightarrow> Node option \<Rightarrow> error + Schema" where
  "validate_or_infer env keyNodeSchema valueNode =
     (if HasData keyNodeSchema then
        (case Validate env keyNodeSchema of
           Some err \<Rightarrow> Inl (Fatal err)
         | None \<Rightarrow> Inr keyNodeSchema)
      else
        (case valueNode of
           None \<Rightarrow> Inl (Panic ''nil pointer dereference'')
         | Some v \<Rightarrow>
             (case typeFromTag (Tag v) of
                Inl err \<Rightarrow> Inl (Fatal err)
              | Inr nodeType \<Rightarrow> Inr (set_Type (Some nodeType) keyNodeSchema))))"

text \<open>The key added to the required list of the parent (lines 819 to 824).\<close>

definition add_to_parent_required ::
    "config \<Rightarrow> string \<Rightarrow> Schema \<Rightarrow> string slice \<Rightarrow> string slice" where
  "add_to_parent_required cfg key keyNodeSchema parentRequiredProperties =
     (if Bool (Required keyNodeSchema)
         \<or> (length (elems (Strings (Required keyNodeSchema))) = 0
            \<and> \<not> SkipRequired (skipAutoGeneration cfg) \<and> \<not> HasData keyNodeSchema)
      then
        (if \<not> Contains (elems parentRequiredProperties) key
         then append1 parentRequiredProperties key
         else parentRequiredProperties)
      else parentRequiredProperties)"

text \<open>
  The defaults of additionalProperties, title, description and default (lines 826 to
  844).
\<close>

definition apply_defaults ::
    "env \<Rightarrow> config \<Rightarrow> string \<Rightarrow> string \<Rightarrow> Node \<Rightarrow> Schema \<Rightarrow> Schema" where
  "apply_defaults env cfg key description valueNode keyNodeSchema =
     (let s1 = (if \<not> SkipAdditionalProperties (skipAutoGeneration cfg)
                   \<and> Kind valueNode = MappingNode
                   \<and> (\<not> HasData keyNodeSchema \<or> AdditionalProperties keyNodeSchema = SBNil)
                then set_AdditionalProperties (SBBoolPtr False) keyNodeSchema
                else keyNodeSchema);
          s2 = (if Title s1 = [] \<and> \<not> SkipTitle (skipAutoGeneration cfg)
                then set_Title key s1 else s1);
          s3 = (if Description s2 = [] \<and> \<not> SkipDescription (skipAutoGeneration cfg)
                then set_Description description s2 else s2)
      in if \<not> SkipDefault (skipAutoGeneration cfg) \<and> Default s3 = ANil
            \<and> Kind valueNode = ScalarNode
         then set_Default (castNodeValueByType env (Value valueNode) (Type s3)) s3
         else s3)"

text \<open>
  An item of a sequence that is no scalar, once its schema is there (lines 872 to
  880): the required names gathered for it go to its own list, and additionalProperties
  gets its default.
\<close>

definition finish_item :: "config \<Rightarrow> Node \<Rightarrow> Schema \<Rightarrow> string slice \<Rightarrow> Schema" where
  "finish_item cfg itemNode itemSchema itemRequiredProperties =
     (let s1 = set_Required_Strings
                 (foldl append1 (Strings (Required itemSchema)) (elems itemRequiredProperties))
                 itemSchema
      in if \<not> SkipAdditionalProperties (skipAutoGeneration cfg) \<and> Kind itemNode = MappingNode
            \<and> (\<not> HasData s1 \<or> AdditionalProperties s1 = SBNil)
         then set_AdditionalProperties (SBBoolPtr False) s1
         else s1)"

subsection \<open>YamlToSchema\<close>

text \<open>
  \<^verbatim>\<open>YamlToSchema\<close> returns the schema and the list behind
  \<^verbatim>\<open>parentRequiredProperties\<close> as the call leaves it, or the error that stops the
  program. \<open>YamlToSchema_mapping\<close> is the loop over the content of a mapping node, two
  nodes at a time, and \<open>YamlToSchema_sequence\<close> the loop over the items of a sequence.
\<close>

function YamlToSchema ::
    "env \<Rightarrow> config \<Rightarrow> Node \<Rightarrow> string slice \<Rightarrow> error + (Schema \<times> string slice)"
  and YamlToSchema_mapping ::
    "env \<Rightarrow> config \<Rightarrow> Node list \<Rightarrow> Schema \<Rightarrow> string slice \<Rightarrow> error + (Schema \<times> string slice)"
  and YamlToSchema_sequence ::
    "env \<Rightarrow> config \<Rightarrow> Node list \<Rightarrow> Schema \<Rightarrow> error + Schema"
where
  "YamlToSchema env cfg node parentRequiredProperties =
     (let schema = NewSchema ''object'' in
      if Kind node = DocumentNode then
        (if length (Content node) \<noteq> 1 then Inl (Fatal (LibraryError ''Strange yaml document found''))
         else
           (let schema1 = set_Schema' ''http://json-schema.org/draft-07/schema#'' schema in
            case YamlToSchema env cfg (Content node ! 0) (Strings (Required schema1)) of
              Inl err \<Rightarrow> Inl err
            | Inr (sub, required) \<Rightarrow>
                (let schema2 = set_Properties (Properties sub) (set_Required_Strings required schema1)
                 in Inr
                      (if \<not> SkipAdditionalProperties (skipAutoGeneration cfg)
                       then set_AdditionalProperties (SBBoolPtr False) schema2 else schema2,
                       parentRequiredProperties))))
      else if Kind node = MappingNode then
        YamlToSchema_mapping env cfg (Content node) schema parentRequiredProperties
      else Inr (schema, parentRequiredProperties))"
| "YamlToSchema_mapping env cfg [] schema parentRequiredProperties =
     Inr (schema, parentRequiredProperties)"
| "YamlToSchema_mapping env cfg [keyNode] schema parentRequiredProperties =
     Inl (Panic ''index out of range'')"
| "YamlToSchema_mapping env cfg (keyNode # valueNode0 # rest) schema parentRequiredProperties =
     (let valueNode = (if Kind valueNode0 = AliasNode then Alias valueNode0 else Some valueNode0) in
      case parse_key_comment env cfg keyNode of
        Inl err \<Rightarrow> Inl err
      | Inr (parsed, description) \<Rightarrow>
      (case resolve_Ref env cfg parsed of
        Inl err \<Rightarrow> Inl err
      | Inr resolved \<Rightarrow>
      (case validate_or_infer env resolved valueNode of
        Inl err \<Rightarrow> Inl err
      | Inr keyNodeSchema \<Rightarrow>
          if Ref keyNodeSchema = [] then
            (case valueNode of
               None \<Rightarrow> Inl (Panic ''nil pointer dereference'')
             | Some v \<Rightarrow>
                 (let required' = add_to_parent_required cfg (Value keyNode) keyNodeSchema
                                    parentRequiredProperties;
                      s4 = apply_defaults env cfg (Value keyNode) description v keyNodeSchema
                  in case
                       (if Kind v = MappingNode \<and> Properties s4 = None then
                          (case YamlToSchema env cfg v (Strings (Required s4)) of
                             Inl err \<Rightarrow> Inl err
                           | Inr (sub, required) \<Rightarrow>
                               Inr (set_Properties (Properties sub)
                                      (set_Required_Strings required s4)))
                        else if Kind v = SequenceNode \<and> Items s4 = None then
                          (case YamlToSchema_sequence env cfg (Content v) (NewSchema []) of
                             Inl err \<Rightarrow> Inl err
                           | Inr seqSchema \<Rightarrow>
                               Inr (FixRequiredProperties (set_Items (Some seqSchema) s4)))
                        else Inr s4)
                     of
                       Inl err \<Rightarrow> Inl err
                     | Inr s5 \<Rightarrow>
                         YamlToSchema_mapping env cfg rest
                           (assign_Property schema (Value keyNode) s5) required'))
          else
            YamlToSchema_mapping env cfg rest
              (assign_Property schema (Value keyNode) keyNodeSchema) parentRequiredProperties)))"
| "YamlToSchema_sequence env cfg [] seqSchema = Inr seqSchema"
| "YamlToSchema_sequence env cfg (itemNode # rest) seqSchema =
     (if Kind itemNode = ScalarNode then
        (case typeFromTag (Tag itemNode) of
           Inl err \<Rightarrow> Inl (Fatal err)
         | Inr itemNodeType \<Rightarrow>
             YamlToSchema_sequence env cfg rest
               (set_AnyOf (AnyOf seqSchema @ [NewSchema (itemNodeType ! 0)]) seqSchema))
      else
        (case YamlToSchema env cfg itemNode (Some []) of
           Inl err \<Rightarrow> Inl err
         | Inr (itemSchema, itemRequiredProperties) \<Rightarrow>
             YamlToSchema_sequence env cfg rest
               (set_AnyOf
                  (AnyOf seqSchema @ [finish_item cfg itemNode itemSchema itemRequiredProperties])
                  seqSchema)))"
  by pat_completeness auto
termination
proof (relation "measure (\<lambda>x. case x of
          Inl (env, cfg, node, required) \<Rightarrow> size node
        | Inr (Inl (env, cfg, content, schema, required)) \<Rightarrow> size_list size content
        | Inr (Inr (env, cfg, items, seqSchema)) \<Rightarrow> size_list size items)", goal_cases)
  case 1
  show ?case by simp
next
  case (2 env cfg node required)
  then show ?case
    by (cases node; cases "Content node") simp_all
next
  case (3 env cfg node required)
  then show ?case
    by (cases node) simp
next
  case (4 env cfg keyNode valueNode0 rest schema required)
  then show ?case
    by (cases valueNode0) (auto split: if_splits)
next
  case (5 env cfg keyNode valueNode0 rest schema required)
  then show ?case
    by (cases valueNode0; cases "the (Alias valueNode0)") (auto split: if_splits)
next
  case 6
  then show ?case by simp
next
  case 7
  then show ?case by simp
next
  case 8
  then show ?case by simp
next
  case 9
  then show ?case by simp
next
  case 10
  then show ?case by simp
qed

declare YamlToSchema.simps(1) [simp del]

declare YamlToSchema_mapping.simps(3) [simp del]

section \<open>The JSON encoding of a schema\<close>

text \<open>
  \<^verbatim>\<open>ToJson\<close> hands \<^verbatim>\<open>&s\<close> to \<^verbatim>\<open>json.MarshalIndent\<close>, which calls the method
  \<^verbatim>\<open>(*Schema).MarshalJSON\<close> of schema.go and indents the text it returns. This section
  follows that method down to the JSON value it builds. What it takes from
  \<^verbatim>\<open>encoding/json\<close> is the encoding of a struct by its field tags:
  \<^item> the fields are written in the order of their declaration, each under the name of
    its \<^verbatim>\<open>json\<close> tag; a field tagged \<^verbatim>\<open>-\<close> is skipped, and a field tagged
    \<^verbatim>\<open>omitempty\<close> is left out when it is a nil pointer, a nil interface, a map, slice or
    string of length 0, or false; a field of a struct type is never left out;
  \<^item> a \<^verbatim>\<open>MarshalJSON\<close> method with a pointer receiver is called for a value that is
    addressable, and only for such a value. The fields of a struct reached through a
    pointer are addressable; a value held in an \<^verbatim>\<open>interface{}\<close> is not, and neither
    are its fields: they are encoded as plain structs and slices, by their Go field names
    where they have no tag;
  \<^item> the encoding stops at the first error.

  A JSON object is the list of its members. \<^verbatim>\<open>encoding/json\<close> writes the members of
  a map ordered by key; the model keeps them in the order in which they were made, and
  the statements below look a member up by its key.

  The text of a number is a parameter: \<open>int_text\<close> is the text of an integer,
  \<open>float_text\<close> the text of the float that a literal denotes, and \<open>reread_number\<close>
  the text of a number of a JSON document after \<^verbatim>\<open>json.Unmarshal\<close> has read it into
  a \<^verbatim>\<open>float64\<close> and \<^verbatim>\<open>json.Marshal\<close> has written it again.
\<close>

record number_format =
  int_text :: "int \<Rightarrow> string"
  float_text :: "string \<Rightarrow> string"
  reread_number :: "string \<Rightarrow> string"

text \<open>The members or elements encoded so far, up to the first error.\<close>

fun collect :: "(string \<times> (error + json)) list \<Rightarrow> error + (string \<times> json) list" where
  "collect [] = Inr []"
| "collect ((k, Inl err) # es) = Inl err"
| "collect ((k, Inr v) # es) =
     (case collect es of Inl err \<Rightarrow> Inl err | Inr ms \<Rightarrow> Inr ((k, v) # ms))"

fun collect_list :: "(error + json) list \<Rightarrow> error + json list" where
  "collect_list [] = Inr []"
| "collect_list (Inl err # es) = Inl err"
| "collect_list (Inr v # es) =
     (case collect_list es of Inl err \<Rightarrow> Inl err | Inr vs \<Rightarrow> Inr (v # vs))"

definition object :: "(string \<times> (error + json)) list \<Rightarrow> error + json" where
  "object es = (case collect es of Inl err \<Rightarrow> Inl err | Inr ms \<Rightarrow> Inr (JObj ms))"

definition array :: "(error + json) list \<Rightarrow> error + json" where
  "array es = (case collect_list es of Inl err \<Rightarrow> Inl err | Inr vs \<Rightarrow> Inr (JArr vs))"

text \<open>
  \<^verbatim>\<open>json.Marshal\<close> of a value held in an \<^verbatim>\<open>interface{}\<close> that a decoder made: the
  value as it is. A value that JSON cannot express is an error.
\<close>

primrec any_json :: "number_format \<Rightarrow> any \<Rightarrow> error + json" where
  "any_json nf ANil = Inr JNull"
| "any_json nf (ABool b) = Inr (JBool b)"
| "any_json nf (AInt i) = Inr (JNum (int_text nf i))"
| "any_json nf (AFloat lit) = Inr (JNum (float_text nf lit))"
| "any_json nf (AStr s) = Inr (JStr s)"
| "any_json nf (AList vs) = array (map (any_json nf) vs)"
| "any_json nf (AMap ms) = object (map (map_prod (\<lambda>k. k) (any_json nf)) ms)"
| "any_json nf (AOther t) = Inl (LibraryError ''json: unsupported type'')"

text \<open>
  \<^verbatim>\<open>json.Unmarshal\<close> of a JSON value into an \<^verbatim>\<open>interface{}\<close> followed by
  \<^verbatim>\<open>json.Marshal\<close> of what it has read: the same value, each number written again.
\<close>

primrec reread :: "number_format \<Rightarrow> json \<Rightarrow> json" where
  "reread nf JNull = JNull"
| "reread nf (JBool b) = JBool b"
| "reread nf (JNum lit) = JNum (reread_number nf lit)"
| "reread nf (JStr s) = JStr s"
| "reread nf (JArr vs) = JArr (map (reread nf) vs)"
| "reread nf (JObj ms) = JObj (map (map_prod (\<lambda>k. k) (reread nf)) ms)"

text \<open>
  One field of a struct: no member when the field is left out (\<open>None\<close>), and one
  member under the name of the tag otherwise.
\<close>

fun member :: "string \<Rightarrow> (error + json) option \<Rightarrow> (string \<times> (error + json)) list" where
  "member k None = []"
| "member k (Some v) = [(k, v)]"

text \<open>
  The fields that hold no schema, each with its \<^verbatim>\<open>omitempty\<close>: an \<^verbatim>\<open>interface{}\<close>,
  a \<^verbatim>\<open>*int\<close>, a string, a bool, a \<^verbatim>\<open>[]string\<close> and the map of the extension keys,
  which the struct encoding writes under its Go name.
\<close>

definition any_field :: "number_format \<Rightarrow> any \<Rightarrow> (error + json) option" where
  "any_field nf v = (if v = ANil then None else Some (any_json nf v))"

definition int_field :: "number_format \<Rightarrow> int option \<Rightarrow> (error + json) option" where
  "int_field nf p = (case p of None \<Rightarrow> None | Some i \<Rightarrow> Some (Inr (JNum (int_text nf i))))"

definition string_field :: "string \<Rightarrow> (error + json) option" where
  "string_field s = (if s = [] then None else Some (Inr (JStr s)))"

definition bool_field :: "bool \<Rightarrow> (error + json) option" where
  "bool_field b = (if b then Some (Inr (JBool True)) else None)"

definition strings_field :: "string list \<Rightarrow> (error + json) option" where
  "strings_field xs = (if xs = [] then None else Some (Inr (JArr (map JStr xs))))"

text \<open>The entries of a map that may be nil, as a \<^verbatim>\<open>range\<close> loop visits them.\<close>

definition entries :: "(string \<times> 'a) list option \<Rightarrow> (string \<times> 'a) list" where
  "entries m = (case m of None \<Rightarrow> [] | Some es \<Rightarrow> es)"

definition CustomAnnotations_field ::
  "number_format \<Rightarrow> (string \<times> any) list option \<Rightarrow> (error + json) option" where
  "CustomAnnotations_field nf m =
     (if entries m = [] then None
      else Some (object (map (map_prod (\<lambda>k. k) (any_json nf)) (entries m))))"

text \<open>
  The two fields whose types have a \<^verbatim>\<open>MarshalJSON\<close> method with a pointer receiver
  (schema.go, lines 70 and 143). In an addressable schema the method is called. In a
  schema that is not addressable the type field is a plain \<^verbatim>\<open>[]string\<close>, and the
  required field is a plain struct of the two fields \<^verbatim>\<open>Strings\<close> and \<^verbatim>\<open>Bool\<close>.
\<close>

definition Type_field :: "bool \<Rightarrow> StringOrArrayOfString \<Rightarrow> (error + json) option" where
  "Type_field addressable t =
     (if length (elems t) = 0 then None
      else if addressable then Some (StringOrArrayOfString_MarshalJSON t)
      else Some (Inr (json_Marshal_strings t)))"

definition Required_field :: "bool \<Rightarrow> BoolOrArrayOfString \<Rightarrow> (error + json) option" where
  "Required_field addressable r =
     (if addressable then Some (BoolOrArrayOfString_MarshalJSON r)
      else Some (Inr (JObj [(''Strings'', json_Marshal_strings (Strings r)),
                            (''Bool'', JBool (Bool r))])))"

text \<open>
  \<^verbatim>\<open>Schema.MarshalJSON\<close> (lines 186 to 212): the struct encoding of the schema under
  the method-free type \<^verbatim>\<open>Alias\<close>, read back into a map; every extension key assigned
  to the map; the member \<^verbatim>\<open>CustomAnnotations\<close> deleted; and the map encoded.

  \<open>Schema_fields\<close> is the struct encoding of a schema, addressable or not, field by
  field. A child schema behind a pointer (\<^verbatim>\<open>*Schema\<close>, and the elements of
  \<^verbatim>\<open>map[string]*Schema\<close> and \<^verbatim>\<open>[]*Schema\<close>) is encoded by \<^verbatim>\<open>Schema.MarshalJSON\<close>
  again. The field additionalProperties is an \<^verbatim>\<open>interface{}\<close>: a \<^verbatim>\<open>*bool\<close> is
  encoded as the boolean it points to, a Schema held by value by its struct encoding as
  a value that is not addressable, and any decoded value as it is.
\<close>

function Schema_MarshalJSON :: "number_format \<Rightarrow> Schema \<Rightarrow> error + json"
  and Schema_fields :: "number_format \<Rightarrow> bool \<Rightarrow> Schema \<Rightarrow> (string \<times> (error + json)) list"
  and Schema_MarshalJSON_map ::
    "number_format \<Rightarrow> (string \<times> Schema) list \<Rightarrow> (string \<times> (error + json)) list"
  and Schema_MarshalJSON_each :: "number_format \<Rightarrow> Schema list \<Rightarrow> (error + json) list"
where
  "Schema_MarshalJSON nf s =
     (case collect (Schema_fields nf True s) of
        Inl err \<Rightarrow> Inl err
      | Inr aliasJSON \<Rightarrow>
          (let data = map (map_prod (\<lambda>k. k) (\<lambda>v. Inr (reread nf v))) aliasJSON;
               data = foldl (\<lambda>data kv. map_assign data (fst kv) (any_json nf (snd kv)))
                        data (entries (CustomAnnotations s));
               data = filter (\<lambda>kv. fst kv \<noteq> ''CustomAnnotations'') data
           in object data))"
| "Schema_fields nf addressable s =
     member ''additionalProperties''
       (case AdditionalProperties s of
          SBNil \<Rightarrow> None
        | SBBoolPtr b \<Rightarrow> Some (Inr (JBool b))
        | SBSchema sub \<Rightarrow> Some (object (Schema_fields nf False sub))
        | SBAny v \<Rightarrow> any_field nf v)
     @ member ''default'' (any_field nf (Default s))
     @ member ''then''
         (case Then s of None \<Rightarrow> None | Some sub \<Rightarrow> Some (Schema_MarshalJSON nf sub))
     @ member ''patternProperties''
         (case PatternProperties s of
            None \<Rightarrow> None
          | Some subs \<Rightarrow>
              if subs = [] then None else Some (object (Schema_MarshalJSON_map nf subs)))
     @ member ''properties''
         (case Properties s of
            None \<Rightarrow> None
          | Some subs \<Rightarrow>
              if subs = [] then None else Some (object (Schema_MarshalJSON_map nf subs)))
     @ member ''if''
         (case If' s of None \<Rightarrow> None | Some sub \<Rightarrow> Some (Schema_MarshalJSON nf sub))
     @ member ''minimum'' (int_field nf (Minimum s))
     @ member ''multipleOf'' (int_field nf (MultipleOf s))
     @ member ''exclusiveMaximum'' (int_field nf (ExclusiveMaximum s))
     @ member ''items''
         (case Items s of None \<Rightarrow> None | Some sub \<Rightarrow> Some (Schema_MarshalJSON nf sub))
     @ member ''exclusiveMinimum'' (int_field nf (ExclusiveMinimum s))
     @ member ''maximum'' (int_field nf (Maximum s))
     @ member ''else''
         (case Else s of None \<Rightarrow> None | Some sub \<Rightarrow> Some (Schema_MarshalJSON nf sub))
     @ member ''pattern'' (string_field (Pattern s))
     @ member ''const'' (any_field nf (Const s))
     @ member ''$ref'' (string_field (Ref s))
     @ member ''$schema'' (string_field (Schema' s))
     @ member ''$id'' (string_field (Id' s))
     @ member ''format'' (string_field (Format s))
     @ member ''description'' (string_field (Description s))
     @ member ''title'' (string_field (Title s))
     @ member ''type'' (Type_field addressable (Type s))
     @ member ''anyOf''
         (if AnyOf s = [] then None else Some (array (Schema_MarshalJSON_each nf (AnyOf s))))
     @ member ''allOf''
         (if AllOf s = [] then None else Some (array (Schema_MarshalJSON_each nf (AllOf s))))
     @ member ''oneOf''
         (if OneOf s = [] then None else Some (array (Schema_MarshalJSON_each nf (OneOf s))))
     @ member ''not''
         (case Not' s of None \<Rightarrow> None | Some sub \<Rightarrow> Some (Schema_MarshalJSON nf sub))
     @ member ''examples'' (strings_field (Examples s))
     @ member ''enum'' (strings_field (elems (Enum s)))
     @ member ''deprecated'' (bool_field (Deprecated s))
     @ member ''readOnly'' (bool_field (ReadOnly s))
     @ member ''writeOnly'' (bool_field (WriteOnly s))
     @ member ''required'' (Required_field addressable (Required s))
     @ member ''CustomAnnotations'' (CustomAnnotations_field nf (CustomAnnotations s))
     @ member ''minLength'' (int_field nf (MinLength s))
     @ member ''maxLength'' (int_field nf (MaxLength s))
     @ member ''minItems'' (int_field nf (MinItems s))
     @ member ''maxItems'' (int_field nf (MaxItems s))"
| "Schema_MarshalJSON_map nf [] = []"
| "Schema_MarshalJSON_map nf ((k, sub) # subs) =
     (k, Schema_MarshalJSON nf sub) # Schema_MarshalJSON_map nf subs"
| "Schema_MarshalJSON_each nf [] = []"
| "Schema_MarshalJSON_each nf (sub # subs) =
     Schema_MarshalJSON nf sub # Schema_MarshalJSON_each nf subs"
  by pat_completeness auto

termination
proof (relation "measure (\<lambda>x. case x of
          Inl (Inl (nf, s)) \<Rightarrow> 2 * size s + 1
        | Inl (Inr (nf, addressable, s)) \<Rightarrow> 2 * size s
        | Inr (Inl (nf, subs)) \<Rightarrow> 2 * size_list (size_prod (\<lambda>_. 0) size) subs
        | Inr (Inr (nf, subs)) \<Rightarrow> 2 * size_list size subs)", goal_cases)
  case 1
  show ?case by simp
next
  case (2 nf s)
  show ?case by simp
next
  case (3 nf addressable s sub)
  then show ?case
    by (cases s; cases "AdditionalProperties s") simp_all
next
  case (4 nf addressable s sub)
  then show ?case by (cases s) simp
next
  case (5 nf addressable s subs)
  then show ?case by (cases s) simp
next
  case (6 nf addressable s subs)
  then show ?case by (cases s) simp
next
  case (7 nf addressable s sub)
  then show ?case by (cases s) simp
next
  case (8 nf addressable s sub)
  then show ?case by (cases s) simp
next
  case (9 nf addressable s sub)
  then show ?case by (cases s) simp
next
  case (10 nf addressable s)
  then show ?case by (cases s) simp
next
  case (11 nf addressable s)
  then show ?case by (cases s) simp
next
  case (12 nf addressable s)
  then show ?case by (cases s) simp
next
  case (13 nf addressable s sub)
  then show ?case by (cases s) simp
next
  case (14 nf k sub subs)
  show ?case by simp
next
  case (15 nf k sub subs)
  show ?case by simp
next
  case (16 nf sub subs)
  show ?case by simp
next
  case (17 nf sub subs)
  show ?case by simp
qed

declare Schema_MarshalJSON.simps [simp del] Schema_fields.simps [simp del]

section \<open>Notions for the statements\<close>

text \<open>
  The delimiter lines of a comment as the parser takes them: the lines that begin with
  the token \<^verbatim>\<open># @schema\<close>. A line is inside the annotation block when an odd number
  of delimiter lines stands before it.
\<close>

definition is_delimiter :: "string \<Rightarrow> bool" where
  "is_delimiter line = HasPrefix line SchemaPrefix"

definition inside_block :: "string list \<Rightarrow> nat \<Rightarrow> bool" where
  "inside_block lines i = odd (length (filter is_delimiter (take i lines)))"

definition annotation_lines :: "string list \<Rightarrow> string list" where
  "annotation_lines lines =
     map (\<lambda>i. lines ! i)
       (filter (\<lambda>i. \<not> is_delimiter (lines ! i) \<and> inside_block lines i) [0..<length lines])"

definition description_lines :: "string list \<Rightarrow> string list" where
  "description_lines lines =
     map (\<lambda>i. lines ! i)
       (filter (\<lambda>i. \<not> is_delimiter (lines ! i) \<and> \<not> inside_block lines i) [0..<length lines])"

text \<open>The prefixes the parser strips from a description line and from an annotation line.\<close>

definition strip_description :: "string \<Rightarrow> string" where
  "strip_description line = TrimPrefix (TrimPrefix line CommentPrefix) '' ''"

definition strip_annotation :: "string \<Rightarrow> string" where
  "strip_annotation line =
     TrimPrefix (TrimPrefix (TrimPrefix line CommentPrefix) CommentPrefix) '' ''"

text \<open>
  The type name a scalar element of a YAML list stands for: the literal "null" for a
  null-tagged element, its text otherwise.
\<close>

definition type_name :: "Node \<Rightarrow> string" where
  "type_name n = (if ShortTag n = nullTag then ''null'' else Value n)"

text \<open>A YAML sequence node of the given elements, and a plain string scalar.\<close>

definition sequence_node :: "Node list \<Rightarrow> Node" where
  "sequence_node nodes = Node SequenceNode arrayTag [] [] nodes None"

definition string_node :: "string \<Rightarrow> Node" where
  "string_node t = Node ScalarNode strTag t [] [] None"

definition null_node :: Node where
  "null_node = Node ScalarNode nullTag ''null'' [] [] None"

text \<open>Decoding a type annotation from YAML and encoding the result as JSON.\<close>

definition decode_then_encode :: "Node \<Rightarrow> error + json" where
  "decode_then_encode v =
     (case StringOrArrayOfString_UnmarshalYAML v None of
        Inl err \<Rightarrow> Inl err
      | Inr t \<Rightarrow> StringOrArrayOfString_MarshalJSON t)"

text \<open>
  The names of the properties that carry the boolean required flag, in the order of the
  properties, and the required-name list after each of them that it lacks was appended.
\<close>

definition flagged :: "(string \<times> Schema) list \<Rightarrow> string list" where
  "flagged props = map fst (filter (\<lambda>kv. Bool (Required (snd kv))) props)"

fun add_missing :: "string list \<Rightarrow> string slice \<Rightarrow> string slice" where
  "add_missing [] strs = strs"
| "add_missing (k # ks) strs =
     add_missing ks (if k \<in> set (elems strs) then strs else append1 strs k)"

text \<open>
  An environment for the concrete cases: libraries that accept whatever they are
  given, and an empty file system.
\<close>

definition accepting_env :: env where
  "accepting_env =
     \<lparr> json_MarshalIndent = (\<lambda>s. Inr ''{}''),
       AddResource = (\<lambda>text. None),
       yaml_Unmarshal = (\<lambda>text s. Inr s),
       leadingCommentsRemover = (\<lambda>text. text),
       helmDocsTagsRemover = (\<lambda>text. text),
       prefixRemover = (\<lambda>text. text),
       helm_ParseComment = (\<lambda>lines. ([], [], [])),
       files = (\<lambda>path. None),
       json_Unmarshal_any = (\<lambda>text. ANil),
       json_Marshal_any = (\<lambda>v. Inr ''null''),
       json_Unmarshal_Schema = (\<lambda>text. Inr emptySchema),
       jsonpointer_Get = (\<lambda>v pointer. Inr v),
       strconv_Atoi = (\<lambda>text. None),
       strconv_ParseFloat = (\<lambda>text. False),
       relative_path = (\<lambda>root relPath. relPath) \<rparr>"

text \<open>A schema with the boolean required flag set and nothing else.\<close>

definition required_flag_schema :: Schema where
  "required_flag_schema = set_Required (BoolOrArrayOfString None True) emptySchema"

text \<open>The key nodes of the content of a mapping node: every other node, from the first.\<close>

fun keys_of :: "Node list \<Rightarrow> Node list" where
  "keys_of (keyNode # valueNode # rest) = keyNode # keys_of rest"
| "keys_of _ = []"

text \<open>
  The configuration with every switch off, and nodes for the concrete cases: a key
  with a comment, a string scalar and a mapping.
\<close>

definition default_config :: config where
  "default_config =
     \<lparr> valuesPath = ''values.yaml'', keepFullComment = False,
       helmDocsCompatibilityMode = False, dontRemoveHelmDocsPrefix = False,
       skipAutoGeneration =
         \<lparr> SkipTitle = False, SkipDescription = False, SkipRequired = False,
           SkipDefault = False, SkipAdditionalProperties = False \<rparr> \<rparr>"

definition key_node :: "string \<Rightarrow> string \<Rightarrow> Node" where
  "key_node name comment = Node ScalarNode strTag name comment [] None"

definition mapping_node :: "Node list \<Rightarrow> Node" where
  "mapping_node content = Node MappingNode mapTag [] [] content None"

text \<open>
  The comment that holds one annotation line between two delimiter lines, and
  environments whose YAML decoder reads the annotation \<^verbatim>\<open>$ref: other.json#/definitions/foo\<close>
  and the annotations \<^verbatim>\<open>required: true\<close> and \<^verbatim>\<open>required: [k, k]\<close>.
\<close>

definition annotation_comment :: "string \<Rightarrow> string" where
  "annotation_comment line =
     ''# @schema'' @ [CHR 0x0A] @ ''# '' @ line @ [CHR 0x0A] @ ''# @schema''"

definition ref_env :: env where
  "ref_env = accepting_env
     \<lparr> yaml_Unmarshal := (\<lambda>text s.
          if text = ''$ref: other.json#/definitions/foo''
          then Inr (set_Ref ''other.json#/definitions/foo'' s) else Inr s) \<rparr>"

definition required_env :: env where
  "required_env = accepting_env
     \<lparr> yaml_Unmarshal := (\<lambda>text s.
          if text = ''required: true''
          then Inr (set_Required (BoolOrArrayOfString (Strings (Required s)) True) s)
          else if text = ''required: [k, k]''
          then Inr (set_Required (BoolOrArrayOfString (Some [''k'', ''k'']) (Bool (Required s))) s)
          else Inr s) \<rparr>"







section \<open>Basic facts\<close>

lemma Index_loop_neg: "0 \<le> i \<Longrightarrow> (Index_loop s v i < 0) = (v \<notin> set s)"
  by (induction s arbitrary: i) auto

lemma Contains_iff: "Contains s v = (v \<in> set s)"
  using Index_loop_neg [of 0 s v] by (auto simp: Contains_def Index_def)

lemma elems_simps [simp]: "elems None = []" "elems (Some xs) = xs"
  by (simp_all add: elems_def)

lemma elems_append1 [simp]: "elems (append1 s x) = elems s @ [x]"
  by (simp add: append1_def)

text \<open>The fields of a schema after an assignment to one of them.\<close>

lemma set_AdditionalProperties_sel [simp]:
  "AdditionalProperties (set_AdditionalProperties v s) = v"
  "Default (set_AdditionalProperties v s) = Default s"
  "Then (set_AdditionalProperties v s) = Then s"
  "PatternProperties (set_AdditionalProperties v s) = PatternProperties s"
  "Properties (set_AdditionalProperties v s) = Properties s"
  "If' (set_AdditionalProperties v s) = If' s"
  "Minimum (set_AdditionalProperties v s) = Minimum s"
  "MultipleOf (set_AdditionalProperties v s) = MultipleOf s"
  "ExclusiveMaximum (set_AdditionalProperties v s) = ExclusiveMaximum s"
  "Items (set_AdditionalProperties v s) = Items s"
  "ExclusiveMinimum (set_AdditionalProperties v s) = ExclusiveMinimum s"
  "Maximum (set_AdditionalProperties v s) = Maximum s"
  "Else (set_AdditionalProperties v s) = Else s"
  "Pattern (set_AdditionalProperties v s) = Pattern s"
  "Const (set_AdditionalProperties v s) = Const s"
  "Ref (set_AdditionalProperties v s) = Ref s"
  "Schema' (set_AdditionalProperties v s) = Schema' s"
  "Id' (set_AdditionalProperties v s) = Id' s"
  "Format (set_AdditionalProperties v s) = Format s"
  "Description (set_AdditionalProperties v s) = Description s"
  "Title (set_AdditionalProperties v s) = Title s"
  "Type (set_AdditionalProperties v s) = Type s"
  "AnyOf (set_AdditionalProperties v s) = AnyOf s"
  "AllOf (set_AdditionalProperties v s) = AllOf s"
  "OneOf (set_AdditionalProperties v s) = OneOf s"
  "Not' (set_AdditionalProperties v s) = Not' s"
  "Examples (set_AdditionalProperties v s) = Examples s"
  "Enum (set_AdditionalProperties v s) = Enum s"
  "HasData (set_AdditionalProperties v s) = HasData s"
  "Deprecated (set_AdditionalProperties v s) = Deprecated s"
  "ReadOnly (set_AdditionalProperties v s) = ReadOnly s"
  "WriteOnly (set_AdditionalProperties v s) = WriteOnly s"
  "Required (set_AdditionalProperties v s) = Required s"
  "CustomAnnotations (set_AdditionalProperties v s) = CustomAnnotations s"
  "MinLength (set_AdditionalProperties v s) = MinLength s"
  "MaxLength (set_AdditionalProperties v s) = MaxLength s"
  "MinItems (set_AdditionalProperties v s) = MinItems s"
  "MaxItems (set_AdditionalProperties v s) = MaxItems s"
  by (simp_all add: set_AdditionalProperties_def)

lemma set_Default_sel [simp]:
  "AdditionalProperties (set_Default v s) = AdditionalProperties s"
  "Default (set_Default v s) = v"
  "Then (set_Default v s) = Then s"
  "PatternProperties (set_Default v s) = PatternProperties s"
  "Properties (set_Default v s) = Properties s"
  "If' (set_Default v s) = If' s"
  "Minimum (set_Default v s) = Minimum s"
  "MultipleOf (set_Default v s) = MultipleOf s"
  "ExclusiveMaximum (set_Default v s) = ExclusiveMaximum s"
  "Items (set_Default v s) = Items s"
  "ExclusiveMinimum (set_Default v s) = ExclusiveMinimum s"
  "Maximum (set_Default v s) = Maximum s"
  "Else (set_Default v s) = Else s"
  "Pattern (set_Default v s) = Pattern s"
  "Const (set_Default v s) = Const s"
  "Ref (set_Default v s) = Ref s"
  "Schema' (set_Default v s) = Schema' s"
  "Id' (set_Default v s) = Id' s"
  "Format (set_Default v s) = Format s"
  "Description (set_Default v s) = Description s"
  "Title (set_Default v s) = Title s"
  "Type (set_Default v s) = Type s"
  "AnyOf (set_Default v s) = AnyOf s"
  "AllOf (set_Default v s) = AllOf s"
  "OneOf (set_Default v s) = OneOf s"
  "Not' (set_Default v s) = Not' s"
  "Examples (set_Default v s) = Examples s"
  "Enum (set_Default v s) = Enum s"
  "HasData (set_Default v s) = HasData s"
  "Deprecated (set_Default v s) = Deprecated s"
  "ReadOnly (set_Default v s) = ReadOnly s"
  "WriteOnly (set_Default v s) = WriteOnly s"
  "Required (set_Default v s) = Required s"
  "CustomAnnotations (set_Default v s) = CustomAnnotations s"
  "MinLength (set_Default v s) = MinLength s"
  "MaxLength (set_Default v s) = MaxLength s"
  "MinItems (set_Default v s) = MinItems s"
  "MaxItems (set_Default v s) = MaxItems s"
  by (simp_all add: set_Default_def)

lemma set_Then_sel [simp]:
  "AdditionalProperties (set_Then v s) = AdditionalProperties s"
  "Default (set_Then v s) = Default s"
  "Then (set_Then v s) = v"
  "PatternProperties (set_Then v s) = PatternProperties s"
  "Properties (set_Then v s) = Properties s"
  "If' (set_Then v s) = If' s"
  "Minimum (set_Then v s) = Minimum s"
  "MultipleOf (set_Then v s) = MultipleOf s"
  "ExclusiveMaximum (set_Then v s) = ExclusiveMaximum s"
  "Items (set_Then v s) = Items s"
  "ExclusiveMinimum (set_Then v s) = ExclusiveMinimum s"
  "Maximum (set_Then v s) = Maximum s"
  "Else (set_Then v s) = Else s"
  "Pattern (set_Then v s) = Pattern s"
  "Const (set_Then v s) = Const s"
  "Ref (set_Then v s) = Ref s"
  "Schema' (set_Then v s) = Schema' s"
  "Id' (set_Then v s) = Id' s"
  "Format (set_Then v s) = Format s"
  "Description (set_Then v s) = Description s"
  "Title (set_Then v s) = Title s"
  "Type (set_Then v s) = Type s"
  "AnyOf (set_Then v s) = AnyOf s"
  "AllOf (set_Then v s) = AllOf s"
  "OneOf (set_Then v s) = OneOf s"
  "Not' (set_Then v s) = Not' s"
  "Examples (set_Then v s) = Examples s"
  "Enum (set_Then v s) = Enum s"
  "HasData (set_Then v s) = HasData s"
  "Deprecated (set_Then v s) = Deprecated s"
  "ReadOnly (set_Then v s) = ReadOnly s"
  "WriteOnly (set_Then v s) = WriteOnly s"
  "Required (set_Then v s) = Required s"
  "CustomAnnotations (set_Then v s) = CustomAnnotations s"
  "MinLength (set_Then v s) = MinLength s"
  "MaxLength (set_Then v s) = MaxLength s"
  "MinItems (set_Then v s) = MinItems s"
  "MaxItems (set_Then v s) = MaxItems s"
  by (simp_all add: set_Then_def)

lemma set_Properties_sel [simp]:
  "AdditionalProperties (set_Properties v s) = AdditionalProperties s"
  "Default (set_Properties v s) = Default s"
  "Then (set_Properties v s) = Then s"
  "PatternProperties (set_Properties v s) = PatternProperties s"
  "Properties (set_Properties v s) = v"
  "If' (set_Properties v s) = If' s"
  "Minimum (set_Properties v s) = Minimum s"
  "MultipleOf (set_Properties v s) = MultipleOf s"
  "ExclusiveMaximum (set_Properties v s) = ExclusiveMaximum s"
  "Items (set_Properties v s) = Items s"
  "ExclusiveMinimum (set_Properties v s) = ExclusiveMinimum s"
  "Maximum (set_Properties v s) = Maximum s"
  "Else (set_Properties v s) = Else s"
  "Pattern (set_Properties v s) = Pattern s"
  "Const (set_Properties v s) = Const s"
  "Ref (set_Properties v s) = Ref s"
  "Schema' (set_Properties v s) = Schema' s"
  "Id' (set_Properties v s) = Id' s"
  "Format (set_Properties v s) = Format s"
  "Description (set_Properties v s) = Description s"
  "Title (set_Properties v s) = Title s"
  "Type (set_Properties v s) = Type s"
  "AnyOf (set_Properties v s) = AnyOf s"
  "AllOf (set_Properties v s) = AllOf s"
  "OneOf (set_Properties v s) = OneOf s"
  "Not' (set_Properties v s) = Not' s"
  "Examples (set_Properties v s) = Examples s"
  "Enum (set_Properties v s) = Enum s"
  "HasData (set_Properties v s) = HasData s"
  "Deprecated (set_Properties v s) = Deprecated s"
  "ReadOnly (set_Properties v s) = ReadOnly s"
  "WriteOnly (set_Properties v s) = WriteOnly s"
  "Required (set_Properties v s) = Required s"
  "CustomAnnotations (set_Properties v s) = CustomAnnotations s"
  "MinLength (set_Properties v s) = MinLength s"
  "MaxLength (set_Properties v s) = MaxLength s"
  "MinItems (set_Properties v s) = MinItems s"
  "MaxItems (set_Properties v s) = MaxItems s"
  by (simp_all add: set_Properties_def)

lemma set_If'_sel [simp]:
  "AdditionalProperties (set_If' v s) = AdditionalProperties s"
  "Default (set_If' v s) = Default s"
  "Then (set_If' v s) = Then s"
  "PatternProperties (set_If' v s) = PatternProperties s"
  "Properties (set_If' v s) = Properties s"
  "If' (set_If' v s) = v"
  "Minimum (set_If' v s) = Minimum s"
  "MultipleOf (set_If' v s) = MultipleOf s"
  "ExclusiveMaximum (set_If' v s) = ExclusiveMaximum s"
  "Items (set_If' v s) = Items s"
  "ExclusiveMinimum (set_If' v s) = ExclusiveMinimum s"
  "Maximum (set_If' v s) = Maximum s"
  "Else (set_If' v s) = Else s"
  "Pattern (set_If' v s) = Pattern s"
  "Const (set_If' v s) = Const s"
  "Ref (set_If' v s) = Ref s"
  "Schema' (set_If' v s) = Schema' s"
  "Id' (set_If' v s) = Id' s"
  "Format (set_If' v s) = Format s"
  "Description (set_If' v s) = Description s"
  "Title (set_If' v s) = Title s"
  "Type (set_If' v s) = Type s"
  "AnyOf (set_If' v s) = AnyOf s"
  "AllOf (set_If' v s) = AllOf s"
  "OneOf (set_If' v s) = OneOf s"
  "Not' (set_If' v s) = Not' s"
  "Examples (set_If' v s) = Examples s"
  "Enum (set_If' v s) = Enum s"
  "HasData (set_If' v s) = HasData s"
  "Deprecated (set_If' v s) = Deprecated s"
  "ReadOnly (set_If' v s) = ReadOnly s"
  "WriteOnly (set_If' v s) = WriteOnly s"
  "Required (set_If' v s) = Required s"
  "CustomAnnotations (set_If' v s) = CustomAnnotations s"
  "MinLength (set_If' v s) = MinLength s"
  "MaxLength (set_If' v s) = MaxLength s"
  "MinItems (set_If' v s) = MinItems s"
  "MaxItems (set_If' v s) = MaxItems s"
  by (simp_all add: set_If'_def)

lemma set_Items_sel [simp]:
  "AdditionalProperties (set_Items v s) = AdditionalProperties s"
  "Default (set_Items v s) = Default s"
  "Then (set_Items v s) = Then s"
  "PatternProperties (set_Items v s) = PatternProperties s"
  "Properties (set_Items v s) = Properties s"
  "If' (set_Items v s) = If' s"
  "Minimum (set_Items v s) = Minimum s"
  "MultipleOf (set_Items v s) = MultipleOf s"
  "ExclusiveMaximum (set_Items v s) = ExclusiveMaximum s"
  "Items (set_Items v s) = v"
  "ExclusiveMinimum (set_Items v s) = ExclusiveMinimum s"
  "Maximum (set_Items v s) = Maximum s"
  "Else (set_Items v s) = Else s"
  "Pattern (set_Items v s) = Pattern s"
  "Const (set_Items v s) = Const s"
  "Ref (set_Items v s) = Ref s"
  "Schema' (set_Items v s) = Schema' s"
  "Id' (set_Items v s) = Id' s"
  "Format (set_Items v s) = Format s"
  "Description (set_Items v s) = Description s"
  "Title (set_Items v s) = Title s"
  "Type (set_Items v s) = Type s"
  "AnyOf (set_Items v s) = AnyOf s"
  "AllOf (set_Items v s) = AllOf s"
  "OneOf (set_Items v s) = OneOf s"
  "Not' (set_Items v s) = Not' s"
  "Examples (set_Items v s) = Examples s"
  "Enum (set_Items v s) = Enum s"
  "HasData (set_Items v s) = HasData s"
  "Deprecated (set_Items v s) = Deprecated s"
  "ReadOnly (set_Items v s) = ReadOnly s"
  "WriteOnly (set_Items v s) = WriteOnly s"
  "Required (set_Items v s) = Required s"
  "CustomAnnotations (set_Items v s) = CustomAnnotations s"
  "MinLength (set_Items v s) = MinLength s"
  "MaxLength (set_Items v s) = MaxLength s"
  "MinItems (set_Items v s) = MinItems s"
  "MaxItems (set_Items v s) = MaxItems s"
  by (simp_all add: set_Items_def)

lemma set_Else_sel [simp]:
  "AdditionalProperties (set_Else v s) = AdditionalProperties s"
  "Default (set_Else v s) = Default s"
  "Then (set_Else v s) = Then s"
  "PatternProperties (set_Else v s) = PatternProperties s"
  "Properties (set_Else v s) = Properties s"
  "If' (set_Else v s) = If' s"
  "Minimum (set_Else v s) = Minimum s"
  "MultipleOf (set_Else v s) = MultipleOf s"
  "ExclusiveMaximum (set_Else v s) = ExclusiveMaximum s"
  "Items (set_Else v s) = Items s"
  "ExclusiveMinimum (set_Else v s) = ExclusiveMinimum s"
  "Maximum (set_Else v s) = Maximum s"
  "Else (set_Else v s) = v"
  "Pattern (set_Else v s) = Pattern s"
  "Const (set_Else v s) = Const s"
  "Ref (set_Else v s) = Ref s"
  "Schema' (set_Else v s) = Schema' s"
  "Id' (set_Else v s) = Id' s"
  "Format (set_Else v s) = Format s"
  "Description (set_Else v s) = Description s"
  "Title (set_Else v s) = Title s"
  "Type (set_Else v s) = Type s"
  "AnyOf (set_Else v s) = AnyOf s"
  "AllOf (set_Else v s) = AllOf s"
  "OneOf (set_Else v s) = OneOf s"
  "Not' (set_Else v s) = Not' s"
  "Examples (set_Else v s) = Examples s"
  "Enum (set_Else v s) = Enum s"
  "HasData (set_Else v s) = HasData s"
  "Deprecated (set_Else v s) = Deprecated s"
  "ReadOnly (set_Else v s) = ReadOnly s"
  "WriteOnly (set_Else v s) = WriteOnly s"
  "Required (set_Else v s) = Required s"
  "CustomAnnotations (set_Else v s) = CustomAnnotations s"
  "MinLength (set_Else v s) = MinLength s"
  "MaxLength (set_Else v s) = MaxLength s"
  "MinItems (set_Else v s) = MinItems s"
  "MaxItems (set_Else v s) = MaxItems s"
  by (simp_all add: set_Else_def)

lemma set_Ref_sel [simp]:
  "AdditionalProperties (set_Ref v s) = AdditionalProperties s"
  "Default (set_Ref v s) = Default s"
  "Then (set_Ref v s) = Then s"
  "PatternProperties (set_Ref v s) = PatternProperties s"
  "Properties (set_Ref v s) = Properties s"
  "If' (set_Ref v s) = If' s"
  "Minimum (set_Ref v s) = Minimum s"
  "MultipleOf (set_Ref v s) = MultipleOf s"
  "ExclusiveMaximum (set_Ref v s) = ExclusiveMaximum s"
  "Items (set_Ref v s) = Items s"
  "ExclusiveMinimum (set_Ref v s) = ExclusiveMinimum s"
  "Maximum (set_Ref v s) = Maximum s"
  "Else (set_Ref v s) = Else s"
  "Pattern (set_Ref v s) = Pattern s"
  "Const (set_Ref v s) = Const s"
  "Ref (set_Ref v s) = v"
  "Schema' (set_Ref v s) = Schema' s"
  "Id' (set_Ref v s) = Id' s"
  "Format (set_Ref v s) = Format s"
  "Description (set_Ref v s) = Description s"
  "Title (set_Ref v s) = Title s"
  "Type (set_Ref v s) = Type s"
  "AnyOf (set_Ref v s) = AnyOf s"
  "AllOf (set_Ref v s) = AllOf s"
  "OneOf (set_Ref v s) = OneOf s"
  "Not' (set_Ref v s) = Not' s"
  "Examples (set_Ref v s) = Examples s"
  "Enum (set_Ref v s) = Enum s"
  "HasData (set_Ref v s) = HasData s"
  "Deprecated (set_Ref v s) = Deprecated s"
  "ReadOnly (set_Ref v s) = ReadOnly s"
  "WriteOnly (set_Ref v s) = WriteOnly s"
  "Required (set_Ref v s) = Required s"
  "CustomAnnotations (set_Ref v s) = CustomAnnotations s"
  "MinLength (set_Ref v s) = MinLength s"
  "MaxLength (set_Ref v s) = MaxLength s"
  "MinItems (set_Ref v s) = MinItems s"
  "MaxItems (set_Ref v s) = MaxItems s"
  by (simp_all add: set_Ref_def)

lemma set_Schema'_sel [simp]:
  "AdditionalProperties (set_Schema' v s) = AdditionalProperties s"
  "Default (set_Schema' v s) = Default s"
  "Then (set_Schema' v s) = Then s"
  "PatternProperties (set_Schema' v s) = PatternProperties s"
  "Properties (set_Schema' v s) = Properties s"
  "If' (set_Schema' v s) = If' s"
  "Minimum (set_Schema' v s) = Minimum s"
  "MultipleOf (set_Schema' v s) = MultipleOf s"
  "ExclusiveMaximum (set_Schema' v s) = ExclusiveMaximum s"
  "Items (set_Schema' v s) = Items s"
  "ExclusiveMinimum (set_Schema' v s) = ExclusiveMinimum s"
  "Maximum (set_Schema' v s) = Maximum s"
  "Else (set_Schema' v s) = Else s"
  "Pattern (set_Schema' v s) = Pattern s"
  "Const (set_Schema' v s) = Const s"
  "Ref (set_Schema' v s) = Ref s"
  "Schema' (set_Schema' v s) = v"
  "Id' (set_Schema' v s) = Id' s"
  "Format (set_Schema' v s) = Format s"
  "Description (set_Schema' v s) = Description s"
  "Title (set_Schema' v s) = Title s"
  "Type (set_Schema' v s) = Type s"
  "AnyOf (set_Schema' v s) = AnyOf s"
  "AllOf (set_Schema' v s) = AllOf s"
  "OneOf (set_Schema' v s) = OneOf s"
  "Not' (set_Schema' v s) = Not' s"
  "Examples (set_Schema' v s) = Examples s"
  "Enum (set_Schema' v s) = Enum s"
  "HasData (set_Schema' v s) = HasData s"
  "Deprecated (set_Schema' v s) = Deprecated s"
  "ReadOnly (set_Schema' v s) = ReadOnly s"
  "WriteOnly (set_Schema' v s) = WriteOnly s"
  "Required (set_Schema' v s) = Required s"
  "CustomAnnotations (set_Schema' v s) = CustomAnnotations s"
  "MinLength (set_Schema' v s) = MinLength s"
  "MaxLength (set_Schema' v s) = MaxLength s"
  "MinItems (set_Schema' v s) = MinItems s"
  "MaxItems (set_Schema' v s) = MaxItems s"
  by (simp_all add: set_Schema'_def)

lemma set_Description_sel [simp]:
  "AdditionalProperties (set_Description v s) = AdditionalProperties s"
  "Default (set_Description v s) = Default s"
  "Then (set_Description v s) = Then s"
  "PatternProperties (set_Description v s) = PatternProperties s"
  "Properties (set_Description v s) = Properties s"
  "If' (set_Description v s) = If' s"
  "Minimum (set_Description v s) = Minimum s"
  "MultipleOf (set_Description v s) = MultipleOf s"
  "ExclusiveMaximum (set_Description v s) = ExclusiveMaximum s"
  "Items (set_Description v s) = Items s"
  "ExclusiveMinimum (set_Description v s) = ExclusiveMinimum s"
  "Maximum (set_Description v s) = Maximum s"
  "Else (set_Description v s) = Else s"
  "Pattern (set_Description v s) = Pattern s"
  "Const (set_Description v s) = Const s"
  "Ref (set_Description v s) = Ref s"
  "Schema' (set_Description v s) = Schema' s"
  "Id' (set_Description v s) = Id' s"
  "Format (set_Description v s) = Format s"
  "Description (set_Description v s) = v"
  "Title (set_Description v s) = Title s"
  "Type (set_Description v s) = Type s"
  "AnyOf (set_Description v s) = AnyOf s"
  "AllOf (set_Description v s) = AllOf s"
  "OneOf (set_Description v s) = OneOf s"
  "Not' (set_Description v s) = Not' s"
  "Examples (set_Description v s) = Examples s"
  "Enum (set_Description v s) = Enum s"
  "HasData (set_Description v s) = HasData s"
  "Deprecated (set_Description v s) = Deprecated s"
  "ReadOnly (set_Description v s) = ReadOnly s"
  "WriteOnly (set_Description v s) = WriteOnly s"
  "Required (set_Description v s) = Required s"
  "CustomAnnotations (set_Description v s) = CustomAnnotations s"
  "MinLength (set_Description v s) = MinLength s"
  "MaxLength (set_Description v s) = MaxLength s"
  "MinItems (set_Description v s) = MinItems s"
  "MaxItems (set_Description v s) = MaxItems s"
  by (simp_all add: set_Description_def)

lemma set_Title_sel [simp]:
  "AdditionalProperties (set_Title v s) = AdditionalProperties s"
  "Default (set_Title v s) = Default s"
  "Then (set_Title v s) = Then s"
  "PatternProperties (set_Title v s) = PatternProperties s"
  "Properties (set_Title v s) = Properties s"
  "If' (set_Title v s) = If' s"
  "Minimum (set_Title v s) = Minimum s"
  "MultipleOf (set_Title v s) = MultipleOf s"
  "ExclusiveMaximum (set_Title v s) = ExclusiveMaximum s"
  "Items (set_Title v s) = Items s"
  "ExclusiveMinimum (set_Title v s) = ExclusiveMinimum s"
  "Maximum (set_Title v s) = Maximum s"
  "Else (set_Title v s) = Else s"
  "Pattern (set_Title v s) = Pattern s"
  "Const (set_Title v s) = Const s"
  "Ref (set_Title v s) = Ref s"
  "Schema' (set_Title v s) = Schema' s"
  "Id' (set_Title v s) = Id' s"
  "Format (set_Title v s) = Format s"
  "Description (set_Title v s) = Description s"
  "Title (set_Title v s) = v"
  "Type (set_Title v s) = Type s"
  "AnyOf (set_Title v s) = AnyOf s"
  "AllOf (set_Title v s) = AllOf s"
  "OneOf (set_Title v s) = OneOf s"
  "Not' (set_Title v s) = Not' s"
  "Examples (set_Title v s) = Examples s"
  "Enum (set_Title v s) = Enum s"
  "HasData (set_Title v s) = HasData s"
  "Deprecated (set_Title v s) = Deprecated s"
  "ReadOnly (set_Title v s) = ReadOnly s"
  "WriteOnly (set_Title v s) = WriteOnly s"
  "Required (set_Title v s) = Required s"
  "CustomAnnotations (set_Title v s) = CustomAnnotations s"
  "MinLength (set_Title v s) = MinLength s"
  "MaxLength (set_Title v s) = MaxLength s"
  "MinItems (set_Title v s) = MinItems s"
  "MaxItems (set_Title v s) = MaxItems s"
  by (simp_all add: set_Title_def)

lemma set_Type_sel [simp]:
  "AdditionalProperties (set_Type v s) = AdditionalProperties s"
  "Default (set_Type v s) = Default s"
  "Then (set_Type v s) = Then s"
  "PatternProperties (set_Type v s) = PatternProperties s"
  "Properties (set_Type v s) = Properties s"
  "If' (set_Type v s) = If' s"
  "Minimum (set_Type v s) = Minimum s"
  "MultipleOf (set_Type v s) = MultipleOf s"
  "ExclusiveMaximum (set_Type v s) = ExclusiveMaximum s"
  "Items (set_Type v s) = Items s"
  "ExclusiveMinimum (set_Type v s) = ExclusiveMinimum s"
  "Maximum (set_Type v s) = Maximum s"
  "Else (set_Type v s) = Else s"
  "Pattern (set_Type v s) = Pattern s"
  "Const (set_Type v s) = Const s"
  "Ref (set_Type v s) = Ref s"
  "Schema' (set_Type v s) = Schema' s"
  "Id' (set_Type v s) = Id' s"
  "Format (set_Type v s) = Format s"
  "Description (set_Type v s) = Description s"
  "Title (set_Type v s) = Title s"
  "Type (set_Type v s) = v"
  "AnyOf (set_Type v s) = AnyOf s"
  "AllOf (set_Type v s) = AllOf s"
  "OneOf (set_Type v s) = OneOf s"
  "Not' (set_Type v s) = Not' s"
  "Examples (set_Type v s) = Examples s"
  "Enum (set_Type v s) = Enum s"
  "HasData (set_Type v s) = HasData s"
  "Deprecated (set_Type v s) = Deprecated s"
  "ReadOnly (set_Type v s) = ReadOnly s"
  "WriteOnly (set_Type v s) = WriteOnly s"
  "Required (set_Type v s) = Required s"
  "CustomAnnotations (set_Type v s) = CustomAnnotations s"
  "MinLength (set_Type v s) = MinLength s"
  "MaxLength (set_Type v s) = MaxLength s"
  "MinItems (set_Type v s) = MinItems s"
  "MaxItems (set_Type v s) = MaxItems s"
  by (simp_all add: set_Type_def)

lemma set_AnyOf_sel [simp]:
  "AdditionalProperties (set_AnyOf v s) = AdditionalProperties s"
  "Default (set_AnyOf v s) = Default s"
  "Then (set_AnyOf v s) = Then s"
  "PatternProperties (set_AnyOf v s) = PatternProperties s"
  "Properties (set_AnyOf v s) = Properties s"
  "If' (set_AnyOf v s) = If' s"
  "Minimum (set_AnyOf v s) = Minimum s"
  "MultipleOf (set_AnyOf v s) = MultipleOf s"
  "ExclusiveMaximum (set_AnyOf v s) = ExclusiveMaximum s"
  "Items (set_AnyOf v s) = Items s"
  "ExclusiveMinimum (set_AnyOf v s) = ExclusiveMinimum s"
  "Maximum (set_AnyOf v s) = Maximum s"
  "Else (set_AnyOf v s) = Else s"
  "Pattern (set_AnyOf v s) = Pattern s"
  "Const (set_AnyOf v s) = Const s"
  "Ref (set_AnyOf v s) = Ref s"
  "Schema' (set_AnyOf v s) = Schema' s"
  "Id' (set_AnyOf v s) = Id' s"
  "Format (set_AnyOf v s) = Format s"
  "Description (set_AnyOf v s) = Description s"
  "Title (set_AnyOf v s) = Title s"
  "Type (set_AnyOf v s) = Type s"
  "AnyOf (set_AnyOf v s) = v"
  "AllOf (set_AnyOf v s) = AllOf s"
  "OneOf (set_AnyOf v s) = OneOf s"
  "Not' (set_AnyOf v s) = Not' s"
  "Examples (set_AnyOf v s) = Examples s"
  "Enum (set_AnyOf v s) = Enum s"
  "HasData (set_AnyOf v s) = HasData s"
  "Deprecated (set_AnyOf v s) = Deprecated s"
  "ReadOnly (set_AnyOf v s) = ReadOnly s"
  "WriteOnly (set_AnyOf v s) = WriteOnly s"
  "Required (set_AnyOf v s) = Required s"
  "CustomAnnotations (set_AnyOf v s) = CustomAnnotations s"
  "MinLength (set_AnyOf v s) = MinLength s"
  "MaxLength (set_AnyOf v s) = MaxLength s"
  "MinItems (set_AnyOf v s) = MinItems s"
  "MaxItems (set_AnyOf v s) = MaxItems s"
  by (simp_all add: set_AnyOf_def)

lemma set_AllOf_sel [simp]:
  "AdditionalProperties (set_AllOf v s) = AdditionalProperties s"
  "Default (set_AllOf v s) = Default s"
  "Then (set_AllOf v s) = Then s"
  "PatternProperties (set_AllOf v s) = PatternProperties s"
  "Properties (set_AllOf v s) = Properties s"
  "If' (set_AllOf v s) = If' s"
  "Minimum (set_AllOf v s) = Minimum s"
  "MultipleOf (set_AllOf v s) = MultipleOf s"
  "ExclusiveMaximum (set_AllOf v s) = ExclusiveMaximum s"
  "Items (set_AllOf v s) = Items s"
  "ExclusiveMinimum (set_AllOf v s) = ExclusiveMinimum s"
  "Maximum (set_AllOf v s) = Maximum s"
  "Else (set_AllOf v s) = Else s"
  "Pattern (set_AllOf v s) = Pattern s"
  "Const (set_AllOf v s) = Const s"
  "Ref (set_AllOf v s) = Ref s"
  "Schema' (set_AllOf v s) = Schema' s"
  "Id' (set_AllOf v s) = Id' s"
  "Format (set_AllOf v s) = Format s"
  "Description (set_AllOf v s) = Description s"
  "Title (set_AllOf v s) = Title s"
  "Type (set_AllOf v s) = Type s"
  "AnyOf (set_AllOf v s) = AnyOf s"
  "AllOf (set_AllOf v s) = v"
  "OneOf (set_AllOf v s) = OneOf s"
  "Not' (set_AllOf v s) = Not' s"
  "Examples (set_AllOf v s) = Examples s"
  "Enum (set_AllOf v s) = Enum s"
  "HasData (set_AllOf v s) = HasData s"
  "Deprecated (set_AllOf v s) = Deprecated s"
  "ReadOnly (set_AllOf v s) = ReadOnly s"
  "WriteOnly (set_AllOf v s) = WriteOnly s"
  "Required (set_AllOf v s) = Required s"
  "CustomAnnotations (set_AllOf v s) = CustomAnnotations s"
  "MinLength (set_AllOf v s) = MinLength s"
  "MaxLength (set_AllOf v s) = MaxLength s"
  "MinItems (set_AllOf v s) = MinItems s"
  "MaxItems (set_AllOf v s) = MaxItems s"
  by (simp_all add: set_AllOf_def)

lemma set_OneOf_sel [simp]:
  "AdditionalProperties (set_OneOf v s) = AdditionalProperties s"
  "Default (set_OneOf v s) = Default s"
  "Then (set_OneOf v s) = Then s"
  "PatternProperties (set_OneOf v s) = PatternProperties s"
  "Properties (set_OneOf v s) = Properties s"
  "If' (set_OneOf v s) = If' s"
  "Minimum (set_OneOf v s) = Minimum s"
  "MultipleOf (set_OneOf v s) = MultipleOf s"
  "ExclusiveMaximum (set_OneOf v s) = ExclusiveMaximum s"
  "Items (set_OneOf v s) = Items s"
  "ExclusiveMinimum (set_OneOf v s) = ExclusiveMinimum s"
  "Maximum (set_OneOf v s) = Maximum s"
  "Else (set_OneOf v s) = Else s"
  "Pattern (set_OneOf v s) = Pattern s"
  "Const (set_OneOf v s) = Const s"
  "Ref (set_OneOf v s) = Ref s"
  "Schema' (set_OneOf v s) = Schema' s"
  "Id' (set_OneOf v s) = Id' s"
  "Format (set_OneOf v s) = Format s"
  "Description (set_OneOf v s) = Description s"
  "Title (set_OneOf v s) = Title s"
  "Type (set_OneOf v s) = Type s"
  "AnyOf (set_OneOf v s) = AnyOf s"
  "AllOf (set_OneOf v s) = AllOf s"
  "OneOf (set_OneOf v s) = v"
  "Not' (set_OneOf v s) = Not' s"
  "Examples (set_OneOf v s) = Examples s"
  "Enum (set_OneOf v s) = Enum s"
  "HasData (set_OneOf v s) = HasData s"
  "Deprecated (set_OneOf v s) = Deprecated s"
  "ReadOnly (set_OneOf v s) = ReadOnly s"
  "WriteOnly (set_OneOf v s) = WriteOnly s"
  "Required (set_OneOf v s) = Required s"
  "CustomAnnotations (set_OneOf v s) = CustomAnnotations s"
  "MinLength (set_OneOf v s) = MinLength s"
  "MaxLength (set_OneOf v s) = MaxLength s"
  "MinItems (set_OneOf v s) = MinItems s"
  "MaxItems (set_OneOf v s) = MaxItems s"
  by (simp_all add: set_OneOf_def)

lemma set_Not'_sel [simp]:
  "AdditionalProperties (set_Not' v s) = AdditionalProperties s"
  "Default (set_Not' v s) = Default s"
  "Then (set_Not' v s) = Then s"
  "PatternProperties (set_Not' v s) = PatternProperties s"
  "Properties (set_Not' v s) = Properties s"
  "If' (set_Not' v s) = If' s"
  "Minimum (set_Not' v s) = Minimum s"
  "MultipleOf (set_Not' v s) = MultipleOf s"
  "ExclusiveMaximum (set_Not' v s) = ExclusiveMaximum s"
  "Items (set_Not' v s) = Items s"
  "ExclusiveMinimum (set_Not' v s) = ExclusiveMinimum s"
  "Maximum (set_Not' v s) = Maximum s"
  "Else (set_Not' v s) = Else s"
  "Pattern (set_Not' v s) = Pattern s"
  "Const (set_Not' v s) = Const s"
  "Ref (set_Not' v s) = Ref s"
  "Schema' (set_Not' v s) = Schema' s"
  "Id' (set_Not' v s) = Id' s"
  "Format (set_Not' v s) = Format s"
  "Description (set_Not' v s) = Description s"
  "Title (set_Not' v s) = Title s"
  "Type (set_Not' v s) = Type s"
  "AnyOf (set_Not' v s) = AnyOf s"
  "AllOf (set_Not' v s) = AllOf s"
  "OneOf (set_Not' v s) = OneOf s"
  "Not' (set_Not' v s) = v"
  "Examples (set_Not' v s) = Examples s"
  "Enum (set_Not' v s) = Enum s"
  "HasData (set_Not' v s) = HasData s"
  "Deprecated (set_Not' v s) = Deprecated s"
  "ReadOnly (set_Not' v s) = ReadOnly s"
  "WriteOnly (set_Not' v s) = WriteOnly s"
  "Required (set_Not' v s) = Required s"
  "CustomAnnotations (set_Not' v s) = CustomAnnotations s"
  "MinLength (set_Not' v s) = MinLength s"
  "MaxLength (set_Not' v s) = MaxLength s"
  "MinItems (set_Not' v s) = MinItems s"
  "MaxItems (set_Not' v s) = MaxItems s"
  by (simp_all add: set_Not'_def)

lemma set_HasData_sel [simp]:
  "AdditionalProperties (set_HasData v s) = AdditionalProperties s"
  "Default (set_HasData v s) = Default s"
  "Then (set_HasData v s) = Then s"
  "PatternProperties (set_HasData v s) = PatternProperties s"
  "Properties (set_HasData v s) = Properties s"
  "If' (set_HasData v s) = If' s"
  "Minimum (set_HasData v s) = Minimum s"
  "MultipleOf (set_HasData v s) = MultipleOf s"
  "ExclusiveMaximum (set_HasData v s) = ExclusiveMaximum s"
  "Items (set_HasData v s) = Items s"
  "ExclusiveMinimum (set_HasData v s) = ExclusiveMinimum s"
  "Maximum (set_HasData v s) = Maximum s"
  "Else (set_HasData v s) = Else s"
  "Pattern (set_HasData v s) = Pattern s"
  "Const (set_HasData v s) = Const s"
  "Ref (set_HasData v s) = Ref s"
  "Schema' (set_HasData v s) = Schema' s"
  "Id' (set_HasData v s) = Id' s"
  "Format (set_HasData v s) = Format s"
  "Description (set_HasData v s) = Description s"
  "Title (set_HasData v s) = Title s"
  "Type (set_HasData v s) = Type s"
  "AnyOf (set_HasData v s) = AnyOf s"
  "AllOf (set_HasData v s) = AllOf s"
  "OneOf (set_HasData v s) = OneOf s"
  "Not' (set_HasData v s) = Not' s"
  "Examples (set_HasData v s) = Examples s"
  "Enum (set_HasData v s) = Enum s"
  "HasData (set_HasData v s) = v"
  "Deprecated (set_HasData v s) = Deprecated s"
  "ReadOnly (set_HasData v s) = ReadOnly s"
  "WriteOnly (set_HasData v s) = WriteOnly s"
  "Required (set_HasData v s) = Required s"
  "CustomAnnotations (set_HasData v s) = CustomAnnotations s"
  "MinLength (set_HasData v s) = MinLength s"
  "MaxLength (set_HasData v s) = MaxLength s"
  "MinItems (set_HasData v s) = MinItems s"
  "MaxItems (set_HasData v s) = MaxItems s"
  by (simp_all add: set_HasData_def)

lemma set_Required_sel [simp]:
  "AdditionalProperties (set_Required v s) = AdditionalProperties s"
  "Default (set_Required v s) = Default s"
  "Then (set_Required v s) = Then s"
  "PatternProperties (set_Required v s) = PatternProperties s"
  "Properties (set_Required v s) = Properties s"
  "If' (set_Required v s) = If' s"
  "Minimum (set_Required v s) = Minimum s"
  "MultipleOf (set_Required v s) = MultipleOf s"
  "ExclusiveMaximum (set_Required v s) = ExclusiveMaximum s"
  "Items (set_Required v s) = Items s"
  "ExclusiveMinimum (set_Required v s) = ExclusiveMinimum s"
  "Maximum (set_Required v s) = Maximum s"
  "Else (set_Required v s) = Else s"
  "Pattern (set_Required v s) = Pattern s"
  "Const (set_Required v s) = Const s"
  "Ref (set_Required v s) = Ref s"
  "Schema' (set_Required v s) = Schema' s"
  "Id' (set_Required v s) = Id' s"
  "Format (set_Required v s) = Format s"
  "Description (set_Required v s) = Description s"
  "Title (set_Required v s) = Title s"
  "Type (set_Required v s) = Type s"
  "AnyOf (set_Required v s) = AnyOf s"
  "AllOf (set_Required v s) = AllOf s"
  "OneOf (set_Required v s) = OneOf s"
  "Not' (set_Required v s) = Not' s"
  "Examples (set_Required v s) = Examples s"
  "Enum (set_Required v s) = Enum s"
  "HasData (set_Required v s) = HasData s"
  "Deprecated (set_Required v s) = Deprecated s"
  "ReadOnly (set_Required v s) = ReadOnly s"
  "WriteOnly (set_Required v s) = WriteOnly s"
  "Required (set_Required v s) = v"
  "CustomAnnotations (set_Required v s) = CustomAnnotations s"
  "MinLength (set_Required v s) = MinLength s"
  "MaxLength (set_Required v s) = MaxLength s"
  "MinItems (set_Required v s) = MinItems s"
  "MaxItems (set_Required v s) = MaxItems s"
  by (simp_all add: set_Required_def)

lemma set_Pattern_sel [simp]:
  "AdditionalProperties (set_Pattern v s) = AdditionalProperties s"
  "Default (set_Pattern v s) = Default s"
  "Then (set_Pattern v s) = Then s"
  "PatternProperties (set_Pattern v s) = PatternProperties s"
  "Properties (set_Pattern v s) = Properties s"
  "If' (set_Pattern v s) = If' s"
  "Minimum (set_Pattern v s) = Minimum s"
  "MultipleOf (set_Pattern v s) = MultipleOf s"
  "ExclusiveMaximum (set_Pattern v s) = ExclusiveMaximum s"
  "Items (set_Pattern v s) = Items s"
  "ExclusiveMinimum (set_Pattern v s) = ExclusiveMinimum s"
  "Maximum (set_Pattern v s) = Maximum s"
  "Else (set_Pattern v s) = Else s"
  "Pattern (set_Pattern v s) = v"
  "Const (set_Pattern v s) = Const s"
  "Ref (set_Pattern v s) = Ref s"
  "Schema' (set_Pattern v s) = Schema' s"
  "Id' (set_Pattern v s) = Id' s"
  "Format (set_Pattern v s) = Format s"
  "Description (set_Pattern v s) = Description s"
  "Title (set_Pattern v s) = Title s"
  "Type (set_Pattern v s) = Type s"
  "AnyOf (set_Pattern v s) = AnyOf s"
  "AllOf (set_Pattern v s) = AllOf s"
  "OneOf (set_Pattern v s) = OneOf s"
  "Not' (set_Pattern v s) = Not' s"
  "Examples (set_Pattern v s) = Examples s"
  "Enum (set_Pattern v s) = Enum s"
  "HasData (set_Pattern v s) = HasData s"
  "Deprecated (set_Pattern v s) = Deprecated s"
  "ReadOnly (set_Pattern v s) = ReadOnly s"
  "WriteOnly (set_Pattern v s) = WriteOnly s"
  "Required (set_Pattern v s) = Required s"
  "CustomAnnotations (set_Pattern v s) = CustomAnnotations s"
  "MinLength (set_Pattern v s) = MinLength s"
  "MaxLength (set_Pattern v s) = MaxLength s"
  "MinItems (set_Pattern v s) = MinItems s"
  "MaxItems (set_Pattern v s) = MaxItems s"
  by (simp_all add: set_Pattern_def)

lemma set_MinLength_sel [simp]:
  "AdditionalProperties (set_MinLength v s) = AdditionalProperties s"
  "Default (set_MinLength v s) = Default s"
  "Then (set_MinLength v s) = Then s"
  "PatternProperties (set_MinLength v s) = PatternProperties s"
  "Properties (set_MinLength v s) = Properties s"
  "If' (set_MinLength v s) = If' s"
  "Minimum (set_MinLength v s) = Minimum s"
  "MultipleOf (set_MinLength v s) = MultipleOf s"
  "ExclusiveMaximum (set_MinLength v s) = ExclusiveMaximum s"
  "Items (set_MinLength v s) = Items s"
  "ExclusiveMinimum (set_MinLength v s) = ExclusiveMinimum s"
  "Maximum (set_MinLength v s) = Maximum s"
  "Else (set_MinLength v s) = Else s"
  "Pattern (set_MinLength v s) = Pattern s"
  "Const (set_MinLength v s) = Const s"
  "Ref (set_MinLength v s) = Ref s"
  "Schema' (set_MinLength v s) = Schema' s"
  "Id' (set_MinLength v s) = Id' s"
  "Format (set_MinLength v s) = Format s"
  "Description (set_MinLength v s) = Description s"
  "Title (set_MinLength v s) = Title s"
  "Type (set_MinLength v s) = Type s"
  "AnyOf (set_MinLength v s) = AnyOf s"
  "AllOf (set_MinLength v s) = AllOf s"
  "OneOf (set_MinLength v s) = OneOf s"
  "Not' (set_MinLength v s) = Not' s"
  "Examples (set_MinLength v s) = Examples s"
  "Enum (set_MinLength v s) = Enum s"
  "HasData (set_MinLength v s) = HasData s"
  "Deprecated (set_MinLength v s) = Deprecated s"
  "ReadOnly (set_MinLength v s) = ReadOnly s"
  "WriteOnly (set_MinLength v s) = WriteOnly s"
  "Required (set_MinLength v s) = Required s"
  "CustomAnnotations (set_MinLength v s) = CustomAnnotations s"
  "MinLength (set_MinLength v s) = v"
  "MaxLength (set_MinLength v s) = MaxLength s"
  "MinItems (set_MinLength v s) = MinItems s"
  "MaxItems (set_MinLength v s) = MaxItems s"
  by (simp_all add: set_MinLength_def)

lemma emptySchema_sel [simp]:
  "AdditionalProperties emptySchema = SBNil"
  "Default emptySchema = ANil"
  "Then emptySchema = None"
  "PatternProperties emptySchema = None"
  "Properties emptySchema = None"
  "If' emptySchema = None"
  "Minimum emptySchema = None"
  "MultipleOf emptySchema = None"
  "ExclusiveMaximum emptySchema = None"
  "Items emptySchema = None"
  "ExclusiveMinimum emptySchema = None"
  "Maximum emptySchema = None"
  "Else emptySchema = None"
  "Pattern emptySchema = []"
  "Const emptySchema = ANil"
  "Ref emptySchema = []"
  "Schema' emptySchema = []"
  "Id' emptySchema = []"
  "Format emptySchema = []"
  "Description emptySchema = []"
  "Title emptySchema = []"
  "Type emptySchema = None"
  "AnyOf emptySchema = []"
  "AllOf emptySchema = []"
  "OneOf emptySchema = []"
  "Not' emptySchema = None"
  "Examples emptySchema = []"
  "Enum emptySchema = None"
  "HasData emptySchema = False"
  "Deprecated emptySchema = False"
  "ReadOnly emptySchema = False"
  "WriteOnly emptySchema = False"
  "Required emptySchema = BoolOrArrayOfString None False"
  "CustomAnnotations emptySchema = None"
  "MinLength emptySchema = None"
  "MaxLength emptySchema = None"
  "MinItems emptySchema = None"
  "MaxItems emptySchema = None"
  by (simp_all add: emptySchema_def)

section \<open>The union-typed values: decoding and encoding\<close>

lemma decode_types_scalars:
  "\<forall>n\<in>set nodes. Kind n = ScalarNode \<Longrightarrow>
   decode_types nodes multi =
     Inr (if nodes = [] then multi else Some (elems multi @ map type_name nodes))"
proof (induction nodes arbitrary: multi)
  case Nil
  then show ?case by simp
next
  case (Cons n nodes)
  then have k: "Kind n = ScalarNode" and rest: "\<forall>m\<in>set nodes. Kind m = ScalarNode"
    by simp_all
  have d: "ShortTag n \<noteq> nullTag \<Longrightarrow> Node_Decode_string n = Inr (Value n)"
    using k by (cases n) (simp add: ShortTag_def)
  show ?case
    using Cons.IH [OF rest] d by (simp add: type_name_def append1_def)
qed

text \<open>
  C8. Decoding a YAML list of type names and encoding the result gives the bare
  string when the list has exactly one element and the JSON list of the names when it
  has two or more; a single scalar decodes to a one-element list and encodes as the bare
  string again; a null-tagged element of the list decodes to the string "null".
\<close>

theorem TypeOrTypeList_decode_encode:
  assumes "\<forall>n\<in>set nodes. Kind n = ScalarNode"
  shows "StringOrArrayOfString_UnmarshalYAML (sequence_node nodes) s =
           Inr (if nodes = [] then None else Some (map type_name nodes))
       \<and> (length nodes = 1 \<longrightarrow>
           decode_then_encode (sequence_node nodes) = Inr (JStr (type_name (nodes ! 0))))
       \<and> (2 \<le> length nodes \<longrightarrow>
           decode_then_encode (sequence_node nodes) =
             Inr (JArr (map (\<lambda>n. JStr (type_name n)) nodes)))
       \<and> decode_then_encode (string_node t) = Inr (JStr t)
       \<and> type_name null_node = ''null''"
proof -
  have dec: "decode_types nodes None = Inr (if nodes = [] then None else Some (map type_name nodes))"
    using decode_types_scalars [OF assms, of None] by simp
  have un: "StringOrArrayOfString_UnmarshalYAML (sequence_node nodes) s' =
           Inr (if nodes = [] then None else Some (map type_name nodes))" for s'
    using dec
    by (simp add: StringOrArrayOfString_UnmarshalYAML_def sequence_node_def ShortTag_def)
  have one: "decode_then_encode (sequence_node nodes) = Inr (JStr (type_name (nodes ! 0)))"
    if "length nodes = 1"
  proof -
    from that obtain n where "nodes = [n]"
      by (cases nodes) auto
    then show ?thesis
      using un [of None]
      by (simp add: decode_then_encode_def StringOrArrayOfString_MarshalJSON_def
          json_Marshal_string_def)
  qed
  have many: "decode_then_encode (sequence_node nodes) =
      Inr (JArr (map (\<lambda>n. JStr (type_name n)) nodes))"
    if "2 \<le> length nodes"
  proof -
    from that have "nodes \<noteq> []" "length (map type_name nodes) \<noteq> 1"
      by auto
    then show ?thesis
      using un [of None]
      by (simp add: decode_then_encode_def StringOrArrayOfString_MarshalJSON_def
          json_Marshal_strings_def comp_def)
  qed
  have scalar: "decode_then_encode (string_node t) = Inr (JStr t)"
    by (simp add: decode_then_encode_def StringOrArrayOfString_UnmarshalYAML_def
        string_node_def ShortTag_def arrayTag_def strTag_def nullTag_def
        StringOrArrayOfString_MarshalJSON_def json_Marshal_string_def)
  have null: "type_name null_node = ''null''"
    by (simp add: type_name_def null_node_def ShortTag_def)
  from un [of s] one many scalar null show ?thesis
    by blast
qed

theorem TypeOrTypeList_decode_encode_witness:
  "decode_then_encode (sequence_node [string_node ''object'']) = Inr (JStr ''object'')
   \<and> decode_then_encode (sequence_node [string_node ''string'', null_node]) =
       Inr (JArr [JStr ''string'', JStr ''null''])
   \<and> StringOrArrayOfString_UnmarshalYAML (sequence_node [string_node ''string'', null_node]) None =
       Inr (Some [''string'', ''null''])"
  using TypeOrTypeList_decode_encode [of "[string_node ''object'']" None "''x''"]
    TypeOrTypeList_decode_encode [of "[string_node ''string'', null_node]" None "''x''"]
  by (simp add: string_node_def null_node_def type_name_def ShortTag_def nullTag_def strTag_def)

text \<open>
  C6. Both \<^verbatim>\<open>UnmarshalJSON\<close> methods return nil for every JSON value: a value of
  neither accepted shape, such as the number 42, leaves the field as it was and raises
  no error.
\<close>

theorem UnmarshalJSON_never_fails:
  "(\<exists>s'. BoolOrArrayOfString_UnmarshalJSON v s = Inr s')
   \<and> (\<exists>t'. StringOrArrayOfString_UnmarshalJSON v t = Inr t')
   \<and> BoolOrArrayOfString_UnmarshalJSON (JNum ''42'') s = Inr s
   \<and> StringOrArrayOfString_UnmarshalJSON (JNum ''42'') t = Inr t"
  by (simp add: BoolOrArrayOfString_UnmarshalJSON_def StringOrArrayOfString_UnmarshalJSON_def
      split: sum.splits)

text \<open>
  The YAML decoders do return an error for a node of neither shape: a node that is
  neither a sequence nor a boolean for the required field, a mapping for the type field.
\<close>

lemma BoolOrArrayOfString_UnmarshalYAML_mismatch:
  "ShortTag v \<noteq> arrayTag \<Longrightarrow> ShortTag v \<noteq> boolTag \<Longrightarrow>
   BoolOrArrayOfString_UnmarshalYAML v s = Inl CouldNotUnmarshalBoolOrStrings"
  by (simp add: BoolOrArrayOfString_UnmarshalYAML_def)

lemma StringOrArrayOfString_UnmarshalYAML_mismatch:
  "ShortTag v \<noteq> arrayTag \<Longrightarrow> Kind v = MappingNode \<Longrightarrow>
   \<exists>err. StringOrArrayOfString_UnmarshalYAML v s = Inl err"
  by (cases v) (simp add: StringOrArrayOfString_UnmarshalYAML_def)

section \<open>The JSON encoding of the required field\<close>
































lemma reread_names: "reread nf (JArr (map JStr names)) = JArr (map JStr names)"
  by (simp add: comp_def)




text \<open>
  A Schema held by value under additionalProperties is not addressable, so the method
  of line 70 is not called for its required field: the field is written as the struct of
  its two Go fields.
\<close>

lemma Schema_by_value_required_struct:
  "Schema_MarshalJSON nf (set_AdditionalProperties (SBSchema required_flag_schema) emptySchema) =
     Inr (JObj [(''additionalProperties'',
                 JObj [(''required'', JObj [(''Strings'', JNull), (''Bool'', JBool True)])]),
                (''required'', JArr [])])"
  by (simp add: Schema_MarshalJSON.simps Schema_fields.simps required_flag_schema_def
      any_field_def int_field_def string_field_def bool_field_def strings_field_def
      entries_def CustomAnnotations_field_def Type_field_def Required_field_def object_def
      BoolOrArrayOfString_MarshalJSON_def json_Marshal_strings_def)

section \<open>The annotation parser: which lines open and close the block\<close>

lemma Set_Set [simp]: "Set (Set s) = Set s"
  by (simp add: Set_def set_HasData_def)

lemma GetSchemaFromComment_loop_append:
  "GetSchemaFromComment_loop (xs @ ys) st =
     GetSchemaFromComment_loop ys (GetSchemaFromComment_loop xs st)"
proof (induction xs arbitrary: st)
  case Nil
  then show ?case by simp
next
  case (Cons x xs)
  obtain d r b s where st: "st = (d, r, b, s)"
    by (cases st) auto
  show ?case
    unfolding st by (simp add: Cons.IH Let_def)
qed

lemma inside_block_snoc:
  "i \<le> length lines \<Longrightarrow> inside_block (lines @ [l]) i = inside_block lines i"
  by (simp add: inside_block_def)

lemma annotation_lines_snoc:
  "annotation_lines (lines @ [l]) =
     annotation_lines lines
       @ (if \<not> is_delimiter l \<and> odd (length (filter is_delimiter lines)) then [l] else [])"
proof -
  have "filter (\<lambda>i. \<not> is_delimiter ((lines @ [l]) ! i) \<and> inside_block (lines @ [l]) i)
          [0..<length lines] =
        filter (\<lambda>i. \<not> is_delimiter (lines ! i) \<and> inside_block lines i) [0..<length lines]"
    by (rule filter_cong) (auto simp: nth_append inside_block_snoc)
  moreover have "map (\<lambda>i. (lines @ [l]) ! i)
          (filter (\<lambda>i. \<not> is_delimiter (lines ! i) \<and> inside_block lines i) [0..<length lines]) =
        map (\<lambda>i. lines ! i)
          (filter (\<lambda>i. \<not> is_delimiter (lines ! i) \<and> inside_block lines i) [0..<length lines])"
    by (rule map_cong) (auto simp: nth_append)
  ultimately show ?thesis
    by (simp add: annotation_lines_def inside_block_def)
qed

lemma description_lines_snoc:
  "description_lines (lines @ [l]) =
     description_lines lines
       @ (if \<not> is_delimiter l \<and> \<not> odd (length (filter is_delimiter lines)) then [l] else [])"
proof -
  have "filter (\<lambda>i. \<not> is_delimiter ((lines @ [l]) ! i) \<and> \<not> inside_block (lines @ [l]) i)
          [0..<length lines] =
        filter (\<lambda>i. \<not> is_delimiter (lines ! i) \<and> \<not> inside_block lines i) [0..<length lines]"
    by (rule filter_cong) (auto simp: nth_append inside_block_snoc)
  moreover have "map (\<lambda>i. (lines @ [l]) ! i)
          (filter (\<lambda>i. \<not> is_delimiter (lines ! i) \<and> \<not> inside_block lines i) [0..<length lines]) =
        map (\<lambda>i. lines ! i)
          (filter (\<lambda>i. \<not> is_delimiter (lines ! i) \<and> \<not> inside_block lines i) [0..<length lines])"
    by (rule map_cong) (auto simp: nth_append)
  ultimately show ?thesis
    by (simp add: description_lines_def inside_block_def)
qed

text \<open>
  C7, as the code has it. The parser flips the inside-block flag on exactly the lines
  that begin with the delimiter token \<^verbatim>\<open># @schema\<close> (the token alone or a line that
  extends it), so the flag after the last line tells whether their number is odd; a line
  that holds the token anywhere but at its start is no delimiter. The other lines
  before which an even number of delimiter lines stands are the description, those
  before which an odd number stands are the annotation text and mark the result as
  having explicit data.
\<close>

theorem GetSchemaFromComment_loop_delimiters:
  "GetSchemaFromComment_loop lines ([], [], False, s) =
     (map strip_description (description_lines lines),
      map strip_annotation (annotation_lines lines),
      odd (length (filter is_delimiter lines)),
      if annotation_lines lines = [] then s else Set s)
   \<and> is_delimiter line = (take (length ''# @schema'') line = ''# @schema'')"
proof
  show "GetSchemaFromComment_loop lines ([], [], False, s) =
     (map strip_description (description_lines lines),
      map strip_annotation (annotation_lines lines),
      odd (length (filter is_delimiter lines)),
      if annotation_lines lines = [] then s else Set s)"
  proof (induction lines rule: rev_induct)
    case Nil
    show ?case
      by (simp add: description_lines_def annotation_lines_def)
  next
    case (snoc l lines)
    show ?case
      unfolding GetSchemaFromComment_loop_append snoc.IH
      by (simp add: annotation_lines_snoc description_lines_snoc is_delimiter_def [symmetric]
          strip_description_def strip_annotation_def Let_def)
  qed
  show "is_delimiter line = (take (length ''# @schema'') line = ''# @schema'')"
    by (simp add: is_delimiter_def HasPrefix_def SchemaPrefix_def)
qed

text \<open>
  C7 as stated fails on the code: the line \<^verbatim>\<open># @schema extra\<close> is not the token,
  yet it opens the block, so that the comment below is an annotation block with the
  line \<^verbatim>\<open>type: string\<close>, closed, and no description.
\<close>

theorem GetSchemaFromComment_loop_toggles_on_longer_line:
  "''# @schema extra'' \<noteq> SchemaPrefix
   \<and> GetSchemaFromComment_loop [''# @schema extra''] ([], [], False, emptySchema) =
       ([], [], True, emptySchema)
   \<and> GetSchemaFromComment_loop
       (Scanner_lines (''# @schema extra'' @ [CHR 0x0A] @ ''# type: string'' @ [CHR 0x0A]
          @ ''# @schema''))
       ([], [], False, emptySchema) =
       ([], [''type: string''], False, Set emptySchema)"
  by (simp add: SchemaPrefix_def HasPrefix_def Scanner_lines_def dropCR_def TrimPrefix_def
      CommentPrefix_def)

section \<open>FixRequiredProperties: what it writes\<close>

lemma FixRequiredProperties_each_map:
  "FixRequiredProperties_each subs = map FixRequiredProperties subs"
  by (induction subs) simp_all

text \<open>
  Each step of \<^verbatim>\<open>FixRequiredProperties\<close> assigns one field (the first one three):
  what a field holds after a step.
\<close>

lemma step_Then:
  "AdditionalProperties (case x of None \<Rightarrow> t | Some sub \<Rightarrow> set_Then (g sub) t) = AdditionalProperties t"
  "Default (case x of None \<Rightarrow> t | Some sub \<Rightarrow> set_Then (g sub) t) = Default t"
  "Then (case x of None \<Rightarrow> t | Some sub \<Rightarrow> set_Then (g sub) t) =
     (case x of None \<Rightarrow> Then t | Some sub \<Rightarrow> g sub)"
  "PatternProperties (case x of None \<Rightarrow> t | Some sub \<Rightarrow> set_Then (g sub) t) = PatternProperties t"
  "Properties (case x of None \<Rightarrow> t | Some sub \<Rightarrow> set_Then (g sub) t) = Properties t"
  "If' (case x of None \<Rightarrow> t | Some sub \<Rightarrow> set_Then (g sub) t) = If' t"
  "Minimum (case x of None \<Rightarrow> t | Some sub \<Rightarrow> set_Then (g sub) t) = Minimum t"
  "MultipleOf (case x of None \<Rightarrow> t | Some sub \<Rightarrow> set_Then (g sub) t) = MultipleOf t"
  "ExclusiveMaximum (case x of None \<Rightarrow> t | Some sub \<Rightarrow> set_Then (g sub) t) = ExclusiveMaximum t"
  "Items (case x of None \<Rightarrow> t | Some sub \<Rightarrow> set_Then (g sub) t) = Items t"
  "ExclusiveMinimum (case x of None \<Rightarrow> t | Some sub \<Rightarrow> set_Then (g sub) t) = ExclusiveMinimum t"
  "Maximum (case x of None \<Rightarrow> t | Some sub \<Rightarrow> set_Then (g sub) t) = Maximum t"
  "Else (case x of None \<Rightarrow> t | Some sub \<Rightarrow> set_Then (g sub) t) = Else t"
  "Pattern (case x of None \<Rightarrow> t | Some sub \<Rightarrow> set_Then (g sub) t) = Pattern t"
  "Const (case x of None \<Rightarrow> t | Some sub \<Rightarrow> set_Then (g sub) t) = Const t"
  "Ref (case x of None \<Rightarrow> t | Some sub \<Rightarrow> set_Then (g sub) t) = Ref t"
  "Schema' (case x of None \<Rightarrow> t | Some sub \<Rightarrow> set_Then (g sub) t) = Schema' t"
  "Id' (case x of None \<Rightarrow> t | Some sub \<Rightarrow> set_Then (g sub) t) = Id' t"
  "Format (case x of None \<Rightarrow> t | Some sub \<Rightarrow> set_Then (g sub) t) = Format t"
  "Description (case x of None \<Rightarrow> t | Some sub \<Rightarrow> set_Then (g sub) t) = Description t"
  "Title (case x of None \<Rightarrow> t | Some sub \<Rightarrow> set_Then (g sub) t) = Title t"
  "Type (case x of None \<Rightarrow> t | Some sub \<Rightarrow> set_Then (g sub) t) = Type t"
  "AnyOf (case x of None \<Rightarrow> t | Some sub \<Rightarrow> set_Then (g sub) t) = AnyOf t"
  "AllOf (case x of None \<Rightarrow> t | Some sub \<Rightarrow> set_Then (g sub) t) = AllOf t"
  "OneOf (case x of None \<Rightarrow> t | Some sub \<Rightarrow> set_Then (g sub) t) = OneOf t"
  "Not' (case x of None \<Rightarrow> t | Some sub \<Rightarrow> set_Then (g sub) t) = Not' t"
  "Examples (case x of None \<Rightarrow> t | Some sub \<Rightarrow> set_Then (g sub) t) = Examples t"
  "Enum (case x of None \<Rightarrow> t | Some sub \<Rightarrow> set_Then (g sub) t) = Enum t"
  "HasData (case x of None \<Rightarrow> t | Some sub \<Rightarrow> set_Then (g sub) t) = HasData t"
  "Deprecated (case x of None \<Rightarrow> t | Some sub \<Rightarrow> set_Then (g sub) t) = Deprecated t"
  "ReadOnly (case x of None \<Rightarrow> t | Some sub \<Rightarrow> set_Then (g sub) t) = ReadOnly t"
  "WriteOnly (case x of None \<Rightarrow> t | Some sub \<Rightarrow> set_Then (g sub) t) = WriteOnly t"
  "Required (case x of None \<Rightarrow> t | Some sub \<Rightarrow> set_Then (g sub) t) = Required t"
  "CustomAnnotations (case x of None \<Rightarrow> t | Some sub \<Rightarrow> set_Then (g sub) t) = CustomAnnotations t"
  "MinLength (case x of None \<Rightarrow> t | Some sub \<Rightarrow> set_Then (g sub) t) = MinLength t"
  "MaxLength (case x of None \<Rightarrow> t | Some sub \<Rightarrow> set_Then (g sub) t) = MaxLength t"
  "MinItems (case x of None \<Rightarrow> t | Some sub \<Rightarrow> set_Then (g sub) t) = MinItems t"
  "MaxItems (case x of None \<Rightarrow> t | Some sub \<Rightarrow> set_Then (g sub) t) = MaxItems t"
  by (simp_all split: option.split)

lemma step_If:
  "AdditionalProperties (case x of None \<Rightarrow> t | Some sub \<Rightarrow> set_If' (g sub) t) = AdditionalProperties t"
  "Default (case x of None \<Rightarrow> t | Some sub \<Rightarrow> set_If' (g sub) t) = Default t"
  "Then (case x of None \<Rightarrow> t | Some sub \<Rightarrow> set_If' (g sub) t) = Then t"
  "PatternProperties (case x of None \<Rightarrow> t | Some sub \<Rightarrow> set_If' (g sub) t) = PatternProperties t"
  "Properties (case x of None \<Rightarrow> t | Some sub \<Rightarrow> set_If' (g sub) t) = Properties t"
  "If' (case x of None \<Rightarrow> t | Some sub \<Rightarrow> set_If' (g sub) t) =
     (case x of None \<Rightarrow> If' t | Some sub \<Rightarrow> g sub)"
  "Minimum (case x of None \<Rightarrow> t | Some sub \<Rightarrow> set_If' (g sub) t) = Minimum t"
  "MultipleOf (case x of None \<Rightarrow> t | Some sub \<Rightarrow> set_If' (g sub) t) = MultipleOf t"
  "ExclusiveMaximum (case x of None \<Rightarrow> t | Some sub \<Rightarrow> set_If' (g sub) t) = ExclusiveMaximum t"
  "Items (case x of None \<Rightarrow> t | Some sub \<Rightarrow> set_If' (g sub) t) = Items t"
  "ExclusiveMinimum (case x of None \<Rightarrow> t | Some sub \<Rightarrow> set_If' (g sub) t) = ExclusiveMinimum t"
  "Maximum (case x of None \<Rightarrow> t | Some sub \<Rightarrow> set_If' (g sub) t) = Maximum t"
  "Else (case x of None \<Rightarrow> t | Some sub \<Rightarrow> set_If' (g sub) t) = Else t"
  "Pattern (case x of None \<Rightarrow> t | Some sub \<Rightarrow> set_If' (g sub) t) = Pattern t"
  "Const (case x of None \<Rightarrow> t | Some sub \<Rightarrow> set_If' (g sub) t) = Const t"
  "Ref (case x of None \<Rightarrow> t | Some sub \<Rightarrow> set_If' (g sub) t) = Ref t"
  "Schema' (case x of None \<Rightarrow> t | Some sub \<Rightarrow> set_If' (g sub) t) = Schema' t"
  "Id' (case x of None \<Rightarrow> t | Some sub \<Rightarrow> set_If' (g sub) t) = Id' t"
  "Format (case x of None \<Rightarrow> t | Some sub \<Rightarrow> set_If' (g sub) t) = Format t"
  "Description (case x of None \<Rightarrow> t | Some sub \<Rightarrow> set_If' (g sub) t) = Description t"
  "Title (case x of None \<Rightarrow> t | Some sub \<Rightarrow> set_If' (g sub) t) = Title t"
  "Type (case x of None \<Rightarrow> t | Some sub \<Rightarrow> set_If' (g sub) t) = Type t"
  "AnyOf (case x of None \<Rightarrow> t | Some sub \<Rightarrow> set_If' (g sub) t) = AnyOf t"
  "AllOf (case x of None \<Rightarrow> t | Some sub \<Rightarrow> set_If' (g sub) t) = AllOf t"
  "OneOf (case x of None \<Rightarrow> t | Some sub \<Rightarrow> set_If' (g sub) t) = OneOf t"
  "Not' (case x of None \<Rightarrow> t | Some sub \<Rightarrow> set_If' (g sub) t) = Not' t"
  "Examples (case x of None \<Rightarrow> t | Some sub \<Rightarrow> set_If' (g sub) t) = Examples t"
  "Enum (case x of None \<Rightarrow> t | Some sub \<Rightarrow> set_If' (g sub) t) = Enum t"
  "HasData (case x of None \<Rightarrow> t | Some sub \<Rightarrow> set_If' (g sub) t) = HasData t"
  "Deprecated (case x of None \<Rightarrow> t | Some sub \<Rightarrow> set_If' (g sub) t) = Deprecated t"
  "ReadOnly (case x of None \<Rightarrow> t | Some sub \<Rightarrow> set_If' (g sub) t) = ReadOnly t"
  "WriteOnly (case x of None \<Rightarrow> t | Some sub \<Rightarrow> set_If' (g sub) t) = WriteOnly t"
  "Required (case x of None \<Rightarrow> t | Some sub \<Rightarrow> set_If' (g sub) t) = Required t"
  "CustomAnnotations (case x of None \<Rightarrow> t | Some sub \<Rightarrow> set_If' (g sub) t) = CustomAnnotations t"
  "MinLength (case x of None \<Rightarrow> t | Some sub \<Rightarrow> set_If' (g sub) t) = MinLength t"
  "MaxLength (case x of None \<Rightarrow> t | Some sub \<Rightarrow> set_If' (g sub) t) = MaxLength t"
  "MinItems (case x of None \<Rightarrow> t | Some sub \<Rightarrow> set_If' (g sub) t) = MinItems t"
  "MaxItems (case x of None \<Rightarrow> t | Some sub \<Rightarrow> set_If' (g sub) t) = MaxItems t"
  by (simp_all split: option.split)

lemma step_Else:
  "AdditionalProperties (case x of None \<Rightarrow> t | Some sub \<Rightarrow> set_Else (g sub) t) = AdditionalProperties t"
  "Default (case x of None \<Rightarrow> t | Some sub \<Rightarrow> set_Else (g sub) t) = Default t"
  "Then (case x of None \<Rightarrow> t | Some sub \<Rightarrow> set_Else (g sub) t) = Then t"
  "PatternProperties (case x of None \<Rightarrow> t | Some sub \<Rightarrow> set_Else (g sub) t) = PatternProperties t"
  "Properties (case x of None \<Rightarrow> t | Some sub \<Rightarrow> set_Else (g sub) t) = Properties t"
  "If' (case x of None \<Rightarrow> t | Some sub \<Rightarrow> set_Else (g sub) t) = If' t"
  "Minimum (case x of None \<Rightarrow> t | Some sub \<Rightarrow> set_Else (g sub) t) = Minimum t"
  "MultipleOf (case x of None \<Rightarrow> t | Some sub \<Rightarrow> set_Else (g sub) t) = MultipleOf t"
  "ExclusiveMaximum (case x of None \<Rightarrow> t | Some sub \<Rightarrow> set_Else (g sub) t) = ExclusiveMaximum t"
  "Items (case x of None \<Rightarrow> t | Some sub \<Rightarrow> set_Else (g sub) t) = Items t"
  "ExclusiveMinimum (case x of None \<Rightarrow> t | Some sub \<Rightarrow> set_Else (g sub) t) = ExclusiveMinimum t"
  "Maximum (case x of None \<Rightarrow> t | Some sub \<Rightarrow> set_Else (g sub) t) = Maximum t"
  "Else (case x of None \<Rightarrow> t | Some sub \<Rightarrow> set_Else (g sub) t) =
     (case x of None \<Rightarrow> Else t | Some sub \<Rightarrow> g sub)"
  "Pattern (case x of None \<Rightarrow> t | Some sub \<Rightarrow> set_Else (g sub) t) = Pattern t"
  "Const (case x of None \<Rightarrow> t | Some sub \<Rightarrow> set_Else (g sub) t) = Const t"
  "Ref (case x of None \<Rightarrow> t | Some sub \<Rightarrow> set_Else (g sub) t) = Ref t"
  "Schema' (case x of None \<Rightarrow> t | Some sub \<Rightarrow> set_Else (g sub) t) = Schema' t"
  "Id' (case x of None \<Rightarrow> t | Some sub \<Rightarrow> set_Else (g sub) t) = Id' t"
  "Format (case x of None \<Rightarrow> t | Some sub \<Rightarrow> set_Else (g sub) t) = Format t"
  "Description (case x of None \<Rightarrow> t | Some sub \<Rightarrow> set_Else (g sub) t) = Description t"
  "Title (case x of None \<Rightarrow> t | Some sub \<Rightarrow> set_Else (g sub) t) = Title t"
  "Type (case x of None \<Rightarrow> t | Some sub \<Rightarrow> set_Else (g sub) t) = Type t"
  "AnyOf (case x of None \<Rightarrow> t | Some sub \<Rightarrow> set_Else (g sub) t) = AnyOf t"
  "AllOf (case x of None \<Rightarrow> t | Some sub \<Rightarrow> set_Else (g sub) t) = AllOf t"
  "OneOf (case x of None \<Rightarrow> t | Some sub \<Rightarrow> set_Else (g sub) t) = OneOf t"
  "Not' (case x of None \<Rightarrow> t | Some sub \<Rightarrow> set_Else (g sub) t) = Not' t"
  "Examples (case x of None \<Rightarrow> t | Some sub \<Rightarrow> set_Else (g sub) t) = Examples t"
  "Enum (case x of None \<Rightarrow> t | Some sub \<Rightarrow> set_Else (g sub) t) = Enum t"
  "HasData (case x of None \<Rightarrow> t | Some sub \<Rightarrow> set_Else (g sub) t) = HasData t"
  "Deprecated (case x of None \<Rightarrow> t | Some sub \<Rightarrow> set_Else (g sub) t) = Deprecated t"
  "ReadOnly (case x of None \<Rightarrow> t | Some sub \<Rightarrow> set_Else (g sub) t) = ReadOnly t"
  "WriteOnly (case x of None \<Rightarrow> t | Some sub \<Rightarrow> set_Else (g sub) t) = WriteOnly t"
  "Required (case x of None \<Rightarrow> t | Some sub \<Rightarrow> set_Else (g sub) t) = Required t"
  "CustomAnnotations (case x of None \<Rightarrow> t | Some sub \<Rightarrow> set_Else (g sub) t) = CustomAnnotations t"
  "MinLength (case x of None \<Rightarrow> t | Some sub \<Rightarrow> set_Else (g sub) t) = MinLength t"
  "MaxLength (case x of None \<Rightarrow> t | Some sub \<Rightarrow> set_Else (g sub) t) = MaxLength t"
  "MinItems (case x of None \<Rightarrow> t | Some sub \<Rightarrow> set_Else (g sub) t) = MinItems t"
  "MaxItems (case x of None \<Rightarrow> t | Some sub \<Rightarrow> set_Else (g sub) t) = MaxItems t"
  by (simp_all split: option.split)

lemma step_Items:
  "AdditionalProperties (case x of None \<Rightarrow> t | Some sub \<Rightarrow> set_Items (g sub) t) = AdditionalProperties t"
  "Default (case x of None \<Rightarrow> t | Some sub \<Rightarrow> set_Items (g sub) t) = Default t"
  "Then (case x of None \<Rightarrow> t | Some sub \<Rightarrow> set_Items (g sub) t) = Then t"
  "PatternProperties (case x of None \<Rightarrow> t | Some sub \<Rightarrow> set_Items (g sub) t) = PatternProperties t"
  "Properties (case x of None \<Rightarrow> t | Some sub \<Rightarrow> set_Items (g sub) t) = Properties t"
  "If' (case x of None \<Rightarrow> t | Some sub \<Rightarrow> set_Items (g sub) t) = If' t"
  "Minimum (case x of None \<Rightarrow> t | Some sub \<Rightarrow> set_Items (g sub) t) = Minimum t"
  "MultipleOf (case x of None \<Rightarrow> t | Some sub \<Rightarrow> set_Items (g sub) t) = MultipleOf t"
  "ExclusiveMaximum (case x of None \<Rightarrow> t | Some sub \<Rightarrow> set_Items (g sub) t) = ExclusiveMaximum t"
  "Items (case x of None \<Rightarrow> t | Some sub \<Rightarrow> set_Items (g sub) t) =
     (case x of None \<Rightarrow> Items t | Some sub \<Rightarrow> g sub)"
  "ExclusiveMinimum (case x of None \<Rightarrow> t | Some sub \<Rightarrow> set_Items (g sub) t) = ExclusiveMinimum t"
  "Maximum (case x of None \<Rightarrow> t | Some sub \<Rightarrow> set_Items (g sub) t) = Maximum t"
  "Else (case x of None \<Rightarrow> t | Some sub \<Rightarrow> set_Items (g sub) t) = Else t"
  "Pattern (case x of None \<Rightarrow> t | Some sub \<Rightarrow> set_Items (g sub) t) = Pattern t"
  "Const (case x of None \<Rightarrow> t | Some sub \<Rightarrow> set_Items (g sub) t) = Const t"
  "Ref (case x of None \<Rightarrow> t | Some sub \<Rightarrow> set_Items (g sub) t) = Ref t"
  "Schema' (case x of None \<Rightarrow> t | Some sub \<Rightarrow> set_Items (g sub) t) = Schema' t"
  "Id' (case x of None \<Rightarrow> t | Some sub \<Rightarrow> set_Items (g sub) t) = Id' t"
  "Format (case x of None \<Rightarrow> t | Some sub \<Rightarrow> set_Items (g sub) t) = Format t"
  "Description (case x of None \<Rightarrow> t | Some sub \<Rightarrow> set_Items (g sub) t) = Description t"
  "Title (case x of None \<Rightarrow> t | Some sub \<Rightarrow> set_Items (g sub) t) = Title t"
  "Type (case x of None \<Rightarrow> t | Some sub \<Rightarrow> set_Items (g sub) t) = Type t"
  "AnyOf (case x of None \<Rightarrow> t | Some sub \<Rightarrow> set_Items (g sub) t) = AnyOf t"
  "AllOf (case x of None \<Rightarrow> t | Some sub \<Rightarrow> set_Items (g sub) t) = AllOf t"
  "OneOf (case x of None \<Rightarrow> t | Some sub \<Rightarrow> set_Items (g sub) t) = OneOf t"
  "Not' (case x of None \<Rightarrow> t | Some sub \<Rightarrow> set_Items (g sub) t) = Not' t"
  "Examples (case x of None \<Rightarrow> t | Some sub \<Rightarrow> set_Items (g sub) t) = Examples t"
  "Enum (case x of None \<Rightarrow> t | Some sub \<Rightarrow> set_Items (g sub) t) = Enum t"
  "HasData (case x of None \<Rightarrow> t | Some sub \<Rightarrow> set_Items (g sub) t) = HasData t"
  "Deprecated (case x of None \<Rightarrow> t | Some sub \<Rightarrow> set_Items (g sub) t) = Deprecated t"
  "ReadOnly (case x of None \<Rightarrow> t | Some sub \<Rightarrow> set_Items (g sub) t) = ReadOnly t"
  "WriteOnly (case x of None \<Rightarrow> t | Some sub \<Rightarrow> set_Items (g sub) t) = WriteOnly t"
  "Required (case x of None \<Rightarrow> t | Some sub \<Rightarrow> set_Items (g sub) t) = Required t"
  "CustomAnnotations (case x of None \<Rightarrow> t | Some sub \<Rightarrow> set_Items (g sub) t) = CustomAnnotations t"
  "MinLength (case x of None \<Rightarrow> t | Some sub \<Rightarrow> set_Items (g sub) t) = MinLength t"
  "MaxLength (case x of None \<Rightarrow> t | Some sub \<Rightarrow> set_Items (g sub) t) = MaxLength t"
  "MinItems (case x of None \<Rightarrow> t | Some sub \<Rightarrow> set_Items (g sub) t) = MinItems t"
  "MaxItems (case x of None \<Rightarrow> t | Some sub \<Rightarrow> set_Items (g sub) t) = MaxItems t"
  by (simp_all split: option.split)

lemma step_Not:
  "AdditionalProperties (case x of None \<Rightarrow> t | Some sub \<Rightarrow> set_Not' (g sub) t) = AdditionalProperties t"
  "Default (case x of None \<Rightarrow> t | Some sub \<Rightarrow> set_Not' (g sub) t) = Default t"
  "Then (case x of None \<Rightarrow> t | Some sub \<Rightarrow> set_Not' (g sub) t) = Then t"
  "PatternProperties (case x of None \<Rightarrow> t | Some sub \<Rightarrow> set_Not' (g sub) t) = PatternProperties t"
  "Properties (case x of None \<Rightarrow> t | Some sub \<Rightarrow> set_Not' (g sub) t) = Properties t"
  "If' (case x of None \<Rightarrow> t | Some sub \<Rightarrow> set_Not' (g sub) t) = If' t"
  "Minimum (case x of None \<Rightarrow> t | Some sub \<Rightarrow> set_Not' (g sub) t) = Minimum t"
  "MultipleOf (case x of None \<Rightarrow> t | Some sub \<Rightarrow> set_Not' (g sub) t) = MultipleOf t"
  "ExclusiveMaximum (case x of None \<Rightarrow> t | Some sub \<Rightarrow> set_Not' (g sub) t) = ExclusiveMaximum t"
  "Items (case x of None \<Rightarrow> t | Some sub \<Rightarrow> set_Not' (g sub) t) = Items t"
  "ExclusiveMinimum (case x of None \<Rightarrow> t | Some sub \<Rightarrow> set_Not' (g sub) t) = ExclusiveMinimum t"
  "Maximum (case x of None \<Rightarrow> t | Some sub \<Rightarrow> set_Not' (g sub) t) = Maximum t"
  "Else (case x of None \<Rightarrow> t | Some sub \<Rightarrow> set_Not' (g sub) t) = Else t"
  "Pattern (case x of None \<Rightarrow> t | Some sub \<Rightarrow> set_Not' (g sub) t) = Pattern t"
  "Const (case x of None \<Rightarrow> t | Some sub \<Rightarrow> set_Not' (g sub) t) = Const t"
  "Ref (case x of None \<Rightarrow> t | Some sub \<Rightarrow> set_Not' (g sub) t) = Ref t"
  "Schema' (case x of None \<Rightarrow> t | Some sub \<Rightarrow> set_Not' (g sub) t) = Schema' t"
  "Id' (case x of None \<Rightarrow> t | Some sub \<Rightarrow> set_Not' (g sub) t) = Id' t"
  "Format (case x of None \<Rightarrow> t | Some sub \<Rightarrow> set_Not' (g sub) t) = Format t"
  "Description (case x of None \<Rightarrow> t | Some sub \<Rightarrow> set_Not' (g sub) t) = Description t"
  "Title (case x of None \<Rightarrow> t | Some sub \<Rightarrow> set_Not' (g sub) t) = Title t"
  "Type (case x of None \<Rightarrow> t | Some sub \<Rightarrow> set_Not' (g sub) t) = Type t"
  "AnyOf (case x of None \<Rightarrow> t | Some sub \<Rightarrow> set_Not' (g sub) t) = AnyOf t"
  "AllOf (case x of None \<Rightarrow> t | Some sub \<Rightarrow> set_Not' (g sub) t) = AllOf t"
  "OneOf (case x of None \<Rightarrow> t | Some sub \<Rightarrow> set_Not' (g sub) t) = OneOf t"
  "Not' (case x of None \<Rightarrow> t | Some sub \<Rightarrow> set_Not' (g sub) t) =
     (case x of None \<Rightarrow> Not' t | Some sub \<Rightarrow> g sub)"
  "Examples (case x of None \<Rightarrow> t | Some sub \<Rightarrow> set_Not' (g sub) t) = Examples t"
  "Enum (case x of None \<Rightarrow> t | Some sub \<Rightarrow> set_Not' (g sub) t) = Enum t"
  "HasData (case x of None \<Rightarrow> t | Some sub \<Rightarrow> set_Not' (g sub) t) = HasData t"
  "Deprecated (case x of None \<Rightarrow> t | Some sub \<Rightarrow> set_Not' (g sub) t) = Deprecated t"
  "ReadOnly (case x of None \<Rightarrow> t | Some sub \<Rightarrow> set_Not' (g sub) t) = ReadOnly t"
  "WriteOnly (case x of None \<Rightarrow> t | Some sub \<Rightarrow> set_Not' (g sub) t) = WriteOnly t"
  "Required (case x of None \<Rightarrow> t | Some sub \<Rightarrow> set_Not' (g sub) t) = Required t"
  "CustomAnnotations (case x of None \<Rightarrow> t | Some sub \<Rightarrow> set_Not' (g sub) t) = CustomAnnotations t"
  "MinLength (case x of None \<Rightarrow> t | Some sub \<Rightarrow> set_Not' (g sub) t) = MinLength t"
  "MaxLength (case x of None \<Rightarrow> t | Some sub \<Rightarrow> set_Not' (g sub) t) = MaxLength t"
  "MinItems (case x of None \<Rightarrow> t | Some sub \<Rightarrow> set_Not' (g sub) t) = MinItems t"
  "MaxItems (case x of None \<Rightarrow> t | Some sub \<Rightarrow> set_Not' (g sub) t) = MaxItems t"
  by (simp_all split: option.split)

lemma step_AdditionalProperties:
  "AdditionalProperties (case x of None \<Rightarrow> t | Some sub \<Rightarrow> set_AdditionalProperties (g sub) t) =
     (case x of None \<Rightarrow> AdditionalProperties t | Some sub \<Rightarrow> g sub)"
  "Default (case x of None \<Rightarrow> t | Some sub \<Rightarrow> set_AdditionalProperties (g sub) t) = Default t"
  "Then (case x of None \<Rightarrow> t | Some sub \<Rightarrow> set_AdditionalProperties (g sub) t) = Then t"
  "PatternProperties (case x of None \<Rightarrow> t | Some sub \<Rightarrow> set_AdditionalProperties (g sub) t) = PatternProperties t"
  "Properties (case x of None \<Rightarrow> t | Some sub \<Rightarrow> set_AdditionalProperties (g sub) t) = Properties t"
  "If' (case x of None \<Rightarrow> t | Some sub \<Rightarrow> set_AdditionalProperties (g sub) t) = If' t"
  "Minimum (case x of None \<Rightarrow> t | Some sub \<Rightarrow> set_AdditionalProperties (g sub) t) = Minimum t"
  "MultipleOf (case x of None \<Rightarrow> t | Some sub \<Rightarrow> set_AdditionalProperties (g sub) t) = MultipleOf t"
  "ExclusiveMaximum (case x of None \<Rightarrow> t | Some sub \<Rightarrow> set_AdditionalProperties (g sub) t) = ExclusiveMaximum t"
  "Items (case x of None \<Rightarrow> t | Some sub \<Rightarrow> set_AdditionalProperties (g sub) t) = Items t"
  "ExclusiveMinimum (case x of None \<Rightarrow> t | Some sub \<Rightarrow> set_AdditionalProperties (g sub) t) = ExclusiveMinimum t"
  "Maximum (case x of None \<Rightarrow> t | Some sub \<Rightarrow> set_AdditionalProperties (g sub) t) = Maximum t"
  "Else (case x of None \<Rightarrow> t | Some sub \<Rightarrow> set_AdditionalProperties (g sub) t) = Else t"
  "Pattern (case x of None \<Rightarrow> t | Some sub \<Rightarrow> set_AdditionalProperties (g sub) t) = Pattern t"
  "Const (case x of None \<Rightarrow> t | Some sub \<Rightarrow> set_AdditionalProperties (g sub) t) = Const t"
  "Ref (case x of None \<Rightarrow> t | Some sub \<Rightarrow> set_AdditionalProperties (g sub) t) = Ref t"
  "Schema' (case x of None \<Rightarrow> t | Some sub \<Rightarrow> set_AdditionalProperties (g sub) t) = Schema' t"
  "Id' (case x of None \<Rightarrow> t | Some sub \<Rightarrow> set_AdditionalProperties (g sub) t) = Id' t"
  "Format (case x of None \<Rightarrow> t | Some sub \<Rightarrow> set_AdditionalProperties (g sub) t) = Format t"
  "Description (case x of None \<Rightarrow> t | Some sub \<Rightarrow> set_AdditionalProperties (g sub) t) = Description t"
  "Title (case x of None \<Rightarrow> t | Some sub \<Rightarrow> set_AdditionalProperties (g sub) t) = Title t"
  "Type (case x of None \<Rightarrow> t | Some sub \<Rightarrow> set_AdditionalProperties (g sub) t) = Type t"
  "AnyOf (case x of None \<Rightarrow> t | Some sub \<Rightarrow> set_AdditionalProperties (g sub) t) = AnyOf t"
  "AllOf (case x of None \<Rightarrow> t | Some sub \<Rightarrow> set_AdditionalProperties (g sub) t) = AllOf t"
  "OneOf (case x of None \<Rightarrow> t | Some sub \<Rightarrow> set_AdditionalProperties (g sub) t) = OneOf t"
  "Not' (case x of None \<Rightarrow> t | Some sub \<Rightarrow> set_AdditionalProperties (g sub) t) = Not' t"
  "Examples (case x of None \<Rightarrow> t | Some sub \<Rightarrow> set_AdditionalProperties (g sub) t) = Examples t"
  "Enum (case x of None \<Rightarrow> t | Some sub \<Rightarrow> set_AdditionalProperties (g sub) t) = Enum t"
  "HasData (case x of None \<Rightarrow> t | Some sub \<Rightarrow> set_AdditionalProperties (g sub) t) = HasData t"
  "Deprecated (case x of None \<Rightarrow> t | Some sub \<Rightarrow> set_AdditionalProperties (g sub) t) = Deprecated t"
  "ReadOnly (case x of None \<Rightarrow> t | Some sub \<Rightarrow> set_AdditionalProperties (g sub) t) = ReadOnly t"
  "WriteOnly (case x of None \<Rightarrow> t | Some sub \<Rightarrow> set_AdditionalProperties (g sub) t) = WriteOnly t"
  "Required (case x of None \<Rightarrow> t | Some sub \<Rightarrow> set_AdditionalProperties (g sub) t) = Required t"
  "CustomAnnotations (case x of None \<Rightarrow> t | Some sub \<Rightarrow> set_AdditionalProperties (g sub) t) = CustomAnnotations t"
  "MinLength (case x of None \<Rightarrow> t | Some sub \<Rightarrow> set_AdditionalProperties (g sub) t) = MinLength t"
  "MaxLength (case x of None \<Rightarrow> t | Some sub \<Rightarrow> set_AdditionalProperties (g sub) t) = MaxLength t"
  "MinItems (case x of None \<Rightarrow> t | Some sub \<Rightarrow> set_AdditionalProperties (g sub) t) = MinItems t"
  "MaxItems (case x of None \<Rightarrow> t | Some sub \<Rightarrow> set_AdditionalProperties (g sub) t) = MaxItems t"
  by (simp_all split: option.split)

lemma step_AnyOf:
  "AdditionalProperties (if c then set_AnyOf v t else t) = AdditionalProperties t"
  "Default (if c then set_AnyOf v t else t) = Default t"
  "Then (if c then set_AnyOf v t else t) = Then t"
  "PatternProperties (if c then set_AnyOf v t else t) = PatternProperties t"
  "Properties (if c then set_AnyOf v t else t) = Properties t"
  "If' (if c then set_AnyOf v t else t) = If' t"
  "Minimum (if c then set_AnyOf v t else t) = Minimum t"
  "MultipleOf (if c then set_AnyOf v t else t) = MultipleOf t"
  "ExclusiveMaximum (if c then set_AnyOf v t else t) = ExclusiveMaximum t"
  "Items (if c then set_AnyOf v t else t) = Items t"
  "ExclusiveMinimum (if c then set_AnyOf v t else t) = ExclusiveMinimum t"
  "Maximum (if c then set_AnyOf v t else t) = Maximum t"
  "Else (if c then set_AnyOf v t else t) = Else t"
  "Pattern (if c then set_AnyOf v t else t) = Pattern t"
  "Const (if c then set_AnyOf v t else t) = Const t"
  "Ref (if c then set_AnyOf v t else t) = Ref t"
  "Schema' (if c then set_AnyOf v t else t) = Schema' t"
  "Id' (if c then set_AnyOf v t else t) = Id' t"
  "Format (if c then set_AnyOf v t else t) = Format t"
  "Description (if c then set_AnyOf v t else t) = Description t"
  "Title (if c then set_AnyOf v t else t) = Title t"
  "Type (if c then set_AnyOf v t else t) = Type t"
  "AnyOf (if c then set_AnyOf v t else t) = (if c then v else AnyOf t)"
  "AllOf (if c then set_AnyOf v t else t) = AllOf t"
  "OneOf (if c then set_AnyOf v t else t) = OneOf t"
  "Not' (if c then set_AnyOf v t else t) = Not' t"
  "Examples (if c then set_AnyOf v t else t) = Examples t"
  "Enum (if c then set_AnyOf v t else t) = Enum t"
  "HasData (if c then set_AnyOf v t else t) = HasData t"
  "Deprecated (if c then set_AnyOf v t else t) = Deprecated t"
  "ReadOnly (if c then set_AnyOf v t else t) = ReadOnly t"
  "WriteOnly (if c then set_AnyOf v t else t) = WriteOnly t"
  "Required (if c then set_AnyOf v t else t) = Required t"
  "CustomAnnotations (if c then set_AnyOf v t else t) = CustomAnnotations t"
  "MinLength (if c then set_AnyOf v t else t) = MinLength t"
  "MaxLength (if c then set_AnyOf v t else t) = MaxLength t"
  "MinItems (if c then set_AnyOf v t else t) = MinItems t"
  "MaxItems (if c then set_AnyOf v t else t) = MaxItems t"
  by simp_all

lemma step_AllOf:
  "AdditionalProperties (if c then set_AllOf v t else t) = AdditionalProperties t"
  "Default (if c then set_AllOf v t else t) = Default t"
  "Then (if c then set_AllOf v t else t) = Then t"
  "PatternProperties (if c then set_AllOf v t else t) = PatternProperties t"
  "Properties (if c then set_AllOf v t else t) = Properties t"
  "If' (if c then set_AllOf v t else t) = If' t"
  "Minimum (if c then set_AllOf v t else t) = Minimum t"
  "MultipleOf (if c then set_AllOf v t else t) = MultipleOf t"
  "ExclusiveMaximum (if c then set_AllOf v t else t) = ExclusiveMaximum t"
  "Items (if c then set_AllOf v t else t) = Items t"
  "ExclusiveMinimum (if c then set_AllOf v t else t) = ExclusiveMinimum t"
  "Maximum (if c then set_AllOf v t else t) = Maximum t"
  "Else (if c then set_AllOf v t else t) = Else t"
  "Pattern (if c then set_AllOf v t else t) = Pattern t"
  "Const (if c then set_AllOf v t else t) = Const t"
  "Ref (if c then set_AllOf v t else t) = Ref t"
  "Schema' (if c then set_AllOf v t else t) = Schema' t"
  "Id' (if c then set_AllOf v t else t) = Id' t"
  "Format (if c then set_AllOf v t else t) = Format t"
  "Description (if c then set_AllOf v t else t) = Description t"
  "Title (if c then set_AllOf v t else t) = Title t"
  "Type (if c then set_AllOf v t else t) = Type t"
  "AnyOf (if c then set_AllOf v t else t) = AnyOf t"
  "AllOf (if c then set_AllOf v t else t) = (if c then v else AllOf t)"
  "OneOf (if c then set_AllOf v t else t) = OneOf t"
  "Not' (if c then set_AllOf v t else t) = Not' t"
  "Examples (if c then set_AllOf v t else t) = Examples t"
  "Enum (if c then set_AllOf v t else t) = Enum t"
  "HasData (if c then set_AllOf v t else t) = HasData t"
  "Deprecated (if c then set_AllOf v t else t) = Deprecated t"
  "ReadOnly (if c then set_AllOf v t else t) = ReadOnly t"
  "WriteOnly (if c then set_AllOf v t else t) = WriteOnly t"
  "Required (if c then set_AllOf v t else t) = Required t"
  "CustomAnnotations (if c then set_AllOf v t else t) = CustomAnnotations t"
  "MinLength (if c then set_AllOf v t else t) = MinLength t"
  "MaxLength (if c then set_AllOf v t else t) = MaxLength t"
  "MinItems (if c then set_AllOf v t else t) = MinItems t"
  "MaxItems (if c then set_AllOf v t else t) = MaxItems t"
  by simp_all

lemma step_OneOf:
  "AdditionalProperties (if c then set_OneOf v t else t) = AdditionalProperties t"
  "Default (if c then set_OneOf v t else t) = Default t"
  "Then (if c then set_OneOf v t else t) = Then t"
  "PatternProperties (if c then set_OneOf v t else t) = PatternProperties t"
  "Properties (if c then set_OneOf v t else t) = Properties t"
  "If' (if c then set_OneOf v t else t) = If' t"
  "Minimum (if c then set_OneOf v t else t) = Minimum t"
  "MultipleOf (if c then set_OneOf v t else t) = MultipleOf t"
  "ExclusiveMaximum (if c then set_OneOf v t else t) = ExclusiveMaximum t"
  "Items (if c then set_OneOf v t else t) = Items t"
  "ExclusiveMinimum (if c then set_OneOf v t else t) = ExclusiveMinimum t"
  "Maximum (if c then set_OneOf v t else t) = Maximum t"
  "Else (if c then set_OneOf v t else t) = Else t"
  "Pattern (if c then set_OneOf v t else t) = Pattern t"
  "Const (if c then set_OneOf v t else t) = Const t"
  "Ref (if c then set_OneOf v t else t) = Ref t"
  "Schema' (if c then set_OneOf v t else t) = Schema' t"
  "Id' (if c then set_OneOf v t else t) = Id' t"
  "Format (if c then set_OneOf v t else t) = Format t"
  "Description (if c then set_OneOf v t else t) = Description t"
  "Title (if c then set_OneOf v t else t) = Title t"
  "Type (if c then set_OneOf v t else t) = Type t"
  "AnyOf (if c then set_OneOf v t else t) = AnyOf t"
  "AllOf (if c then set_OneOf v t else t) = AllOf t"
  "OneOf (if c then set_OneOf v t else t) = (if c then v else OneOf t)"
  "Not' (if c then set_OneOf v t else t) = Not' t"
  "Examples (if c then set_OneOf v t else t) = Examples t"
  "Enum (if c then set_OneOf v t else t) = Enum t"
  "HasData (if c then set_OneOf v t else t) = HasData t"
  "Deprecated (if c then set_OneOf v t else t) = Deprecated t"
  "ReadOnly (if c then set_OneOf v t else t) = ReadOnly t"
  "WriteOnly (if c then set_OneOf v t else t) = WriteOnly t"
  "Required (if c then set_OneOf v t else t) = Required t"
  "CustomAnnotations (if c then set_OneOf v t else t) = CustomAnnotations t"
  "MinLength (if c then set_OneOf v t else t) = MinLength t"
  "MaxLength (if c then set_OneOf v t else t) = MaxLength t"
  "MinItems (if c then set_OneOf v t else t) = MinItems t"
  "MaxItems (if c then set_OneOf v t else t) = MaxItems t"
  by simp_all

lemma step_Properties:
  "AdditionalProperties
     (case p of None \<Rightarrow> t
       | Some props \<Rightarrow>
           if \<not> Contains (elems (Type (set_Required_Strings (snd (f props)) (set_Properties (Some (fst (f props))) t)))) ''object''
           then set_Type (Some [''object''])
                  (set_Required_Strings (snd (f props)) (set_Properties (Some (fst (f props))) t))
           else (set_Required_Strings (snd (f props)) (set_Properties (Some (fst (f props))) t))) =
     AdditionalProperties t"
  "Default
     (case p of None \<Rightarrow> t
       | Some props \<Rightarrow>
           if \<not> Contains (elems (Type (set_Required_Strings (snd (f props)) (set_Properties (Some (fst (f props))) t)))) ''object''
           then set_Type (Some [''object''])
                  (set_Required_Strings (snd (f props)) (set_Properties (Some (fst (f props))) t))
           else (set_Required_Strings (snd (f props)) (set_Properties (Some (fst (f props))) t))) =
     Default t"
  "Then
     (case p of None \<Rightarrow> t
       | Some props \<Rightarrow>
           if \<not> Contains (elems (Type (set_Required_Strings (snd (f props)) (set_Properties (Some (fst (f props))) t)))) ''object''
           then set_Type (Some [''object''])
                  (set_Required_Strings (snd (f props)) (set_Properties (Some (fst (f props))) t))
           else (set_Required_Strings (snd (f props)) (set_Properties (Some (fst (f props))) t))) =
     Then t"
  "PatternProperties
     (case p of None \<Rightarrow> t
       | Some props \<Rightarrow>
           if \<not> Contains (elems (Type (set_Required_Strings (snd (f props)) (set_Properties (Some (fst (f props))) t)))) ''object''
           then set_Type (Some [''object''])
                  (set_Required_Strings (snd (f props)) (set_Properties (Some (fst (f props))) t))
           else (set_Required_Strings (snd (f props)) (set_Properties (Some (fst (f props))) t))) =
     PatternProperties t"
  "Properties
     (case p of None \<Rightarrow> t
       | Some props \<Rightarrow>
           if \<not> Contains (elems (Type (set_Required_Strings (snd (f props)) (set_Properties (Some (fst (f props))) t)))) ''object''
           then set_Type (Some [''object''])
                  (set_Required_Strings (snd (f props)) (set_Properties (Some (fst (f props))) t))
           else (set_Required_Strings (snd (f props)) (set_Properties (Some (fst (f props))) t))) =
     (case p of None \<Rightarrow> Properties t | Some props \<Rightarrow> Some (fst (f props)))"
  "If'
     (case p of None \<Rightarrow> t
       | Some props \<Rightarrow>
           if \<not> Contains (elems (Type (set_Required_Strings (snd (f props)) (set_Properties (Some (fst (f props))) t)))) ''object''
           then set_Type (Some [''object''])
                  (set_Required_Strings (snd (f props)) (set_Properties (Some (fst (f props))) t))
           else (set_Required_Strings (snd (f props)) (set_Properties (Some (fst (f props))) t))) =
     If' t"
  "Minimum
     (case p of None \<Rightarrow> t
       | Some props \<Rightarrow>
           if \<not> Contains (elems (Type (set_Required_Strings (snd (f props)) (set_Properties (Some (fst (f props))) t)))) ''object''
           then set_Type (Some [''object''])
                  (set_Required_Strings (snd (f props)) (set_Properties (Some (fst (f props))) t))
           else (set_Required_Strings (snd (f props)) (set_Properties (Some (fst (f props))) t))) =
     Minimum t"
  "MultipleOf
     (case p of None \<Rightarrow> t
       | Some props \<Rightarrow>
           if \<not> Contains (elems (Type (set_Required_Strings (snd (f props)) (set_Properties (Some (fst (f props))) t)))) ''object''
           then set_Type (Some [''object''])
                  (set_Required_Strings (snd (f props)) (set_Properties (Some (fst (f props))) t))
           else (set_Required_Strings (snd (f props)) (set_Properties (Some (fst (f props))) t))) =
     MultipleOf t"
  "ExclusiveMaximum
     (case p of None \<Rightarrow> t
       | Some props \<Rightarrow>
           if \<not> Contains (elems (Type (set_Required_Strings (snd (f props)) (set_Properties (Some (fst (f props))) t)))) ''object''
           then set_Type (Some [''object''])
                  (set_Required_Strings (snd (f props)) (set_Properties (Some (fst (f props))) t))
           else (set_Required_Strings (snd (f props)) (set_Properties (Some (fst (f props))) t))) =
     ExclusiveMaximum t"
  "Items
     (case p of None \<Rightarrow> t
       | Some props \<Rightarrow>
           if \<not> Contains (elems (Type (set_Required_Strings (snd (f props)) (set_Properties (Some (fst (f props))) t)))) ''object''
           then set_Type (Some [''object''])
                  (set_Required_Strings (snd (f props)) (set_Properties (Some (fst (f props))) t))
           else (set_Required_Strings (snd (f props)) (set_Properties (Some (fst (f props))) t))) =
     Items t"
  "ExclusiveMinimum
     (case p of None \<Rightarrow> t
       | Some props \<Rightarrow>
           if \<not> Contains (elems (Type (set_Required_Strings (snd (f props)) (set_Properties (Some (fst (f props))) t)))) ''object''
           then set_Type (Some [''object''])
                  (set_Required_Strings (snd (f props)) (set_Properties (Some (fst (f props))) t))
           else (set_Required_Strings (snd (f props)) (set_Properties (Some (fst (f props))) t))) =
     ExclusiveMinimum t"
  "Maximum
     (case p of None \<Rightarrow> t
       | Some props \<Rightarrow>
           if \<not> Contains (elems (Type (set_Required_Strings (snd (f props)) (set_Properties (Some (fst (f props))) t)))) ''object''
           then set_Type (Some [''object''])
                  (set_Required_Strings (snd (f props)) (set_Properties (Some (fst (f props))) t))
           else (set_Required_Strings (snd (f props)) (set_Properties (Some (fst (f props))) t))) =
     Maximum t"
  "Else
     (case p of None \<Rightarrow> t
       | Some props \<Rightarrow>
           if \<not> Contains (elems (Type (set_Required_Strings (snd (f props)) (set_Properties (Some (fst (f props))) t)))) ''object''
           then set_Type (Some [''object''])
                  (set_Required_Strings (snd (f props)) (set_Properties (Some (fst (f props))) t))
           else (set_Required_Strings (snd (f props)) (set_Properties (Some (fst (f props))) t))) =
     Else t"
  "Pattern
     (case p of None \<Rightarrow> t
       | Some props \<Rightarrow>
           if \<not> Contains (elems (Type (set_Required_Strings (snd (f props)) (set_Properties (Some (fst (f props))) t)))) ''object''
           then set_Type (Some [''object''])
                  (set_Required_Strings (snd (f props)) (set_Properties (Some (fst (f props))) t))
           else (set_Required_Strings (snd (f props)) (set_Properties (Some (fst (f props))) t))) =
     Pattern t"
  "Const
     (case p of None \<Rightarrow> t
       | Some props \<Rightarrow>
           if \<not> Contains (elems (Type (set_Required_Strings (snd (f props)) (set_Properties (Some (fst (f props))) t)))) ''object''
           then set_Type (Some [''object''])
                  (set_Required_Strings (snd (f props)) (set_Properties (Some (fst (f props))) t))
           else (set_Required_Strings (snd (f props)) (set_Properties (Some (fst (f props))) t))) =
     Const t"
  "Ref
     (case p of None \<Rightarrow> t
       | Some props \<Rightarrow>
           if \<not> Contains (elems (Type (set_Required_Strings (snd (f props)) (set_Properties (Some (fst (f props))) t)))) ''object''
           then set_Type (Some [''object''])
                  (set_Required_Strings (snd (f props)) (set_Properties (Some (fst (f props))) t))
           else (set_Required_Strings (snd (f props)) (set_Properties (Some (fst (f props))) t))) =
     Ref t"
  "Schema'
     (case p of None \<Rightarrow> t
       | Some props \<Rightarrow>
           if \<not> Contains (elems (Type (set_Required_Strings (snd (f props)) (set_Properties (Some (fst (f props))) t)))) ''object''
           then set_Type (Some [''object''])
                  (set_Required_Strings (snd (f props)) (set_Properties (Some (fst (f props))) t))
           else (set_Required_Strings (snd (f props)) (set_Properties (Some (fst (f props))) t))) =
     Schema' t"
  "Id'
     (case p of None \<Rightarrow> t
       | Some props \<Rightarrow>
           if \<not> Contains (elems (Type (set_Required_Strings (snd (f props)) (set_Properties (Some (fst (f props))) t)))) ''object''
           then set_Type (Some [''object''])
                  (set_Required_Strings (snd (f props)) (set_Properties (Some (fst (f props))) t))
           else (set_Required_Strings (snd (f props)) (set_Properties (Some (fst (f props))) t))) =
     Id' t"
  "Format
     (case p of None \<Rightarrow> t
       | Some props \<Rightarrow>
           if \<not> Contains (elems (Type (set_Required_Strings (snd (f props)) (set_Properties (Some (fst (f props))) t)))) ''object''
           then set_Type (Some [''object''])
                  (set_Required_Strings (snd (f props)) (set_Properties (Some (fst (f props))) t))
           else (set_Required_Strings (snd (f props)) (set_Properties (Some (fst (f props))) t))) =
     Format t"
  "Description
     (case p of None \<Rightarrow> t
       | Some props \<Rightarrow>
           if \<not> Contains (elems (Type (set_Required_Strings (snd (f props)) (set_Properties (Some (fst (f props))) t)))) ''object''
           then set_Type (Some [''object''])
                  (set_Required_Strings (snd (f props)) (set_Properties (Some (fst (f props))) t))
           else (set_Required_Strings (snd (f props)) (set_Properties (Some (fst (f props))) t))) =
     Description t"
  "Title
     (case p of None \<Rightarrow> t
       | Some props \<Rightarrow>
           if \<not> Contains (elems (Type (set_Required_Strings (snd (f props)) (set_Properties (Some (fst (f props))) t)))) ''object''
           then set_Type (Some [''object''])
                  (set_Required_Strings (snd (f props)) (set_Properties (Some (fst (f props))) t))
           else (set_Required_Strings (snd (f props)) (set_Properties (Some (fst (f props))) t))) =
     Title t"
  "Type
     (case p of None \<Rightarrow> t
       | Some props \<Rightarrow>
           if \<not> Contains (elems (Type (set_Required_Strings (snd (f props)) (set_Properties (Some (fst (f props))) t)))) ''object''
           then set_Type (Some [''object''])
                  (set_Required_Strings (snd (f props)) (set_Properties (Some (fst (f props))) t))
           else (set_Required_Strings (snd (f props)) (set_Properties (Some (fst (f props))) t))) =
     (case p of None \<Rightarrow> Type t
        | Some props \<Rightarrow>
            if Contains (elems (Type t)) ''object'' then Type t else Some [''object''])"
  "AnyOf
     (case p of None \<Rightarrow> t
       | Some props \<Rightarrow>
           if \<not> Contains (elems (Type (set_Required_Strings (snd (f props)) (set_Properties (Some (fst (f props))) t)))) ''object''
           then set_Type (Some [''object''])
                  (set_Required_Strings (snd (f props)) (set_Properties (Some (fst (f props))) t))
           else (set_Required_Strings (snd (f props)) (set_Properties (Some (fst (f props))) t))) =
     AnyOf t"
  "AllOf
     (case p of None \<Rightarrow> t
       | Some props \<Rightarrow>
           if \<not> Contains (elems (Type (set_Required_Strings (snd (f props)) (set_Properties (Some (fst (f props))) t)))) ''object''
           then set_Type (Some [''object''])
                  (set_Required_Strings (snd (f props)) (set_Properties (Some (fst (f props))) t))
           else (set_Required_Strings (snd (f props)) (set_Properties (Some (fst (f props))) t))) =
     AllOf t"
  "OneOf
     (case p of None \<Rightarrow> t
       | Some props \<Rightarrow>
           if \<not> Contains (elems (Type (set_Required_Strings (snd (f props)) (set_Properties (Some (fst (f props))) t)))) ''object''
           then set_Type (Some [''object''])
                  (set_Required_Strings (snd (f props)) (set_Properties (Some (fst (f props))) t))
           else (set_Required_Strings (snd (f props)) (set_Properties (Some (fst (f props))) t))) =
     OneOf t"
  "Not'
     (case p of None \<Rightarrow> t
       | Some props \<Rightarrow>
           if \<not> Contains (elems (Type (set_Required_Strings (snd (f props)) (set_Properties (Some (fst (f props))) t)))) ''object''
           then set_Type (Some [''object''])
                  (set_Required_Strings (snd (f props)) (set_Properties (Some (fst (f props))) t))
           else (set_Required_Strings (snd (f props)) (set_Properties (Some (fst (f props))) t))) =
     Not' t"
  "Examples
     (case p of None \<Rightarrow> t
       | Some props \<Rightarrow>
           if \<not> Contains (elems (Type (set_Required_Strings (snd (f props)) (set_Properties (Some (fst (f props))) t)))) ''object''
           then set_Type (Some [''object''])
                  (set_Required_Strings (snd (f props)) (set_Properties (Some (fst (f props))) t))
           else (set_Required_Strings (snd (f props)) (set_Properties (Some (fst (f props))) t))) =
     Examples t"
  "Enum
     (case p of None \<Rightarrow> t
       | Some props \<Rightarrow>
           if \<not> Contains (elems (Type (set_Required_Strings (snd (f props)) (set_Properties (Some (fst (f props))) t)))) ''object''
           then set_Type (Some [''object''])
                  (set_Required_Strings (snd (f props)) (set_Properties (Some (fst (f props))) t))
           else (set_Required_Strings (snd (f props)) (set_Properties (Some (fst (f props))) t))) =
     Enum t"
  "HasData
     (case p of None \<Rightarrow> t
       | Some props \<Rightarrow>
           if \<not> Contains (elems (Type (set_Required_Strings (snd (f props)) (set_Properties (Some (fst (f props))) t)))) ''object''
           then set_Type (Some [''object''])
                  (set_Required_Strings (snd (f props)) (set_Properties (Some (fst (f props))) t))
           else (set_Required_Strings (snd (f props)) (set_Properties (Some (fst (f props))) t))) =
     HasData t"
  "Deprecated
     (case p of None \<Rightarrow> t
       | Some props \<Rightarrow>
           if \<not> Contains (elems (Type (set_Required_Strings (snd (f props)) (set_Properties (Some (fst (f props))) t)))) ''object''
           then set_Type (Some [''object''])
                  (set_Required_Strings (snd (f props)) (set_Properties (Some (fst (f props))) t))
           else (set_Required_Strings (snd (f props)) (set_Properties (Some (fst (f props))) t))) =
     Deprecated t"
  "ReadOnly
     (case p of None \<Rightarrow> t
       | Some props \<Rightarrow>
           if \<not> Contains (elems (Type (set_Required_Strings (snd (f props)) (set_Properties (Some (fst (f props))) t)))) ''object''
           then set_Type (Some [''object''])
                  (set_Required_Strings (snd (f props)) (set_Properties (Some (fst (f props))) t))
           else (set_Required_Strings (snd (f props)) (set_Properties (Some (fst (f props))) t))) =
     ReadOnly t"
  "WriteOnly
     (case p of None \<Rightarrow> t
       | Some props \<Rightarrow>
           if \<not> Contains (elems (Type (set_Required_Strings (snd (f props)) (set_Properties (Some (fst (f props))) t)))) ''object''
           then set_Type (Some [''object''])
                  (set_Required_Strings (snd (f props)) (set_Properties (Some (fst (f props))) t))
           else (set_Required_Strings (snd (f props)) (set_Properties (Some (fst (f props))) t))) =
     WriteOnly t"
  "Required
     (case p of None \<Rightarrow> t
       | Some props \<Rightarrow>
           if \<not> Contains (elems (Type (set_Required_Strings (snd (f props)) (set_Properties (Some (fst (f props))) t)))) ''object''
           then set_Type (Some [''object''])
                  (set_Required_Strings (snd (f props)) (set_Properties (Some (fst (f props))) t))
           else (set_Required_Strings (snd (f props)) (set_Properties (Some (fst (f props))) t))) =
     (case p of None \<Rightarrow> Required t
        | Some props \<Rightarrow> BoolOrArrayOfString (snd (f props)) (Bool (Required t)))"
  "CustomAnnotations
     (case p of None \<Rightarrow> t
       | Some props \<Rightarrow>
           if \<not> Contains (elems (Type (set_Required_Strings (snd (f props)) (set_Properties (Some (fst (f props))) t)))) ''object''
           then set_Type (Some [''object''])
                  (set_Required_Strings (snd (f props)) (set_Properties (Some (fst (f props))) t))
           else (set_Required_Strings (snd (f props)) (set_Properties (Some (fst (f props))) t))) =
     CustomAnnotations t"
  "MinLength
     (case p of None \<Rightarrow> t
       | Some props \<Rightarrow>
           if \<not> Contains (elems (Type (set_Required_Strings (snd (f props)) (set_Properties (Some (fst (f props))) t)))) ''object''
           then set_Type (Some [''object''])
                  (set_Required_Strings (snd (f props)) (set_Properties (Some (fst (f props))) t))
           else (set_Required_Strings (snd (f props)) (set_Properties (Some (fst (f props))) t))) =
     MinLength t"
  "MaxLength
     (case p of None \<Rightarrow> t
       | Some props \<Rightarrow>
           if \<not> Contains (elems (Type (set_Required_Strings (snd (f props)) (set_Properties (Some (fst (f props))) t)))) ''object''
           then set_Type (Some [''object''])
                  (set_Required_Strings (snd (f props)) (set_Properties (Some (fst (f props))) t))
           else (set_Required_Strings (snd (f props)) (set_Properties (Some (fst (f props))) t))) =
     MaxLength t"
  "MinItems
     (case p of None \<Rightarrow> t
       | Some props \<Rightarrow>
           if \<not> Contains (elems (Type (set_Required_Strings (snd (f props)) (set_Properties (Some (fst (f props))) t)))) ''object''
           then set_Type (Some [''object''])
                  (set_Required_Strings (snd (f props)) (set_Properties (Some (fst (f props))) t))
           else (set_Required_Strings (snd (f props)) (set_Properties (Some (fst (f props))) t))) =
     MinItems t"
  "MaxItems
     (case p of None \<Rightarrow> t
       | Some props \<Rightarrow>
           if \<not> Contains (elems (Type (set_Required_Strings (snd (f props)) (set_Properties (Some (fst (f props))) t)))) ''object''
           then set_Type (Some [''object''])
                  (set_Required_Strings (snd (f props)) (set_Properties (Some (fst (f props))) t))
           else (set_Required_Strings (snd (f props)) (set_Properties (Some (fst (f props))) t))) =
     MaxItems t"
  by (simp_all add: Let_def set_Required_Strings_def split: option.split)

lemmas FixRequiredProperties_steps =
  step_Then step_If step_Else step_Items step_Not step_AdditionalProperties step_AnyOf
  step_AllOf step_OneOf step_Properties

text \<open>The fields of the schema after \<^verbatim>\<open>FixRequiredProperties\<close>.\<close>

lemma FixRequiredProperties_sel:
  "Then (FixRequiredProperties s) = map_option FixRequiredProperties (Then s)"
  "If' (FixRequiredProperties s) = map_option FixRequiredProperties (If' s)"
  "Else (FixRequiredProperties s) = map_option FixRequiredProperties (Else s)"
  "Items (FixRequiredProperties s) = map_option FixRequiredProperties (Items s)"
  "Not' (FixRequiredProperties s) = map_option FixRequiredProperties (Not' s)"
  "AnyOf (FixRequiredProperties s) = map FixRequiredProperties (AnyOf s)"
  "AllOf (FixRequiredProperties s) = map FixRequiredProperties (AllOf s)"
  "OneOf (FixRequiredProperties s) = map FixRequiredProperties (OneOf s)"
  "AdditionalProperties (FixRequiredProperties s) =
     (case as_Schema (AdditionalProperties s) of
        None \<Rightarrow> AdditionalProperties s
      | Some sub \<Rightarrow> SBSchema (seen_through_copy sub (FixRequiredProperties sub)))"
  "Properties (FixRequiredProperties s) =
     map_option (\<lambda>props. fst (FixRequiredProperties_Properties props (Strings (Required s))))
       (Properties s)"
  "Required (FixRequiredProperties s) =
     (case Properties s of
        None \<Rightarrow> Required s
      | Some props \<Rightarrow>
          BoolOrArrayOfString
            (snd (FixRequiredProperties_Properties props (Strings (Required s))))
            (Bool (Required s)))"
  "Type (FixRequiredProperties s) =
     (case Properties s of
        None \<Rightarrow> Type s
      | Some props \<Rightarrow> if Contains (elems (Type s)) ''object'' then Type s else Some [''object''])"
  unfolding FixRequiredProperties.simps(1) [of s] Let_def FixRequiredProperties_steps
  by (simp_all add: FixRequiredProperties_each_map split: option.split)

text \<open>The fields \<^verbatim>\<open>FixRequiredProperties\<close> leaves alone.\<close>

lemma FixRequiredProperties_unchanged:
  "Default (FixRequiredProperties s) = Default s"
  "PatternProperties (FixRequiredProperties s) = PatternProperties s"
  "Minimum (FixRequiredProperties s) = Minimum s"
  "MultipleOf (FixRequiredProperties s) = MultipleOf s"
  "ExclusiveMaximum (FixRequiredProperties s) = ExclusiveMaximum s"
  "ExclusiveMinimum (FixRequiredProperties s) = ExclusiveMinimum s"
  "Maximum (FixRequiredProperties s) = Maximum s"
  "Pattern (FixRequiredProperties s) = Pattern s"
  "Const (FixRequiredProperties s) = Const s"
  "Ref (FixRequiredProperties s) = Ref s"
  "Schema' (FixRequiredProperties s) = Schema' s"
  "Id' (FixRequiredProperties s) = Id' s"
  "Format (FixRequiredProperties s) = Format s"
  "Description (FixRequiredProperties s) = Description s"
  "Title (FixRequiredProperties s) = Title s"
  "Examples (FixRequiredProperties s) = Examples s"
  "Enum (FixRequiredProperties s) = Enum s"
  "HasData (FixRequiredProperties s) = HasData s"
  "Deprecated (FixRequiredProperties s) = Deprecated s"
  "ReadOnly (FixRequiredProperties s) = ReadOnly s"
  "WriteOnly (FixRequiredProperties s) = WriteOnly s"
  "CustomAnnotations (FixRequiredProperties s) = CustomAnnotations s"
  "MinLength (FixRequiredProperties s) = MinLength s"
  "MaxLength (FixRequiredProperties s) = MaxLength s"
  "MinItems (FixRequiredProperties s) = MinItems s"
  "MaxItems (FixRequiredProperties s) = MaxItems s"
  unfolding FixRequiredProperties.simps(1) [of s] Let_def FixRequiredProperties_steps
  by simp_all

lemma FixRequiredProperties_Bool [simp]:
  "Bool (Required (FixRequiredProperties s)) = Bool (Required s)"
  by (simp add: FixRequiredProperties_sel split: option.split)

lemma FixRequiredProperties_Properties_fst:
  "fst (FixRequiredProperties_Properties props strs) =
     map (\<lambda>kv. (fst kv, FixRequiredProperties (snd kv))) props"
  by (induction props arbitrary: strs) (auto simp: Let_def)

lemma FixRequiredProperties_Properties_snd:
  "snd (FixRequiredProperties_Properties props strs) = add_missing (flagged props) strs"
  by (induction props arbitrary: strs) (auto simp: Let_def flagged_def Contains_iff)

lemma flagged_fixed:
  "flagged (map (\<lambda>kv. (fst kv, FixRequiredProperties (snd kv))) props) = flagged props"
  by (induction props) (auto simp: flagged_def)

lemma add_missing_present:
  "set ks \<subseteq> set (elems strs) \<Longrightarrow> add_missing ks strs = strs"
  by (induction ks arbitrary: strs) auto

lemma add_missing_mono: "set (elems strs) \<subseteq> set (elems (add_missing ks strs))"
proof (induction ks arbitrary: strs)
  case Nil
  then show ?case by simp
next
  case (Cons k ks)
  have "set (elems strs) \<subseteq> set (elems (if k \<in> set (elems strs) then strs else append1 strs k))"
    by auto
  also have "\<dots> \<subseteq> set (elems (add_missing (k # ks) strs))"
    using Cons.IH by simp
  finally show ?case .
qed

lemma add_missing_covers: "set ks \<subseteq> set (elems (add_missing ks strs))"
proof (induction ks arbitrary: strs)
  case Nil
  then show ?case by simp
next
  case (Cons k ks)
  have "k \<in> set (elems (if k \<in> set (elems strs) then strs else append1 strs k))"
    by simp
  then have "k \<in> set (elems (add_missing (k # ks) strs))"
    using add_missing_mono [of "if k \<in> set (elems strs) then strs else append1 strs k" ks]
    by auto
  then show ?case
    using Cons.IH [of "if k \<in> set (elems strs) then strs else append1 strs k"] by simp
qed

lemma add_missing_twice: "add_missing ks (add_missing ks strs) = add_missing ks strs"
  by (rule add_missing_present) (rule add_missing_covers)

text \<open>The children of a schema are smaller than the schema.\<close>

lemma size_children:
  "Then s = Some t \<Longrightarrow> size t < size s"
  "If' s = Some t \<Longrightarrow> size t < size s"
  "Else s = Some t \<Longrightarrow> size t < size s"
  "Items s = Some t \<Longrightarrow> size t < size s"
  "Not' s = Some t \<Longrightarrow> size t < size s"
  "as_Schema (AdditionalProperties s) = Some t \<Longrightarrow> size t < size s"
  "t \<in> set (AnyOf s) \<Longrightarrow> size t < size s"
  "t \<in> set (AllOf s) \<Longrightarrow> size t < size s"
  "t \<in> set (OneOf s) \<Longrightarrow> size t < size s"
  "Properties s = Some props \<Longrightarrow> kv \<in> set props \<Longrightarrow> size (snd kv) < size s"
proof -
  show "Then s = Some t \<Longrightarrow> size t < size s" by (cases s) simp
  show "If' s = Some t \<Longrightarrow> size t < size s" by (cases s) simp
  show "Else s = Some t \<Longrightarrow> size t < size s" by (cases s) simp
  show "Items s = Some t \<Longrightarrow> size t < size s" by (cases s) simp
  show "Not' s = Some t \<Longrightarrow> size t < size s" by (cases s) simp
  show "as_Schema (AdditionalProperties s) = Some t \<Longrightarrow> size t < size s"
    by (cases s; cases "AdditionalProperties s") simp_all
  show "t \<in> set (AnyOf s) \<Longrightarrow> size t < size s"
    using size_list_estimation' [of t "AnyOf s" "size t" size] by (cases s) simp
  show "t \<in> set (AllOf s) \<Longrightarrow> size t < size s"
    using size_list_estimation' [of t "AllOf s" "size t" size] by (cases s) simp
  show "t \<in> set (OneOf s) \<Longrightarrow> size t < size s"
    using size_list_estimation' [of t "OneOf s" "size t" size] by (cases s) simp
  show "Properties s = Some props \<Longrightarrow> kv \<in> set props \<Longrightarrow> size (snd kv) < size s"
    using size_list_estimation' [of kv props "size (snd kv)" "size_prod (\<lambda>_. 0) size"]
    by (cases s; cases kv) simp
qed

lemma seen_through_copy_sel [simp]:
  "AdditionalProperties (seen_through_copy old fixed) = AdditionalProperties fixed"
  "Default (seen_through_copy old fixed) = Default fixed"
  "Then (seen_through_copy old fixed) = Then fixed"
  "PatternProperties (seen_through_copy old fixed) = PatternProperties fixed"
  "Properties (seen_through_copy old fixed) = Properties fixed"
  "If' (seen_through_copy old fixed) = If' fixed"
  "Minimum (seen_through_copy old fixed) = Minimum fixed"
  "MultipleOf (seen_through_copy old fixed) = MultipleOf fixed"
  "ExclusiveMaximum (seen_through_copy old fixed) = ExclusiveMaximum fixed"
  "Items (seen_through_copy old fixed) = Items fixed"
  "ExclusiveMinimum (seen_through_copy old fixed) = ExclusiveMinimum fixed"
  "Maximum (seen_through_copy old fixed) = Maximum fixed"
  "Else (seen_through_copy old fixed) = Else fixed"
  "Pattern (seen_through_copy old fixed) = Pattern fixed"
  "Const (seen_through_copy old fixed) = Const fixed"
  "Ref (seen_through_copy old fixed) = Ref fixed"
  "Schema' (seen_through_copy old fixed) = Schema' fixed"
  "Id' (seen_through_copy old fixed) = Id' fixed"
  "Format (seen_through_copy old fixed) = Format fixed"
  "Description (seen_through_copy old fixed) = Description fixed"
  "Title (seen_through_copy old fixed) = Title fixed"
  "Type (seen_through_copy old fixed) = Type old"
  "AnyOf (seen_through_copy old fixed) = AnyOf fixed"
  "AllOf (seen_through_copy old fixed) = AllOf fixed"
  "OneOf (seen_through_copy old fixed) = OneOf fixed"
  "Not' (seen_through_copy old fixed) = Not' fixed"
  "Examples (seen_through_copy old fixed) = Examples fixed"
  "Enum (seen_through_copy old fixed) = Enum fixed"
  "HasData (seen_through_copy old fixed) = HasData fixed"
  "Deprecated (seen_through_copy old fixed) = Deprecated fixed"
  "ReadOnly (seen_through_copy old fixed) = ReadOnly fixed"
  "WriteOnly (seen_through_copy old fixed) = WriteOnly fixed"
  "Required (seen_through_copy old fixed) = Required old"
  "CustomAnnotations (seen_through_copy old fixed) = CustomAnnotations fixed"
  "MinLength (seen_through_copy old fixed) = MinLength fixed"
  "MaxLength (seen_through_copy old fixed) = MaxLength fixed"
  "MinItems (seen_through_copy old fixed) = MinItems fixed"
  "MaxItems (seen_through_copy old fixed) = MaxItems fixed"
  by (simp_all add: seen_through_copy_def)

text \<open>
  Where \<^verbatim>\<open>FixRequiredProperties\<close> changes nothing any more in a schema that was held by
  value, the schema in the interface is left as it is by a further call on a copy.
\<close>

lemma seen_through_copy_fixed:
  assumes "FixRequiredProperties (FixRequiredProperties sub) = FixRequiredProperties sub"
  shows "seen_through_copy (seen_through_copy sub (FixRequiredProperties sub))
           (FixRequiredProperties (seen_through_copy sub (FixRequiredProperties sub))) =
         seen_through_copy sub (FixRequiredProperties sub)"
    (is "?l = ?r")
proof (rule Schema.expand, intro conjI)
  show "AdditionalProperties ?l = AdditionalProperties ?r"
    using arg_cong [OF assms, of AdditionalProperties]
    by (cases "as_Schema (AdditionalProperties sub)")
      (simp_all add: FixRequiredProperties_sel)
  show "Default ?l = Default ?r"
    using arg_cong [OF assms, of Default]
    by (simp add: FixRequiredProperties_sel FixRequiredProperties_unchanged
        FixRequiredProperties_Properties_fst)
  show "Then ?l = Then ?r"
    using arg_cong [OF assms, of Then]
    by (simp add: FixRequiredProperties_sel FixRequiredProperties_unchanged
        FixRequiredProperties_Properties_fst)
  show "PatternProperties ?l = PatternProperties ?r"
    using arg_cong [OF assms, of PatternProperties]
    by (simp add: FixRequiredProperties_sel FixRequiredProperties_unchanged
        FixRequiredProperties_Properties_fst)
  show "Properties ?l = Properties ?r"
    using arg_cong [OF assms, of Properties]
    by (simp add: FixRequiredProperties_sel FixRequiredProperties_unchanged
        FixRequiredProperties_Properties_fst)
  show "If' ?l = If' ?r"
    using arg_cong [OF assms, of If']
    by (simp add: FixRequiredProperties_sel FixRequiredProperties_unchanged
        FixRequiredProperties_Properties_fst)
  show "Minimum ?l = Minimum ?r"
    using arg_cong [OF assms, of Minimum]
    by (simp add: FixRequiredProperties_sel FixRequiredProperties_unchanged
        FixRequiredProperties_Properties_fst)
  show "MultipleOf ?l = MultipleOf ?r"
    using arg_cong [OF assms, of MultipleOf]
    by (simp add: FixRequiredProperties_sel FixRequiredProperties_unchanged
        FixRequiredProperties_Properties_fst)
  show "ExclusiveMaximum ?l = ExclusiveMaximum ?r"
    using arg_cong [OF assms, of ExclusiveMaximum]
    by (simp add: FixRequiredProperties_sel FixRequiredProperties_unchanged
        FixRequiredProperties_Properties_fst)
  show "Items ?l = Items ?r"
    using arg_cong [OF assms, of Items]
    by (simp add: FixRequiredProperties_sel FixRequiredProperties_unchanged
        FixRequiredProperties_Properties_fst)
  show "ExclusiveMinimum ?l = ExclusiveMinimum ?r"
    using arg_cong [OF assms, of ExclusiveMinimum]
    by (simp add: FixRequiredProperties_sel FixRequiredProperties_unchanged
        FixRequiredProperties_Properties_fst)
  show "Maximum ?l = Maximum ?r"
    using arg_cong [OF assms, of Maximum]
    by (simp add: FixRequiredProperties_sel FixRequiredProperties_unchanged
        FixRequiredProperties_Properties_fst)
  show "Else ?l = Else ?r"
    using arg_cong [OF assms, of Else]
    by (simp add: FixRequiredProperties_sel FixRequiredProperties_unchanged
        FixRequiredProperties_Properties_fst)
  show "Pattern ?l = Pattern ?r"
    using arg_cong [OF assms, of Pattern]
    by (simp add: FixRequiredProperties_sel FixRequiredProperties_unchanged
        FixRequiredProperties_Properties_fst)
  show "Const ?l = Const ?r"
    using arg_cong [OF assms, of Const]
    by (simp add: FixRequiredProperties_sel FixRequiredProperties_unchanged
        FixRequiredProperties_Properties_fst)
  show "Ref ?l = Ref ?r"
    using arg_cong [OF assms, of Ref]
    by (simp add: FixRequiredProperties_sel FixRequiredProperties_unchanged
        FixRequiredProperties_Properties_fst)
  show "Schema' ?l = Schema' ?r"
    using arg_cong [OF assms, of Schema']
    by (simp add: FixRequiredProperties_sel FixRequiredProperties_unchanged
        FixRequiredProperties_Properties_fst)
  show "Id' ?l = Id' ?r"
    using arg_cong [OF assms, of Id']
    by (simp add: FixRequiredProperties_sel FixRequiredProperties_unchanged
        FixRequiredProperties_Properties_fst)
  show "Format ?l = Format ?r"
    using arg_cong [OF assms, of Format]
    by (simp add: FixRequiredProperties_sel FixRequiredProperties_unchanged
        FixRequiredProperties_Properties_fst)
  show "Description ?l = Description ?r"
    using arg_cong [OF assms, of Description]
    by (simp add: FixRequiredProperties_sel FixRequiredProperties_unchanged
        FixRequiredProperties_Properties_fst)
  show "Title ?l = Title ?r"
    using arg_cong [OF assms, of Title]
    by (simp add: FixRequiredProperties_sel FixRequiredProperties_unchanged
        FixRequiredProperties_Properties_fst)
  show "Type ?l = Type ?r"
    by simp
  show "AnyOf ?l = AnyOf ?r"
    using arg_cong [OF assms, of AnyOf]
    by (simp add: FixRequiredProperties_sel FixRequiredProperties_unchanged
        FixRequiredProperties_Properties_fst)
  show "AllOf ?l = AllOf ?r"
    using arg_cong [OF assms, of AllOf]
    by (simp add: FixRequiredProperties_sel FixRequiredProperties_unchanged
        FixRequiredProperties_Properties_fst)
  show "OneOf ?l = OneOf ?r"
    using arg_cong [OF assms, of OneOf]
    by (simp add: FixRequiredProperties_sel FixRequiredProperties_unchanged
        FixRequiredProperties_Properties_fst)
  show "Not' ?l = Not' ?r"
    using arg_cong [OF assms, of Not']
    by (simp add: FixRequiredProperties_sel FixRequiredProperties_unchanged
        FixRequiredProperties_Properties_fst)
  show "Examples ?l = Examples ?r"
    using arg_cong [OF assms, of Examples]
    by (simp add: FixRequiredProperties_sel FixRequiredProperties_unchanged
        FixRequiredProperties_Properties_fst)
  show "Enum ?l = Enum ?r"
    using arg_cong [OF assms, of Enum]
    by (simp add: FixRequiredProperties_sel FixRequiredProperties_unchanged
        FixRequiredProperties_Properties_fst)
  show "HasData ?l = HasData ?r"
    using arg_cong [OF assms, of HasData]
    by (simp add: FixRequiredProperties_sel FixRequiredProperties_unchanged
        FixRequiredProperties_Properties_fst)
  show "Deprecated ?l = Deprecated ?r"
    using arg_cong [OF assms, of Deprecated]
    by (simp add: FixRequiredProperties_sel FixRequiredProperties_unchanged
        FixRequiredProperties_Properties_fst)
  show "ReadOnly ?l = ReadOnly ?r"
    using arg_cong [OF assms, of ReadOnly]
    by (simp add: FixRequiredProperties_sel FixRequiredProperties_unchanged
        FixRequiredProperties_Properties_fst)
  show "WriteOnly ?l = WriteOnly ?r"
    using arg_cong [OF assms, of WriteOnly]
    by (simp add: FixRequiredProperties_sel FixRequiredProperties_unchanged
        FixRequiredProperties_Properties_fst)
  show "Required ?l = Required ?r"
    by simp
  show "CustomAnnotations ?l = CustomAnnotations ?r"
    using arg_cong [OF assms, of CustomAnnotations]
    by (simp add: FixRequiredProperties_sel FixRequiredProperties_unchanged
        FixRequiredProperties_Properties_fst)
  show "MinLength ?l = MinLength ?r"
    using arg_cong [OF assms, of MinLength]
    by (simp add: FixRequiredProperties_sel FixRequiredProperties_unchanged
        FixRequiredProperties_Properties_fst)
  show "MaxLength ?l = MaxLength ?r"
    using arg_cong [OF assms, of MaxLength]
    by (simp add: FixRequiredProperties_sel FixRequiredProperties_unchanged
        FixRequiredProperties_Properties_fst)
  show "MinItems ?l = MinItems ?r"
    using arg_cong [OF assms, of MinItems]
    by (simp add: FixRequiredProperties_sel FixRequiredProperties_unchanged
        FixRequiredProperties_Properties_fst)
  show "MaxItems ?l = MaxItems ?r"
    using arg_cong [OF assms, of MaxItems]
    by (simp add: FixRequiredProperties_sel FixRequiredProperties_unchanged
        FixRequiredProperties_Properties_fst)
qed

section \<open>FixRequiredProperties is idempotent\<close>

text \<open>
  A second pass changes nothing: it finds the name of every flagged property in the
  required-name list already, and the type of every schema with properties already
  includes "object".
\<close>

lemma FixRequiredProperties_twice:
  "FixRequiredProperties (FixRequiredProperties s) = FixRequiredProperties s"
proof (induction s rule: measure_induct_rule [of size])
  case (less s)
  have opt: "map_option FixRequiredProperties (map_option FixRequiredProperties c) =
      map_option FixRequiredProperties c"
    if "\<And>t. c = Some t \<Longrightarrow> size t < size s" for c
    using that less.IH by (cases c) simp_all
  have lst: "map FixRequiredProperties (map FixRequiredProperties cs) =
      map FixRequiredProperties cs"
    if "\<And>t. t \<in> set cs \<Longrightarrow> size t < size s" for cs
    using that less.IH by simp
  have props: "map (\<lambda>kv. (fst kv, FixRequiredProperties (snd kv)))
        (map (\<lambda>kv. (fst kv, FixRequiredProperties (snd kv))) ps) =
      map (\<lambda>kv. (fst kv, FixRequiredProperties (snd kv))) ps"
    if "Properties s = Some ps" for ps
    using size_children(10) [OF that] less.IH by simp
  show ?case
  proof (rule Schema.expand, intro conjI)
    show "AdditionalProperties (FixRequiredProperties (FixRequiredProperties s)) = AdditionalProperties (FixRequiredProperties s)"
    proof (cases "as_Schema (AdditionalProperties s)")
      case None
      then show ?thesis
        by (simp add: FixRequiredProperties_sel)
    next
      case (Some sub)
      have "FixRequiredProperties (FixRequiredProperties sub) = FixRequiredProperties sub"
        using less.IH size_children(6) [OF Some] by simp
      from seen_through_copy_fixed [OF this] Some show ?thesis
        by (simp add: FixRequiredProperties_sel)
    qed
    show "Default (FixRequiredProperties (FixRequiredProperties s)) = Default (FixRequiredProperties s)"
      by (simp add: FixRequiredProperties_unchanged)
    show "Then (FixRequiredProperties (FixRequiredProperties s)) = Then (FixRequiredProperties s)"
      using opt [of "Then s"] size_children(1) [of s] by (simp add: FixRequiredProperties_sel)
    show "PatternProperties (FixRequiredProperties (FixRequiredProperties s)) = PatternProperties (FixRequiredProperties s)"
      by (simp add: FixRequiredProperties_unchanged)
    show "Properties (FixRequiredProperties (FixRequiredProperties s)) = Properties (FixRequiredProperties s)"
      using props by (cases "Properties s")
        (simp_all add: FixRequiredProperties_sel FixRequiredProperties_Properties_fst)
    show "If' (FixRequiredProperties (FixRequiredProperties s)) = If' (FixRequiredProperties s)"
      using opt [of "If' s"] size_children(2) [of s] by (simp add: FixRequiredProperties_sel)
    show "Minimum (FixRequiredProperties (FixRequiredProperties s)) = Minimum (FixRequiredProperties s)"
      by (simp add: FixRequiredProperties_unchanged)
    show "MultipleOf (FixRequiredProperties (FixRequiredProperties s)) = MultipleOf (FixRequiredProperties s)"
      by (simp add: FixRequiredProperties_unchanged)
    show "ExclusiveMaximum (FixRequiredProperties (FixRequiredProperties s)) = ExclusiveMaximum (FixRequiredProperties s)"
      by (simp add: FixRequiredProperties_unchanged)
    show "Items (FixRequiredProperties (FixRequiredProperties s)) = Items (FixRequiredProperties s)"
      using opt [of "Items s"] size_children(4) [of s] by (simp add: FixRequiredProperties_sel)
    show "ExclusiveMinimum (FixRequiredProperties (FixRequiredProperties s)) = ExclusiveMinimum (FixRequiredProperties s)"
      by (simp add: FixRequiredProperties_unchanged)
    show "Maximum (FixRequiredProperties (FixRequiredProperties s)) = Maximum (FixRequiredProperties s)"
      by (simp add: FixRequiredProperties_unchanged)
    show "Else (FixRequiredProperties (FixRequiredProperties s)) = Else (FixRequiredProperties s)"
      using opt [of "Else s"] size_children(3) [of s] by (simp add: FixRequiredProperties_sel)
    show "Pattern (FixRequiredProperties (FixRequiredProperties s)) = Pattern (FixRequiredProperties s)"
      by (simp add: FixRequiredProperties_unchanged)
    show "Const (FixRequiredProperties (FixRequiredProperties s)) = Const (FixRequiredProperties s)"
      by (simp add: FixRequiredProperties_unchanged)
    show "Ref (FixRequiredProperties (FixRequiredProperties s)) = Ref (FixRequiredProperties s)"
      by (simp add: FixRequiredProperties_unchanged)
    show "Schema' (FixRequiredProperties (FixRequiredProperties s)) = Schema' (FixRequiredProperties s)"
      by (simp add: FixRequiredProperties_unchanged)
    show "Id' (FixRequiredProperties (FixRequiredProperties s)) = Id' (FixRequiredProperties s)"
      by (simp add: FixRequiredProperties_unchanged)
    show "Format (FixRequiredProperties (FixRequiredProperties s)) = Format (FixRequiredProperties s)"
      by (simp add: FixRequiredProperties_unchanged)
    show "Description (FixRequiredProperties (FixRequiredProperties s)) = Description (FixRequiredProperties s)"
      by (simp add: FixRequiredProperties_unchanged)
    show "Title (FixRequiredProperties (FixRequiredProperties s)) = Title (FixRequiredProperties s)"
      by (simp add: FixRequiredProperties_unchanged)
    show "Type (FixRequiredProperties (FixRequiredProperties s)) = Type (FixRequiredProperties s)"
      by (cases "Properties s")
        (simp_all add: FixRequiredProperties_sel Contains_iff)
    show "AnyOf (FixRequiredProperties (FixRequiredProperties s)) = AnyOf (FixRequiredProperties s)"
      using lst [of "AnyOf s"] size_children(7) [of _ s] by (simp add: FixRequiredProperties_sel)
    show "AllOf (FixRequiredProperties (FixRequiredProperties s)) = AllOf (FixRequiredProperties s)"
      using lst [of "AllOf s"] size_children(8) [of _ s] by (simp add: FixRequiredProperties_sel)
    show "OneOf (FixRequiredProperties (FixRequiredProperties s)) = OneOf (FixRequiredProperties s)"
      using lst [of "OneOf s"] size_children(9) [of _ s] by (simp add: FixRequiredProperties_sel)
    show "Not' (FixRequiredProperties (FixRequiredProperties s)) = Not' (FixRequiredProperties s)"
      using opt [of "Not' s"] size_children(5) [of s] by (simp add: FixRequiredProperties_sel)
    show "Examples (FixRequiredProperties (FixRequiredProperties s)) = Examples (FixRequiredProperties s)"
      by (simp add: FixRequiredProperties_unchanged)
    show "Enum (FixRequiredProperties (FixRequiredProperties s)) = Enum (FixRequiredProperties s)"
      by (simp add: FixRequiredProperties_unchanged)
    show "HasData (FixRequiredProperties (FixRequiredProperties s)) = HasData (FixRequiredProperties s)"
      by (simp add: FixRequiredProperties_unchanged)
    show "Deprecated (FixRequiredProperties (FixRequiredProperties s)) = Deprecated (FixRequiredProperties s)"
      by (simp add: FixRequiredProperties_unchanged)
    show "ReadOnly (FixRequiredProperties (FixRequiredProperties s)) = ReadOnly (FixRequiredProperties s)"
      by (simp add: FixRequiredProperties_unchanged)
    show "WriteOnly (FixRequiredProperties (FixRequiredProperties s)) = WriteOnly (FixRequiredProperties s)"
      by (simp add: FixRequiredProperties_unchanged)
    show "Required (FixRequiredProperties (FixRequiredProperties s)) = Required (FixRequiredProperties s)"
      by (cases "Properties s")
        (simp_all add: FixRequiredProperties_sel FixRequiredProperties_Properties_fst
          FixRequiredProperties_Properties_snd flagged_fixed add_missing_twice)
    show "CustomAnnotations (FixRequiredProperties (FixRequiredProperties s)) = CustomAnnotations (FixRequiredProperties s)"
      by (simp add: FixRequiredProperties_unchanged)
    show "MinLength (FixRequiredProperties (FixRequiredProperties s)) = MinLength (FixRequiredProperties s)"
      by (simp add: FixRequiredProperties_unchanged)
    show "MaxLength (FixRequiredProperties (FixRequiredProperties s)) = MaxLength (FixRequiredProperties s)"
      by (simp add: FixRequiredProperties_unchanged)
    show "MinItems (FixRequiredProperties (FixRequiredProperties s)) = MinItems (FixRequiredProperties s)"
      by (simp add: FixRequiredProperties_unchanged)
    show "MaxItems (FixRequiredProperties (FixRequiredProperties s)) = MaxItems (FixRequiredProperties s)"
      by (simp add: FixRequiredProperties_unchanged)
  qed
qed

text \<open>
  C4. Applying the required-property normalizer twice gives the schema that applying it
  once gives. The normalizer reads the boolean required flag of a schema and leaves it
  as it is, and a second pass adds no name: in whatever order it visits properties of
  the normalized schema, its loop changes neither a property nor the required-name
  list.
\<close>

theorem FixRequiredProperties_idempotent:
  "FixRequiredProperties (FixRequiredProperties s) = FixRequiredProperties s
   \<and> Bool (Required (FixRequiredProperties s)) = Bool (Required s)
   \<and> (Properties (FixRequiredProperties s) = Some fixed \<longrightarrow> set props \<subseteq> set fixed \<longrightarrow>
        FixRequiredProperties_Properties props (Strings (Required (FixRequiredProperties s))) =
          (props, Strings (Required (FixRequiredProperties s))))"
proof (intro conjI impI)
  show "FixRequiredProperties (FixRequiredProperties s) = FixRequiredProperties s"
    by (rule FixRequiredProperties_twice)
  show "Bool (Required (FixRequiredProperties s)) = Bool (Required s)"
    by simp
next
  assume set: "Properties (FixRequiredProperties s) = Some fixed" and sub: "set props \<subseteq> set fixed"
  from set obtain ps where ps: "Properties s = Some ps"
    and fixed: "fixed = map (\<lambda>kv. (fst kv, FixRequiredProperties (snd kv))) ps"
    by (auto simp: FixRequiredProperties_sel FixRequiredProperties_Properties_fst)
  have strs: "Strings (Required (FixRequiredProperties s)) =
      add_missing (flagged ps) (Strings (Required s))"
    using ps by (simp add: FixRequiredProperties_sel FixRequiredProperties_Properties_snd)
  have "map (\<lambda>kv. (fst kv, FixRequiredProperties (snd kv))) props = props"
  proof (rule map_idI)
    fix kv assume "kv \<in> set props"
    with sub fixed obtain kv' where "kv = (fst kv', FixRequiredProperties (snd kv'))"
      by auto
    then show "(fst kv, FixRequiredProperties (snd kv)) = kv"
      by (simp add: FixRequiredProperties_twice)
  qed
  moreover have "set (flagged props) \<subseteq> set (flagged fixed)"
    using sub by (auto simp: flagged_def)
  then have "set (flagged props)
      \<subseteq> set (elems (add_missing (flagged ps) (Strings (Required s))))"
    using add_missing_covers [of "flagged ps" "Strings (Required s)"]
    by (simp add: fixed flagged_fixed)
  then have "add_missing (flagged props) (Strings (Required (FixRequiredProperties s))) =
      Strings (Required (FixRequiredProperties s))"
    unfolding strs by (rule add_missing_present)
  ultimately show "FixRequiredProperties_Properties props
      (Strings (Required (FixRequiredProperties s))) =
      (props, Strings (Required (FixRequiredProperties s)))"
    by (simp add: prod_eq_iff FixRequiredProperties_Properties_fst
        FixRequiredProperties_Properties_snd)
qed

lemma FixRequiredProperties_leaf:
  "FixRequiredProperties emptySchema = emptySchema"
  "FixRequiredProperties required_flag_schema = required_flag_schema"
  by (rule Schema.expand;
      simp add: FixRequiredProperties_sel FixRequiredProperties_unchanged
        required_flag_schema_def)+

theorem FixRequiredProperties_idempotent_witness:
  "Properties (FixRequiredProperties
       (set_Properties (Some [(''a'', required_flag_schema), (''b'', emptySchema)]) emptySchema)) =
     Some [(''a'', required_flag_schema), (''b'', emptySchema)]
   \<and> set [(''b'', emptySchema), (''a'', required_flag_schema)]
       \<subseteq> set [(''a'', required_flag_schema), (''b'', emptySchema)]
   \<and> Strings (Required (FixRequiredProperties
       (set_Properties (Some [(''a'', required_flag_schema), (''b'', emptySchema)]) emptySchema))) =
     Some [''a'']
   \<and> Type (FixRequiredProperties
       (set_Properties (Some [(''a'', required_flag_schema), (''b'', emptySchema)]) emptySchema)) =
     Some [''object'']
   \<and> FixRequiredProperties_Properties [(''b'', emptySchema), (''a'', required_flag_schema)]
       (Some [''a'']) =
     ([(''b'', emptySchema), (''a'', required_flag_schema)], Some [''a''])
   \<and> FixRequiredProperties (FixRequiredProperties
       (set_Properties (Some [(''a'', required_flag_schema), (''b'', emptySchema)]) emptySchema)) =
     FixRequiredProperties
       (set_Properties (Some [(''a'', required_flag_schema), (''b'', emptySchema)]) emptySchema)"
proof -
  let ?s = "set_Properties (Some [(''a'', required_flag_schema), (''b'', emptySchema)]) emptySchema"
  have props: "Properties (FixRequiredProperties ?s) =
      Some [(''a'', required_flag_schema), (''b'', emptySchema)]"
    by (simp add: FixRequiredProperties_sel FixRequiredProperties_Properties_fst
        FixRequiredProperties_leaf)
  have strs: "Strings (Required (FixRequiredProperties ?s)) = Some [''a'']"
    by (simp add: FixRequiredProperties_sel FixRequiredProperties_Properties_snd flagged_def
        required_flag_schema_def append1_def Contains_iff)
  have type: "Type (FixRequiredProperties ?s) = Some [''object'']"
    by (simp add: FixRequiredProperties_sel Contains_iff)
  from FixRequiredProperties_idempotent
    [of ?s "[(''a'', required_flag_schema), (''b'', emptySchema)]"
      "[(''b'', emptySchema), (''a'', required_flag_schema)]"]
    props strs type
  show ?thesis
    by simp
qed

section \<open>Validate and the properties of a schema\<close>

lemma Validate_checks_ignore_Properties:
  "Validate_before_Items (set_Properties p s) = Validate_before_Items s"
  "Validate_after_Items (set_Properties p s) = Validate_after_Items s"
  unfolding Validate_before_Items_def Validate_after_Items_def set_Properties_sel
  by (rule refl)+

text \<open>
  C1, as the code has it. None of the checks of \<^verbatim>\<open>Validate\<close> reads the properties
  map: where the compiler accepts the JSON text of a schema with and without its
  properties, \<^verbatim>\<open>Validate\<close> gives both the same verdict. The invariant is the
  normalizer's: after \<^verbatim>\<open>FixRequiredProperties\<close> the type of a schema whose properties
  map is set includes "object", and it is exactly "object" where it did not include it
  before.
\<close>

theorem properties_need_object_by_FixRequiredProperties:
  "(Properties s \<noteq> None \<longrightarrow> ''object'' \<in> set (elems (Type (FixRequiredProperties s))))
   \<and> (Properties s \<noteq> None \<longrightarrow> ''object'' \<notin> set (elems (Type s)) \<longrightarrow>
        Type (FixRequiredProperties s) = Some [''object''])
   \<and> (ToJson env (set_Properties p s) = Inr j1 \<longrightarrow> AddResource env j1 = None \<longrightarrow>
      ToJson env s = Inr j2 \<longrightarrow> AddResource env j2 = None \<longrightarrow>
        Validate env (set_Properties p s) = Validate env s)"
proof (intro conjI impI)
  assume "Properties s \<noteq> None"
  then show "''object'' \<in> set (elems (Type (FixRequiredProperties s)))"
    by (auto simp: FixRequiredProperties_sel Contains_iff)
next
  assume "Properties s \<noteq> None" "''object'' \<notin> set (elems (Type s))"
  then show "Type (FixRequiredProperties s) = Some [''object'']"
    by (auto simp: FixRequiredProperties_sel Contains_iff)
next
  assume "ToJson env (set_Properties p s) = Inr j1" "AddResource env j1 = None"
    "ToJson env s = Inr j2" "AddResource env j2 = None"
  then show "Validate env (set_Properties p s) = Validate env s"
    unfolding Validate.simps [of env s] Validate.simps [of env "set_Properties p s"]
      Validate_checks_ignore_Properties set_Properties_sel
    by simp
qed

theorem properties_need_object_by_FixRequiredProperties_witness:
  "Properties (set_Properties (Some [(''a'', emptySchema)]) (set_Type (Some [''string'']) emptySchema))
     \<noteq> None
   \<and> ''object'' \<notin> set (elems (Type
        (set_Properties (Some [(''a'', emptySchema)]) (set_Type (Some [''string'']) emptySchema))))
   \<and> Type (FixRequiredProperties
        (set_Properties (Some [(''a'', emptySchema)]) (set_Type (Some [''string'']) emptySchema))) =
       Some [''object'']
   \<and> ToJson accepting_env
        (set_Properties (Some [(''a'', emptySchema)]) (set_Type (Some [''string'']) emptySchema)) =
       Inr ''{}''
   \<and> AddResource accepting_env ''{}'' = None
   \<and> Validate accepting_env
        (set_Properties (Some [(''a'', emptySchema)]) (set_Type (Some [''string'']) emptySchema)) =
       Validate accepting_env (set_Type (Some [''string'']) emptySchema)"
  using properties_need_object_by_FixRequiredProperties
    [of "set_Properties (Some [(''a'', emptySchema)]) (set_Type (Some [''string'']) emptySchema)"
      accepting_env "Some [(''a'', emptySchema)]" "''{}''" "''{}''"]
    properties_need_object_by_FixRequiredProperties
    [of "set_Type (Some [''string'']) emptySchema"
      accepting_env "Some [(''a'', emptySchema)]" "''{}''" "''{}''"]
  by (simp add: ToJson_def accepting_env_def)

text \<open>
  C1 as stated fails on the code: the schema of type "string" with one property
  passes \<^verbatim>\<open>Validate\<close> (its JSON text is a valid draft-07 schema, so the compiler
  has nothing to report either).
\<close>

theorem Validate_accepts_properties_without_object:
  "Properties (set_Properties (Some [(''a'', emptySchema)]) (set_Type (Some [''string'']) emptySchema))
     = Some [(''a'', emptySchema)]
   \<and> \<not> Contains (elems (Type
        (set_Properties (Some [(''a'', emptySchema)]) (set_Type (Some [''string'']) emptySchema))))
        ''object''
   \<and> Validate accepting_env
        (set_Properties (Some [(''a'', emptySchema)]) (set_Type (Some [''string'']) emptySchema)) =
       None"
  by (simp add: Contains_iff Validate.simps ToJson_def accepting_env_def
      Validate_before_Items_def Validate_after_Items_def StringOrArrayOfString_Validate_def
      IsEmpty_def Matches_def)

text \<open>
  C2, as the code has it. \<^verbatim>\<open>Validate\<close> hands the JSON text of the schema to the
  schema compiler as a resource (\<^verbatim>\<open>AddResource\<close>) and calls the compiler no further:
  an error of the encoding, or else an error of that call, is what \<^verbatim>\<open>Validate\<close>
  returns, before any of its own checks is looked at; where the call reports nothing,
  the checks of \<^verbatim>\<open>Validate\<close> alone decide.
\<close>

theorem Validate_AddResource_before_checks:
  "(ToJson env s = Inl err \<longrightarrow> Validate env s = Some err)
   \<and> (ToJson env s = Inr jsonStr \<longrightarrow> AddResource env jsonStr = Some err \<longrightarrow>
        Validate env s = Some err)
   \<and> (ToJson env s = Inr jsonStr \<longrightarrow> AddResource env jsonStr = None \<longrightarrow>
        Validate env s =
          (case Validate_before_Items s of
             Some e \<Rightarrow> Some e
           | None \<Rightarrow>
               (case (case Items s of None \<Rightarrow> None | Some items \<Rightarrow> Validate env items) of
                  Some e \<Rightarrow> Some e
                | None \<Rightarrow> Validate_after_Items s)))"
  by (simp add: Validate.simps [of env s])

theorem Validate_AddResource_before_checks_witness:
  "ToJson (accepting_env\<lparr>AddResource := \<lambda>text. Some (LibraryError ''jsonschema'')\<rparr>)
      (set_Pattern ''^a$'' (set_Type (Some [''integer'']) emptySchema)) = Inr ''{}''
   \<and> AddResource (accepting_env\<lparr>AddResource := \<lambda>text. Some (LibraryError ''jsonschema'')\<rparr>) ''{}''
       = Some (LibraryError ''jsonschema'')
   \<and> Validate (accepting_env\<lparr>AddResource := \<lambda>text. Some (LibraryError ''jsonschema'')\<rparr>)
      (set_Pattern ''^a$'' (set_Type (Some [''integer'']) emptySchema)) =
       Some (LibraryError ''jsonschema'')
   \<and> ToJson (accepting_env\<lparr>json_MarshalIndent := \<lambda>s. Inl (LibraryError ''json'')\<rparr>)
      (set_Pattern ''^a$'' (set_Type (Some [''integer'']) emptySchema)) = Inl (LibraryError ''json'')
   \<and> Validate (accepting_env\<lparr>json_MarshalIndent := \<lambda>s. Inl (LibraryError ''json'')\<rparr>)
      (set_Pattern ''^a$'' (set_Type (Some [''integer'']) emptySchema)) =
       Some (LibraryError ''json'')
   \<and> ToJson accepting_env (set_Pattern ''^a$'' (set_Type (Some [''integer'']) emptySchema)) =
       Inr ''{}''
   \<and> AddResource accepting_env ''{}'' = None
   \<and> Validate accepting_env (set_Pattern ''^a$'' (set_Type (Some [''integer'']) emptySchema)) =
       Some PatternNeedsString"
proof -
  let ?s = "set_Pattern ''^a$'' (set_Type (Some [''integer'']) emptySchema)"
  have before: "Validate_before_Items ?s = Some PatternNeedsString"
    by (simp add: Validate_before_Items_def StringOrArrayOfString_Validate_def IsEmpty_def
        Matches_def)
  show ?thesis
    using Validate_AddResource_before_checks
      [of "accepting_env\<lparr>AddResource := \<lambda>text. Some (LibraryError ''jsonschema'')\<rparr>"
        ?s "LibraryError ''jsonschema''" "''{}''"]
      Validate_AddResource_before_checks
      [of "accepting_env\<lparr>json_MarshalIndent := \<lambda>s. Inl (LibraryError ''json'')\<rparr>"
        ?s "LibraryError ''json''" "''{}''"]
      Validate_AddResource_before_checks [of accepting_env ?s "LibraryError ''json''" "''{}''"]
      before
    by (simp add: ToJson_def accepting_env_def)
qed

text \<open>
  C2 as stated fails on the code. The schema with \<^verbatim>\<open>minLength: -1\<close> violates the
  draft-07 meta-schema, where minLength is a non-negative integer, and none of the checks
  of \<^verbatim>\<open>Validate\<close>. The compiler's \<^verbatim>\<open>AddResource\<close> reads the JSON text and
  registers it; the text is compiled against the meta-schema by the compiler's
  \<^verbatim>\<open>Compile\<close>, which \<^verbatim>\<open>Validate\<close> does not call (the call of
  \<^verbatim>\<open>jsonschema.CompileString\<close> in its source is commented out). With a compiler that has
  nothing to report on the text, \<^verbatim>\<open>Validate\<close> returns nil.
\<close>

theorem Validate_accepts_negative_minLength:
  "MinLength (set_MinLength (Some (- 1)) emptySchema) = Some (- 1)
   \<and> ToJson accepting_env (set_MinLength (Some (- 1)) emptySchema) = Inr ''{}''
   \<and> AddResource accepting_env ''{}'' = None
   \<and> Validate_before_Items (set_MinLength (Some (- 1)) emptySchema) = None
   \<and> Validate_after_Items (set_MinLength (Some (- 1)) emptySchema) = None
   \<and> Validate accepting_env (set_MinLength (Some (- 1)) emptySchema) = None"
  by (simp add: Validate.simps ToJson_def accepting_env_def
      Validate_before_Items_def Validate_after_Items_def StringOrArrayOfString_Validate_def
      IsEmpty_def Matches_def)

section \<open>FixRequiredProperties and a schema held in additionalProperties\<close>

text \<open>
  C5. \<^verbatim>\<open>FixRequiredProperties\<close> runs on a copy of the schema that
  additionalProperties holds by value: the required-name list and the type of the schema
  that stays in the field are what they were. For the schema whose additionalProperties
  is a schema with the one property "a" flagged required, the name "a" is not added to
  the required-name list of that sub-schema, though a call on the sub-schema itself
  adds it. Where additionalProperties holds any other value (such as the map that a
  decoder builds for a schema written in an annotation), the field is left as it is.
\<close>

theorem FixRequiredProperties_AdditionalProperties_copy:
  "(as_Schema (AdditionalProperties s) = Some sub \<longrightarrow>
     (\<exists>sub'. AdditionalProperties (FixRequiredProperties s) = SBSchema sub'
        \<and> Required sub' = Required sub \<and> Type sub' = Type sub))
   \<and> (as_Schema (AdditionalProperties s) = None \<longrightarrow>
        AdditionalProperties (FixRequiredProperties s) = AdditionalProperties s)"
  by (simp add: FixRequiredProperties_sel)

theorem FixRequiredProperties_AdditionalProperties_copy_witness:
  "as_Schema (AdditionalProperties
      (set_AdditionalProperties
        (SBSchema (set_Properties (Some [(''a'', required_flag_schema)]) emptySchema))
        emptySchema)) =
     Some (set_Properties (Some [(''a'', required_flag_schema)]) emptySchema)
   \<and> (\<exists>sub'. AdditionalProperties (FixRequiredProperties
        (set_AdditionalProperties
          (SBSchema (set_Properties (Some [(''a'', required_flag_schema)]) emptySchema))
          emptySchema)) = SBSchema sub'
      \<and> Strings (Required sub') = None \<and> Type sub' = None)
   \<and> Strings (Required (FixRequiredProperties
        (set_Properties (Some [(''a'', required_flag_schema)]) emptySchema))) = Some [''a'']"
proof -
  have direct: "Strings (Required (FixRequiredProperties
        (set_Properties (Some [(''a'', required_flag_schema)]) emptySchema))) = Some [''a'']"
    by (simp add: FixRequiredProperties_sel FixRequiredProperties_Properties_snd flagged_def
        required_flag_schema_def append1_def Contains_iff)
  show ?thesis
    using FixRequiredProperties_AdditionalProperties_copy
      [of "set_AdditionalProperties
          (SBSchema (set_Properties (Some [(''a'', required_flag_schema)]) emptySchema))
          emptySchema"
        "set_Properties (Some [(''a'', required_flag_schema)]) emptySchema"] direct
    by auto
qed

section \<open>The tree synthesizer: one key of a mapping\<close>

lemma validate_or_infer_keeps:
  assumes "validate_or_infer env resolved valueNode = Inr keyNodeSchema"
  shows "Required keyNodeSchema = Required resolved" and "Ref keyNodeSchema = Ref resolved"
    and "HasData keyNodeSchema = HasData resolved"
  using assms
  by (auto simp: validate_or_infer_def split: if_splits option.splits sum.splits)

lemma resolve_Ref_no_ref: "Ref parsed = [] \<Longrightarrow> resolve_Ref env cfg parsed = Inr parsed"
  by (simp add: resolve_Ref_def)

text \<open>
  A reference to a file that does not exist is left alone: the lookup fails and the
  schema stays as it is.
\<close>

lemma resolve_Ref_missing_file:
  assumes "\<not> HasPrefix (Ref parsed) ''#''"
    and "files env (relative_path env (valuesPath cfg) (Split (Ref parsed) (CHR ''#'') ! 0)) = None"
  shows "resolve_Ref env cfg parsed = Inr parsed"
  using assms by (simp add: resolve_Ref_def IsRelativeFile_def Let_def)

text \<open>What one turn of the loop over a mapping does when the loop comes to an end.\<close>

lemma YamlToSchema_mapping_step:
  assumes "YamlToSchema_mapping env cfg (keyNode # valueNode0 # rest) schema required = Inr res"
  obtains parsed description resolved keyNodeSchema schema1 where
    "parse_key_comment env cfg keyNode = Inr (parsed, description)"
    "resolve_Ref env cfg parsed = Inr resolved"
    "validate_or_infer env resolved
       (if Kind valueNode0 = AliasNode then Alias valueNode0 else Some valueNode0) =
     Inr keyNodeSchema"
    "YamlToSchema_mapping env cfg rest schema1
       (if Ref keyNodeSchema = []
        then add_to_parent_required cfg (Value keyNode) keyNodeSchema required
        else required) = Inr res"
  using assms
  unfolding YamlToSchema_mapping.simps(3) Let_def
  by (auto split: sum.splits prod.splits option.splits if_splits)

lemma count_list_distinct: "distinct xs \<Longrightarrow> x \<in> set xs \<Longrightarrow> count_list xs x = 1"
  by (induction xs) auto

lemma add_to_parent_required_grows:
  "\<exists>added. elems (add_to_parent_required cfg key keyNodeSchema required) = elems required @ added
     \<and> distinct added \<and> set added \<inter> set (elems required) = {}"
  by (simp add: add_to_parent_required_def Contains_iff)

lemma add_to_parent_required_flagged:
  "Bool (Required keyNodeSchema) \<Longrightarrow>
   key \<in> set (elems (add_to_parent_required cfg key keyNodeSchema required))"
  by (simp add: add_to_parent_required_def Contains_iff)

text \<open>
  The loop over a mapping only appends to the required list of the parent, and never a
  name that the list holds already.
\<close>

lemma YamlToSchema_mapping_required_grows:
  "YamlToSchema_mapping env cfg content schema required = Inr (schema', required') \<Longrightarrow>
   \<exists>added. elems required' = elems required @ added
     \<and> distinct added \<and> set added \<inter> set (elems required) = {}"
proof (induction content arbitrary: schema required rule: induct_list012)
  case 1
  then show ?case by simp
next
  case (2 keyNode)
  then show ?case by simp
next
  case (3 keyNode valueNode0 rest)
  from "3.prems" obtain parsed description resolved keyNodeSchema schema1 where
    rest: "YamlToSchema_mapping env cfg rest schema1
       (if Ref keyNodeSchema = []
        then add_to_parent_required cfg (Value keyNode) keyNodeSchema required
        else required) = Inr (schema', required')"
    by (rule YamlToSchema_mapping_step)
  define mid where "mid = (if Ref keyNodeSchema = []
        then add_to_parent_required cfg (Value keyNode) keyNodeSchema required
        else required)"
  have "\<exists>a. elems mid = elems required @ a \<and> distinct a \<and> set a \<inter> set (elems required) = {}"
  proof (cases "Ref keyNodeSchema = []")
    case True
    then show ?thesis
      using add_to_parent_required_grows [of cfg "Value keyNode" keyNodeSchema required]
      by (simp add: mid_def)
  next
    case False
    then show ?thesis
      by (simp add: mid_def)
  qed
  then obtain a where a: "elems mid = elems required @ a" "distinct a"
    "set a \<inter> set (elems required) = {}"
    by blast
  obtain b where b: "elems required' = elems mid @ b" "distinct b" "set b \<inter> set (elems mid) = {}"
    using "3.IH"(1) [OF rest [folded mid_def]] by auto
  have "elems required' = elems required @ (a @ b)" "distinct (a @ b)"
    "set (a @ b) \<inter> set (elems required) = {}"
    using a b by auto
  then show ?case by blast
qed

lemma YamlToSchema_mapping_required_flagged:
  assumes "YamlToSchema_mapping env cfg content schema required = Inr (schema', required')"
    and "keyNode \<in> set (keys_of content)"
    and "parse_key_comment env cfg keyNode = Inr (parsed, description)"
    and "Bool (Required parsed)" and "Ref parsed = []"
  shows "Value keyNode \<in> set (elems required')"
  using assms(1,2)
proof (induction content arbitrary: schema required rule: induct_list012)
  case 1
  then show ?case by simp
next
  case (2 k)
  then show ?case by simp
next
  case (3 k valueNode0 rest)
  from "3.prems"(1) obtain parsed' description' resolved keyNodeSchema schema1 where
    p: "parse_key_comment env cfg k = Inr (parsed', description')"
    and r: "resolve_Ref env cfg parsed' = Inr resolved"
    and v: "validate_or_infer env resolved
       (if Kind valueNode0 = AliasNode then Alias valueNode0 else Some valueNode0) =
     Inr keyNodeSchema"
    and rest: "YamlToSchema_mapping env cfg rest schema1
       (if Ref keyNodeSchema = []
        then add_to_parent_required cfg (Value k) keyNodeSchema required
        else required) = Inr (schema', required')"
    by (rule YamlToSchema_mapping_step)
  show ?case
  proof (cases "keyNode = k")
    case True
    with p assms(3) have "parsed' = parsed" by simp
    with r assms(5) have "resolved = parsed"
      by (simp add: resolve_Ref_no_ref)
    with validate_or_infer_keeps [OF v] assms(4,5)
    have flag: "Bool (Required keyNodeSchema)" and noref: "Ref keyNodeSchema = []"
      by simp_all
    from rest noref have rest':
      "YamlToSchema_mapping env cfg rest schema1
         (add_to_parent_required cfg (Value k) keyNodeSchema required) = Inr (schema', required')"
      by simp
    from YamlToSchema_mapping_required_grows [OF rest']
      add_to_parent_required_flagged [OF flag, of "Value k" cfg required]
    show ?thesis
      using True by auto
  next
    case False
    with "3.prems"(2) have "keyNode \<in> set (keys_of rest)" by simp
    from "3.IH"(1) [OF rest this] show ?thesis .
  qed
qed

section \<open>A key with the required flag in the required list of its mapping\<close>

text \<open>
  C9, as the code has it. Where the synthesis of a mapping comes to an end, the mapping's
  required list holds the name of every key whose annotation sets the required flag
  (and carries no reference) once if the list it started from (the literal required
  list of the mapping's own annotation, or the empty list) did not hold the name, and as
  often as that list held it otherwise: the synthesizer appends a name only where the
  list lacks it.
\<close>

theorem required_flag_key_in_parent_list:
  assumes "YamlToSchema env cfg node required0 = Inr (schema, required)"
    and "Kind node = MappingNode"
    and "keyNode \<in> set (keys_of (Content node))"
    and "parse_key_comment env cfg keyNode = Inr (parsed, description)"
    and "Bool (Required parsed)" and "Ref parsed = []"
  shows "count_list (elems required) (Value keyNode) =
           max 1 (count_list (elems required0) (Value keyNode))"
proof -
  from assms(1,2) have loop:
    "YamlToSchema_mapping env cfg (Content node) (NewSchema ''object'') required0 =
       Inr (schema, required)"
    by (simp add: YamlToSchema.simps(1) [of env cfg node required0])
  from YamlToSchema_mapping_required_grows [OF loop] obtain added where
    added: "elems required = elems required0 @ added" "distinct added"
      "set added \<inter> set (elems required0) = {}"
    by auto
  have inlist: "Value keyNode \<in> set (elems required)"
    by (rule YamlToSchema_mapping_required_flagged [OF loop assms(3,4,5,6)])
  show ?thesis
  proof (cases "Value keyNode \<in> set (elems required0)")
    case True
    with added(3) have "Value keyNode \<notin> set added" by auto
    then have "count_list added (Value keyNode) = 0"
      by (simp add: count_list_0_iff)
    moreover from True have "count_list (elems required0) (Value keyNode) \<noteq> 0"
      by (simp add: count_list_0_iff)
    ultimately show ?thesis
      using added(1) by simp
  next
    case False
    with inlist added(1) have "Value keyNode \<in> set added" by auto
    with added(2) have "count_list added (Value keyNode) = 1"
      by (simp add: count_list_distinct)
    moreover from False have "count_list (elems required0) (Value keyNode) = 0"
      by (simp add: count_list_0_iff)
    ultimately show ?thesis
      using added(1) by simp
  qed
qed

lemma default_config_sel [simp]:
  "valuesPath default_config = ''values.yaml''"
  "keepFullComment default_config = False"
  "helmDocsCompatibilityMode default_config = False"
  "dontRemoveHelmDocsPrefix default_config = False"
  "SkipTitle (skipAutoGeneration default_config) = False"
  "SkipDescription (skipAutoGeneration default_config) = False"
  "SkipRequired (skipAutoGeneration default_config) = False"
  "SkipDefault (skipAutoGeneration default_config) = False"
  "SkipAdditionalProperties (skipAutoGeneration default_config) = False"
  by (simp_all add: default_config_def)

lemma node_sel [simp]:
  "Value (key_node name comment) = name"
  "HeadComment (key_node name comment) = comment"
  "Kind (mapping_node content) = MappingNode"
  "Content (mapping_node content) = content"
  "Kind (string_node t) = ScalarNode"
  "Tag (string_node t) = strTag"
  "Value (string_node t) = t"
  by (simp_all add: key_node_def mapping_node_def string_node_def)

text \<open>The concrete case: the key "k" with the annotation \<^verbatim>\<open>required: true\<close>.\<close>

lemma parse_required_true:
  "parse_key_comment required_env default_config
     (key_node ''k'' (annotation_comment ''required: true'')) =
   Inr (set_Required (BoolOrArrayOfString None True) (set_HasData True emptySchema), [])"
  by (simp add: parse_key_comment_def annotation_comment_def
      required_env_def accepting_env_def GetSchemaFromComment_def Scanner_lines_def dropCR_def
      HasPrefix_def SchemaPrefix_def TrimPrefix_def CommentPrefix_def Set_def)

lemma Validate_required_true:
  "Validate required_env (set_Required (BoolOrArrayOfString None True) (set_HasData True emptySchema)) = None"
  by (simp add: Validate.simps ToJson_def required_env_def accepting_env_def Set_def
      Validate_before_Items_def Validate_after_Items_def StringOrArrayOfString_Validate_def
      IsEmpty_def Matches_def)

lemma YamlToSchema_required_true:
  "\<exists>schema. YamlToSchema required_env default_config
     (mapping_node [key_node ''k'' (annotation_comment ''required: true''), string_node ''v''])
     required0 =
   Inr (schema, if Contains (elems required0) ''k'' then required0 else append1 required0 ''k'')"
  by (simp add: YamlToSchema.simps(1) YamlToSchema_mapping.simps(3)
      parse_required_true resolve_Ref_no_ref validate_or_infer_def
      Validate_required_true add_to_parent_required_def Let_def)

theorem required_flag_key_in_parent_list_witness:
  "(\<exists>schema required.
      YamlToSchema required_env default_config
        (mapping_node [key_node ''k'' (annotation_comment ''required: true''), string_node ''v''])
        (Some [''k'']) = Inr (schema, required)
      \<and> count_list (elems required) ''k'' = 1)
   \<and> (\<exists>schema required.
      YamlToSchema required_env default_config
        (mapping_node [key_node ''k'' (annotation_comment ''required: true''), string_node ''v''])
        (Some []) = Inr (schema, required)
      \<and> count_list (elems required) ''k'' = 1)
   \<and> Kind (mapping_node
        [key_node ''k'' (annotation_comment ''required: true''), string_node ''v'']) = MappingNode
   \<and> key_node ''k'' (annotation_comment ''required: true'') \<in> set (keys_of (Content (mapping_node
        [key_node ''k'' (annotation_comment ''required: true''), string_node ''v''])))
   \<and> parse_key_comment required_env default_config
        (key_node ''k'' (annotation_comment ''required: true'')) =
      Inr (set_Required (BoolOrArrayOfString None True) (set_HasData True emptySchema), [])
   \<and> Bool (Required (set_Required (BoolOrArrayOfString None True) (set_HasData True emptySchema)))
   \<and> Ref (set_Required (BoolOrArrayOfString None True) (set_HasData True emptySchema)) = []"
proof -
  let ?node = "mapping_node
    [key_node ''k'' (annotation_comment ''required: true''), string_node ''v'']"
  let ?key = "key_node ''k'' (annotation_comment ''required: true'')"
  let ?parsed = "set_Required (BoolOrArrayOfString None True) (set_HasData True emptySchema)"
  have kind: "Kind ?node = MappingNode"
    by simp
  have key: "?key \<in> set (keys_of (Content ?node))"
    by simp
  have flag: "Bool (Required ?parsed)" and noref: "Ref ?parsed = []"
    by simp_all
  have name: "Value ?key = ''k''"
    by simp
  have one: "\<exists>schema required.
      YamlToSchema required_env default_config ?node required0 = Inr (schema, required)
      \<and> count_list (elems required) ''k'' = max 1 (count_list (elems required0) ''k'')"
    for required0
  proof -
    from YamlToSchema_required_true [of required0] obtain schema required where
      run: "YamlToSchema required_env default_config ?node required0 = Inr (schema, required)"
      by blast
    from required_flag_key_in_parent_list [OF run kind key parse_required_true flag noref]
    show ?thesis
      using run name by auto
  qed
  from one [of "Some [''k'']"] one [of "Some []"] kind key parse_required_true flag noref
  show ?thesis
    by simp
qed

lemma parse_required_list:
  "parse_key_comment required_env default_config
     (key_node ''m'' (annotation_comment ''required: [k, k]'')) =
   Inr (set_Required (BoolOrArrayOfString (Some [''k'', ''k'']) False)
          (set_HasData True emptySchema), [])"
  by (simp add: parse_key_comment_def annotation_comment_def
      required_env_def accepting_env_def GetSchemaFromComment_def Scanner_lines_def dropCR_def
      HasPrefix_def SchemaPrefix_def TrimPrefix_def CommentPrefix_def Set_def)

lemma Validate_required_list:
  "Validate required_env
     (set_Required (BoolOrArrayOfString (Some [''k'', ''k'']) False)
        (set_HasData True emptySchema)) = None"
  by (simp add: Validate.simps ToJson_def required_env_def accepting_env_def
      Validate_before_Items_def Validate_after_Items_def StringOrArrayOfString_Validate_def
      IsEmpty_def Matches_def)

text \<open>
  C9 as stated fails on the code. Where the required list of the mapping starts out
  as the names "k", "k", the synthesis of the mapping with the key "k" flagged required
  leaves the list as it is: it holds "k" twice, not once. The list starts out so for
  the mapping under a key "m" that carries the literal annotation
  \<^verbatim>\<open>required: [k, k]\<close>: the schema synthesized for "m" has the required list "k", "k".
\<close>

theorem required_flag_key_twice_in_parent_list:
  "(\<exists>schema.
      YamlToSchema required_env default_config
        (mapping_node [key_node ''k'' (annotation_comment ''required: true''), string_node ''v''])
        (Some [''k'', ''k'']) = Inr (schema, Some [''k'', ''k'']))
   \<and> count_list (elems (Some [''k'', ''k''])) ''k'' = 2
   \<and> parse_key_comment required_env default_config
        (key_node ''k'' (annotation_comment ''required: true'')) =
      Inr (set_Required (BoolOrArrayOfString None True) (set_HasData True emptySchema), [])
   \<and> Bool (Required (set_Required (BoolOrArrayOfString None True) (set_HasData True emptySchema)))
   \<and> Ref (set_Required (BoolOrArrayOfString None True) (set_HasData True emptySchema)) = []
   \<and> (\<exists>schema m.
        YamlToSchema required_env default_config
          (mapping_node
            [key_node ''m'' (annotation_comment ''required: [k, k]''),
             mapping_node
               [key_node ''k'' (annotation_comment ''required: true''), string_node ''v'']])
          (Some []) = Inr (schema, Some [])
        \<and> map_of (the (Properties schema)) ''m'' = Some m
        \<and> Strings (Required m) = Some [''k'', ''k''])"
proof -
  let ?inner = "mapping_node
    [key_node ''k'' (annotation_comment ''required: true''), string_node ''v'']"
  let ?outer = "mapping_node [key_node ''m'' (annotation_comment ''required: [k, k]''), ?inner]"
  from YamlToSchema_required_true [of "Some [''k'', ''k'']"] obtain sub where
    sub: "YamlToSchema required_env default_config ?inner (Some [''k'', ''k'']) =
      Inr (sub, Some [''k'', ''k''])"
    by (auto simp: Contains_iff)
  have "\<exists>schema m.
        YamlToSchema required_env default_config ?outer (Some []) = Inr (schema, Some [])
        \<and> map_of (the (Properties schema)) ''m'' = Some m
        \<and> Strings (Required m) = Some [''k'', ''k'']"
    by (simp add: YamlToSchema.simps(1) [of required_env default_config ?outer]
        YamlToSchema_mapping.simps(3) parse_required_list resolve_Ref_no_ref
        validate_or_infer_def Validate_required_list add_to_parent_required_def
        apply_defaults_def sub assign_Property_def NewSchema_def set_Required_Strings_def
        Let_def)
  with sub show ?thesis
    by (simp add: parse_required_true)
qed

section \<open>A reference to a file that does not exist\<close>

text \<open>
  C3. A key whose annotation carries a reference that does not begin with \<^verbatim>\<open>#\<close>
  and names a file that does not exist does not stop the synthesis: the reference is
  left as it is, the schema of the annotation (which marks explicit data and passes
  validation) becomes the schema of the key, with its reference, and the loop goes on
  with the other keys of the mapping; a mapping with this key alone is synthesized.
\<close>

theorem missing_ref_file_keeps_ref:
  assumes "parse_key_comment env cfg keyNode = Inr (parsed, description)"
    and "Ref parsed \<noteq> []" and "\<not> HasPrefix (Ref parsed) ''#''"
    and "files env (relative_path env (valuesPath cfg) (Split (Ref parsed) (CHR ''#'') ! 0)) = None"
    and "HasData parsed" and "Validate env parsed = None"
  shows "resolve_Ref env cfg parsed = Inr parsed
     \<and> YamlToSchema_mapping env cfg (keyNode # valueNode # rest) schema required =
         YamlToSchema_mapping env cfg rest (assign_Property schema (Value keyNode) parsed) required
     \<and> YamlToSchema_mapping env cfg [keyNode, valueNode] schema required =
         Inr (assign_Property schema (Value keyNode) parsed, required)
     \<and> (\<exists>props. Properties (assign_Property schema (Value keyNode) parsed) = Some props
          \<and> map_of props (Value keyNode) = Some parsed)"
proof -
  have res: "resolve_Ref env cfg parsed = Inr parsed"
    using assms(3,4) by (rule resolve_Ref_missing_file)
  have val: "validate_or_infer env parsed v = Inr parsed" for v
    using assms(5,6) by (simp add: validate_or_infer_def)
  have step: "YamlToSchema_mapping env cfg (keyNode # valueNode # rest') schema required =
       YamlToSchema_mapping env cfg rest' (assign_Property schema (Value keyNode) parsed) required"
    for rest'
    using assms(1,2) res val by (simp add: YamlToSchema_mapping.simps(3))
  have look: "map_of (map_assign m k v) k = Some v" for m :: "(string \<times> Schema) list" and k v
    by (induction m) auto
  show ?thesis
    using res step [of rest] step [of "[]"] look by (simp add: assign_Property_def)
qed

lemma parse_ref:
  "parse_key_comment ref_env default_config
     (key_node ''image'' (annotation_comment ''$ref: other.json#/definitions/foo'')) =
   Inr (set_Ref ''other.json#/definitions/foo'' (set_HasData True emptySchema), [])"
  by (simp add: parse_key_comment_def annotation_comment_def
      ref_env_def accepting_env_def GetSchemaFromComment_def Scanner_lines_def dropCR_def
      HasPrefix_def SchemaPrefix_def TrimPrefix_def CommentPrefix_def Set_def)

lemma Validate_ref:
  "Validate ref_env (set_Ref ''other.json#/definitions/foo'' (set_HasData True emptySchema)) = None"
  by (simp add: Validate.simps ToJson_def ref_env_def accepting_env_def Set_def
      Validate_before_Items_def Validate_after_Items_def StringOrArrayOfString_Validate_def
      IsEmpty_def Matches_def)

theorem missing_ref_file_keeps_ref_witness:
  "parse_key_comment ref_env default_config
     (key_node ''image'' (annotation_comment ''$ref: other.json#/definitions/foo'')) =
     Inr (set_Ref ''other.json#/definitions/foo'' (set_HasData True emptySchema), [])
   \<and> Ref (set_Ref ''other.json#/definitions/foo'' (set_HasData True emptySchema)) = ''other.json#/definitions/foo''
   \<and> \<not> HasPrefix ''other.json#/definitions/foo'' ''#''
   \<and> Split ''other.json#/definitions/foo'' (CHR ''#'') = [''other.json'', ''/definitions/foo'']
   \<and> files ref_env (relative_path ref_env (valuesPath default_config) ''other.json'') = None
   \<and> HasData (set_Ref ''other.json#/definitions/foo'' (set_HasData True emptySchema))
   \<and> Validate ref_env (set_Ref ''other.json#/definitions/foo'' (set_HasData True emptySchema)) = None
   \<and> YamlToSchema ref_env default_config
       (mapping_node
         [key_node ''image'' (annotation_comment ''$ref: other.json#/definitions/foo''),
          string_node ''nginx''])
       (Some []) =
     Inr (assign_Property (NewSchema ''object'') ''image''
            (set_Ref ''other.json#/definitions/foo'' (set_HasData True emptySchema)), Some [])"
proof -
  let ?parsed = "set_Ref ''other.json#/definitions/foo'' (set_HasData True emptySchema)"
  let ?key = "key_node ''image'' (annotation_comment ''$ref: other.json#/definitions/foo'')"
  have ref: "Ref ?parsed = ''other.json#/definitions/foo''"
    by simp
  have nonempty: "Ref ?parsed \<noteq> []" and local: "\<not> HasPrefix (Ref ?parsed) ''#''"
    by (simp_all add: HasPrefix_def)
  have split: "Split ''other.json#/definitions/foo'' (CHR ''#'') = [''other.json'', ''/definitions/foo'']"
    by (simp add: Split_def)
  have missing: "files ref_env (relative_path ref_env (valuesPath default_config)
      (Split (Ref ?parsed) (CHR ''#'') ! 0)) = None"
    by (simp add: ref_env_def accepting_env_def)
  have data: "HasData ?parsed"
    by simp
  from missing_ref_file_keeps_ref [OF parse_ref nonempty local missing data Validate_ref,
      of "string_node ''nginx''" "[]" "NewSchema ''object''" "Some []"]
  have "YamlToSchema_mapping ref_env default_config [?key, string_node ''nginx'']
      (NewSchema ''object'') (Some []) =
      Inr (assign_Property (NewSchema ''object'') (Value ?key) ?parsed, Some [])"
    by simp
  then have run: "YamlToSchema ref_env default_config (mapping_node [?key, string_node ''nginx''])
      (Some []) = Inr (assign_Property (NewSchema ''object'') ''image'' ?parsed, Some [])"
    by (simp add: YamlToSchema.simps(1))
  from parse_ref ref local split missing data Validate_ref run show ?thesis
    by (simp add: split)
qed

end
